(* ===== verification/JS_Prelude.thy ===== *)
theory JS_Prelude
  imports Main "HOL-Library.Char_ord" "HOL-Library.Sublist"
begin

text \<open>
  The shared vocabulary of the development: the JavaScript string builtins that the chat
  widget calls (\<open>String.prototype.toLowerCase\<close>, \<open>includes\<close>, \<open>trim\<close> and
  \<open>split(/\s+/)\<close>), \<open>Math.min\<close> with three arguments, and the generic lemmas on
  them that the component theories use.  Strings are \<open>char list\<close>; a JavaScript string
  is a sequence of UTF-16 code units, and the model covers the ASCII range, where a code
  unit and an Isabelle \<open>char\<close> agree.  Case mapping and white space are therefore the
  ASCII ones: \<open>A\<close>..\<open>Z\<close> map to \<open>a\<close>..\<open>z\<close>, and \<open>\s\<close> is tab, line feed, vertical
  tab, form feed, carriage return and space.
\<close>

named_theorems js_simps "evaluation rules of the modelled JavaScript builtins"

subsection \<open>Characters\<close>

definition is_js_space :: "char \<Rightarrow> bool" where
  "is_js_space c \<longleftrightarrow>
     c = CHR 0x09 \<or> c = CHR 0x0A \<or> c = CHR 0x0B \<or> c = CHR 0x0C \<or> c = CHR 0x0D \<or> c = CHR '' ''"

definition js_lower_char :: "char \<Rightarrow> char" where
  "js_lower_char c =
     (if CHR ''A'' \<le> c \<and> c \<le> CHR ''Z'' then char_of (of_char c + (32::nat)) else c)"

subsection \<open>String builtins\<close>

text \<open>\<open>s.toLowerCase()\<close>\<close>

definition toLowerCase :: "string \<Rightarrow> string" where
  "toLowerCase s = map js_lower_char s"

text \<open>\<open>s.includes(t)\<close>: \<open>t\<close> occurs in \<open>s\<close> as a contiguous block.\<close>

definition js_includes :: "string \<Rightarrow> string \<Rightarrow> bool" where
  "js_includes s t \<longleftrightarrow> sublist t s"

text \<open>\<open>s.trim()\<close>\<close>

definition trim :: "string \<Rightarrow> string" where
  "trim s = rev (dropWhile is_js_space (rev (dropWhile is_js_space s)))"

text \<open>
  \<open>s.split(/\s+/)\<close>: every maximal run of white space separates two fields, so a leading
  run gives an empty first field, a trailing run an empty last field, and the empty string
  gives one empty field.  \<open>split_ws_from cur s\<close> holds the reversed characters of the
  field being read in \<open>cur\<close>.
\<close>

function split_ws_from :: "string \<Rightarrow> string \<Rightarrow> string list" where
  "split_ws_from cur [] = [rev cur]"
| "split_ws_from cur (c # cs) =
     (if is_js_space c then rev cur # split_ws_from [] (dropWhile is_js_space cs)
      else split_ws_from (c # cur) cs)"
  by pat_completeness auto
termination
  by (relation "measure (\<lambda>(cur, s). length s)") (auto simp: le_imp_less_Suc length_dropWhile_le)

definition split_ws :: "string \<Rightarrow> string list" where
  "split_ws s = split_ws_from [] s"

text \<open>
  \<open>xs.slice(start, end)\<close>: a negative bound counts from the end, and both bounds are
  clamped to \<open>[0, xs.length]\<close>.
\<close>

definition js_slice :: "'a list \<Rightarrow> int \<Rightarrow> int \<Rightarrow> 'a list" where
  "js_slice xs s e =
     (let len = int (length xs);
          s' = (if s < 0 then max (len + s) 0 else min s len);
          e' = (if e < 0 then max (len + e) 0 else min e len)
      in take (nat (e' - s')) (drop (nat s') xs))"

text \<open>
  A rendered React element: a tag or component name, its attributes as strings (a
  \<open>className\<close>, a link's \<open>to\<close>, \<open>\<dots>\<close>) and its children; or a text node.
  Event handlers are not attributes here: each component's step function models them.
\<close>

datatype vnode = El string "(string \<times> string) list" "vnode list" | Txt string

text \<open>The values of one attribute over a whole tree, in document order.\<close>

fun node_attrs :: "string \<Rightarrow> vnode \<Rightarrow> string list" where
  "node_attrs a (El tag attrs children) =
     map snd (filter (\<lambda>(k, v). k = a) attrs) @ concat (map (node_attrs a) children)"
| "node_attrs a (Txt s) = []"

text \<open>The classes of a tree: its \<open>className\<close> attributes split at white space.\<close>

definition node_classes :: "vnode \<Rightarrow> string list" where
  "node_classes v = concat (map split_ws (node_attrs ''className'' v))"

text \<open>\<open>String(n)\<close> on a non-negative integer and on an integer: decimal digits.\<close>

fun js_string_of_nat :: "nat \<Rightarrow> string" where
  "js_string_of_nat n =
     (if n < 10 then [char_of (48 + n)]
      else js_string_of_nat (n div 10) @ [char_of (48 + n mod 10)])"

definition js_string_of_int :: "int \<Rightarrow> string" where
  "js_string_of_int i =
     (if i < 0 then CHR ''-'' # js_string_of_nat (nat (- i)) else js_string_of_nat (nat i))"

text \<open>\<open>Math.min(x, y, z)\<close>\<close>

definition js_min3 :: "nat \<Rightarrow> nat \<Rightarrow> nat \<Rightarrow> nat" where
  "js_min3 x y z = min x (min y z)"

subsection \<open>Generic lemmas\<close>

text \<open>
  A property of every branch of an \<open>if\<close> chain: applied with the property given
  (\<open>[where P = \<dots>]\<close>), it takes a long \<open>else if\<close> chain apart without deciding its
  conditions.
\<close>

lemma if_pred: "P x \<Longrightarrow> P y \<Longrightarrow> P (if b then x else y)"
  by simp

subsection \<open>Lemmas on characters\<close>

lemma js_lower_char_lower:
  "\<not> (CHR ''A'' \<le> js_lower_char c \<and> js_lower_char c \<le> CHR ''Z'')"
proof -
  have upper: "CHR ''A'' \<le> d \<and> d \<le> CHR ''Z'' \<longleftrightarrow> (65::nat) \<le> of_char d \<and> of_char d \<le> (90::nat)" for d
    by (simp add: less_eq_char_def)
  show ?thesis
  proof (cases "CHR ''A'' \<le> c \<and> c \<le> CHR ''Z''")
    case True
    then have "of_char c \<le> (90::nat)" by (simp add: upper)
    then have "of_char (char_of (of_char c + (32::nat))) = of_char c + (32::nat)"
      by (simp add: of_char_of)
    with True show ?thesis by (simp add: js_lower_char_def upper)
  next
    case False
    then show ?thesis by (auto simp: js_lower_char_def)
  qed
qed

lemma js_lower_char_idem [simp]: "js_lower_char (js_lower_char c) = js_lower_char c"
  unfolding js_lower_char_def [of "js_lower_char c"] by (rule if_not_P [OF js_lower_char_lower])

lemma js_lower_char_space [simp]: "is_js_space c \<Longrightarrow> js_lower_char c = c"
  by (auto simp: is_js_space_def js_lower_char_def)

subsection \<open>Lemmas on the string builtins\<close>

lemma toLowerCase_simps [simp, js_simps]:
  "toLowerCase [] = []"
  "toLowerCase (c # s) = js_lower_char c # toLowerCase s"
  "toLowerCase (s @ t) = toLowerCase s @ toLowerCase t"
  by (simp_all add: toLowerCase_def)

lemma length_toLowerCase [simp]: "length (toLowerCase s) = length s"
  by (simp add: toLowerCase_def)

lemma toLowerCase_idem [simp]: "toLowerCase (toLowerCase s) = toLowerCase s"
  by (induction s) simp_all

lemma includes_Nil [simp]: "js_includes s []"
  by (simp add: js_includes_def)

lemma includes_refl [simp]: "js_includes s s"
  by (simp add: js_includes_def)

lemma includes_append: "js_includes s t \<Longrightarrow> js_includes (u @ s @ v) t"
  unfolding js_includes_def by (simp add: sublist_append)

lemma includes_length: "js_includes s t \<Longrightarrow> length t \<le> length s"
  unfolding js_includes_def by (rule sublist_length_le)

lemma includes_toLowerCase:
  "js_includes s t \<Longrightarrow> js_includes (toLowerCase s) (toLowerCase t)"
  unfolding js_includes_def toLowerCase_def by (rule map_mono_sublist)

lemma map_js_slice: "map f (js_slice xs s e) = js_slice (map f xs) s e"
  by (simp add: js_slice_def Let_def take_map drop_map)

lemma js_slice_distinct: "distinct xs \<Longrightarrow> distinct (js_slice xs s e)"
  by (simp add: js_slice_def Let_def distinct_take distinct_drop)

lemma node_classes_El [simp]:
  "node_classes (El t attrs cs) =
     concat (map split_ws (map snd (filter (\<lambda>(k, v). k = ''className'') attrs))) @
     concat (map node_classes cs)"
  by (induction cs) (simp_all add: node_classes_def)

lemma node_classes_Txt [simp]: "node_classes (Txt s) = []"
  by (simp add: node_classes_def)

lemma all_dropWhile_iff: "(\<forall>x \<in> set (dropWhile P xs). P x) \<longleftrightarrow> (\<forall>x \<in> set xs. P x)"
  by (induction xs) auto

lemma trim_Nil_iff: "trim s = [] \<longleftrightarrow> (\<forall>c \<in> set s. is_js_space c)"
  by (simp add: trim_def all_dropWhile_iff)

end
