(* ===== verification/Levenshtein.thy ===== *)
theory Levenshtein
  imports JS_Prelude
begin

text \<open>
  The edit-distance primitive of the chat widget, \<open>levenshteinDistance\<close> in
  \<open>src/src/components/home/ChatBot.tsx\<close> (lines 74--100), with its specification.
  \<^item> \<open>align xs ys n\<close> is the contract: \<open>xs\<close> is turned into \<open>ys\<close> by a left-to-right
    alignment of \<open>n\<close> single-character insertions, deletions and substitutions.
  \<^item> \<open>edit_distance\<close> is the recurrence the matrix cells follow: the distance of two
    prefixes from those of the prefixes one character shorter.
  \<^item> \<open>levenshteinDistance\<close> is the code: the early returns for empty strings, a matrix of
    \<open>null\<close> cells, the two initialisation loops and the nested filling loop, each loop a
    \<^theory_text>\<open>function\<close> with a measure.
  The theorems show that the code computes \<open>edit_distance\<close>, that \<open>edit_distance\<close> is the
  least cost of an alignment, and the algebraic facts the fuzzy matcher relies on.
\<close>

subsection \<open>Specification: alignments and the prefix recurrence\<close>

inductive align :: "'a list \<Rightarrow> 'a list \<Rightarrow> nat \<Rightarrow> bool" where
  align_Nil: "align [] [] 0"
| align_del: "align xs ys n \<Longrightarrow> align (xs @ [x]) ys (Suc n)"
| align_ins: "align xs ys n \<Longrightarrow> align xs (ys @ [y]) (Suc n)"
| align_sub: "align xs ys n \<Longrightarrow> align (xs @ [x]) (ys @ [y]) (n + (if x = y then 0 else 1))"

function edit_distance :: "'a list \<Rightarrow> 'a list \<Rightarrow> nat" where
  "edit_distance xs ys =
     (if xs = [] then length ys
      else if ys = [] then length xs
      else js_min3 (edit_distance (butlast xs) ys + 1)
                   (edit_distance xs (butlast ys) + 1)
                   (edit_distance (butlast xs) (butlast ys)
                      + (if last xs = last ys then 0 else 1)))"
  by pat_completeness auto
termination
  by (relation "measure (\<lambda>(xs, ys). length xs + length ys)")
    (auto simp flip: length_greater_0_conv)

declare edit_distance.simps [simp del]

subsection \<open>The code: a matrix of nullable cells\<close>

text \<open>
  \<open>Array(a.length + 1).fill(null).map(() => Array(b.length + 1).fill(null))\<close>: every
  cell starts as \<open>null\<close>, modelled as \<open>None\<close>.  JavaScript arithmetic reads \<open>null\<close> as
  \<open>0\<close> (\<open>null + 1 === 1\<close>), which \<open>js_num\<close> writes out.
\<close>

type_synonym cell = "nat option"
type_synonym matrix = "cell list list"

definition js_num :: "cell \<Rightarrow> nat" where
  "js_num c = (case c of None \<Rightarrow> 0 | Some v \<Rightarrow> v)"

definition get_cell :: "matrix \<Rightarrow> nat \<Rightarrow> nat \<Rightarrow> nat" where
  "get_cell m i j = js_num (m ! i ! j)"

definition set_cell :: "matrix \<Rightarrow> nat \<Rightarrow> nat \<Rightarrow> nat \<Rightarrow> matrix" where
  "set_cell m i j v = m[i := (m ! i)[j := Some v]]"

definition new_matrix :: "'a list \<Rightarrow> 'a list \<Rightarrow> matrix" where
  "new_matrix a b = replicate (length a + 1) (replicate (length b + 1) None)"

text \<open>\<open>for (let i = 0; i <= a.length; i++) matrix[i][0] = i\<close>\<close>

function init_col :: "nat \<Rightarrow> nat \<Rightarrow> matrix \<Rightarrow> matrix" where
  "init_col n i m = (if i \<le> n then init_col n (Suc i) (set_cell m i 0 i) else m)"
  by pat_completeness auto
termination
  by (relation "measure (\<lambda>(n, i, m). Suc n - i)") auto

text \<open>\<open>for (let j = 0; j <= b.length; j++) matrix[0][j] = j\<close>\<close>

function init_row :: "nat \<Rightarrow> nat \<Rightarrow> matrix \<Rightarrow> matrix" where
  "init_row n j m = (if j \<le> n then init_row n (Suc j) (set_cell m 0 j j) else m)"
  by pat_completeness auto
termination
  by (relation "measure (\<lambda>(n, j, m). Suc n - j)") auto

text \<open>The inner loop over \<open>j\<close> for one row \<open>i\<close>, and the outer loop over \<open>i\<close>.\<close>

function fill_row :: "'a list \<Rightarrow> 'a list \<Rightarrow> nat \<Rightarrow> nat \<Rightarrow> matrix \<Rightarrow> matrix" where
  "fill_row a b i j m =
     (if j \<le> length b then
        (let cost = (if a ! (i - 1) = b ! (j - 1) then 0 else 1)
         in fill_row a b i (Suc j)
              (set_cell m i j
                 (js_min3 (get_cell m (i - 1) j + 1)
                          (get_cell m i (j - 1) + 1)
                          (get_cell m (i - 1) (j - 1) + cost))))
      else m)"
  by pat_completeness auto
termination
  by (relation "measure (\<lambda>(a, b, i, j, m). Suc (length b) - j)") auto

function fill_rows :: "'a list \<Rightarrow> 'a list \<Rightarrow> nat \<Rightarrow> matrix \<Rightarrow> matrix" where
  "fill_rows a b i m =
     (if i \<le> length a then fill_rows a b (Suc i) (fill_row a b i 1 m) else m)"
  by pat_completeness auto
termination
  by (relation "measure (\<lambda>(a, b, i, m). Suc (length a) - i)") auto

declare init_col.simps [simp del] init_row.simps [simp del]
  fill_row.simps [simp del] fill_rows.simps [simp del]

definition levenshteinDistance :: "'a list \<Rightarrow> 'a list \<Rightarrow> nat" where
  "levenshteinDistance a b =
     (if length a = 0 then length b
      else if length b = 0 then length a
      else
        (let m0 = new_matrix a b;
             m1 = init_col (length a) 0 m0;
             m2 = init_row (length b) 0 m1;
             m3 = fill_rows a b 1 m2
         in get_cell m3 (length a) (length b)))"

subsection \<open>The invariant of the matrix loops\<close>

definition shape :: "matrix \<Rightarrow> nat \<Rightarrow> nat \<Rightarrow> bool" where
  "shape m r c \<longleftrightarrow> length m = r \<and> (\<forall>k < r. length (m ! k) = c)"

text \<open>
  The loop invariant of the filling phase: the matrix keeps its shape, and every cell of
  row 0, of column 0, of a row before \<open>i\<close>, or of row \<open>i\<close> before column \<open>j\<close> holds the
  distance of the two prefixes it indexes.
\<close>

definition done_cell :: "nat \<Rightarrow> nat \<Rightarrow> nat \<Rightarrow> nat \<Rightarrow> bool" where
  "done_cell i j k l \<longleftrightarrow> k = 0 \<or> l = 0 \<or> k < i \<or> (k = i \<and> l < j)"

definition dp_inv :: "'a list \<Rightarrow> 'a list \<Rightarrow> nat \<Rightarrow> nat \<Rightarrow> matrix \<Rightarrow> bool" where
  "dp_inv a b i j m \<longleftrightarrow> shape m (Suc (length a)) (Suc (length b)) \<and>
     (\<forall>k \<le> length a. \<forall>l \<le> length b. done_cell i j k l \<longrightarrow>
        m ! k ! l = Some (edit_distance (take k a) (take l b)))"

subsection \<open>The recurrence\<close>

lemma edit_distance_Nil1 [simp]: "edit_distance [] ys = length ys"
  by (simp add: edit_distance.simps)

lemma edit_distance_Nil2 [simp]: "edit_distance xs [] = length xs"
  by (simp add: edit_distance.simps)

lemma edit_distance_snoc:
  "edit_distance (xs @ [x]) (ys @ [y]) =
     js_min3 (edit_distance xs (ys @ [y]) + 1) (edit_distance (xs @ [x]) ys + 1)
             (edit_distance xs ys + (if x = y then 0 else 1))"
  by (simp add: edit_distance.simps [of "xs @ [x]"])

lemma edit_distance_del_le: "edit_distance (xs @ [x]) ys \<le> Suc (edit_distance xs ys)"
proof (cases ys rule: rev_cases)
  case Nil
  then show ?thesis by simp
next
  case (snoc ys' y)
  then show ?thesis by (simp add: edit_distance_snoc js_min3_def)
qed

lemma edit_distance_ins_le: "edit_distance xs (ys @ [y]) \<le> Suc (edit_distance xs ys)"
proof (cases xs rule: rev_cases)
  case Nil
  then show ?thesis by simp
next
  case (snoc xs' x)
  then show ?thesis by (simp add: edit_distance_snoc js_min3_def)
qed

lemma edit_distance_sub_le:
  "edit_distance (xs @ [x]) (ys @ [y]) \<le> edit_distance xs ys + (if x = y then 0 else 1)"
  by (simp add: edit_distance_snoc js_min3_def)

subsection \<open>Alignments\<close>

lemma align_Nil_left: "align [] ys (length ys)"
proof (induction ys rule: rev_induct)
  case Nil
  show ?case using align_Nil by simp
next
  case (snoc y ys)
  then show ?case using align_ins by fastforce
qed

lemma align_Nil_right: "align xs [] (length xs)"
proof (induction xs rule: rev_induct)
  case Nil
  show ?case using align_Nil by simp
next
  case (snoc x xs)
  then show ?case using align_del by fastforce
qed

lemma align_edit_distance: "align xs ys (edit_distance xs ys)"
proof (induction xs ys rule: edit_distance.induct)
  case (1 xs ys)
  show ?case
  proof (cases "xs = [] \<or> ys = []")
    case True
    then show ?thesis using align_Nil_left align_Nil_right by auto
  next
    case False
    then obtain xs' x ys' y where xs: "xs = xs' @ [x]" and ys: "ys = ys' @ [y]"
      by (metis rev_exhaust)
    with False "1.IH" have d: "align xs' ys (edit_distance xs' ys)"
      and i: "align xs ys' (edit_distance xs ys')"
      and s: "align xs' ys' (edit_distance xs' ys')"
      by simp_all
    from xs ys have
      "edit_distance xs ys = js_min3 (Suc (edit_distance xs' ys)) (Suc (edit_distance xs ys'))
         (edit_distance xs' ys' + (if x = y then 0 else 1))"
      by (simp add: edit_distance_snoc)
    moreover have "align xs ys (Suc (edit_distance xs' ys))"
      using align_del [OF d] xs by simp
    moreover have "align xs ys (Suc (edit_distance xs ys'))"
      using align_ins [OF i] ys by simp
    moreover have "align xs ys (edit_distance xs' ys' + (if x = y then 0 else 1))"
      using align_sub [OF s] xs ys by simp
    ultimately show ?thesis
      by (simp add: js_min3_def min_def)
  qed
qed

lemma align_edit_distance_le: "align xs ys n \<Longrightarrow> edit_distance xs ys \<le> n"
proof (induction rule: align.induct)
  case align_Nil
  show ?case by simp
next
  case (align_del xs ys n x)
  then show ?case using edit_distance_del_le [of xs x ys] by simp
next
  case (align_ins xs ys n y)
  then show ?case using edit_distance_ins_le [of xs ys y] by simp
next
  case (align_sub xs ys n x y)
  then show ?case using edit_distance_sub_le [of xs x ys y] by simp
qed

lemma edit_distance_is_least: "edit_distance xs ys = (LEAST n. align xs ys n)"
  by (rule Least_equality [symmetric]) (simp_all add: align_edit_distance align_edit_distance_le)

subsection \<open>The matrix\<close>

lemma shape_set_cell [simp]:
  "i < r \<Longrightarrow> shape m r c \<Longrightarrow> shape (set_cell m i j v) r c"
  by (simp add: shape_def set_cell_def nth_list_update)

lemma set_cell_nth:
  "shape m r c \<Longrightarrow> i < r \<Longrightarrow> j < c \<Longrightarrow> k < r \<Longrightarrow>
   set_cell m i j v ! k ! l = (if k = i \<and> l = j then Some v else m ! k ! l)"
  by (simp add: shape_def set_cell_def nth_list_update)

lemma shape_new_matrix: "shape (new_matrix a b) (Suc (length a)) (Suc (length b))"
  by (simp add: shape_def new_matrix_def del: replicate_Suc)

lemma init_col_shape: "shape m (Suc n) c \<Longrightarrow> shape (init_col n i m) (Suc n) c"
  by (induction n i m rule: init_col.induct) (simp add: init_col.simps)

lemma init_col_nth:
  "shape m (Suc n) c \<Longrightarrow> 0 < c \<Longrightarrow> k \<le> n \<Longrightarrow> l < c \<Longrightarrow>
   init_col n i m ! k ! l = (if i \<le> k \<and> l = 0 then Some k else m ! k ! l)"
proof (induction n i m rule: init_col.induct)
  case (1 n i m)
  then show ?case
    by (subst init_col.simps) (auto simp: set_cell_nth)
qed

lemma init_row_shape: "shape m r (Suc n) \<Longrightarrow> 0 < r \<Longrightarrow> shape (init_row n j m) r (Suc n)"
  by (induction n j m rule: init_row.induct) (simp add: init_row.simps)

lemma init_row_nth:
  "shape m r (Suc n) \<Longrightarrow> 0 < r \<Longrightarrow> k < r \<Longrightarrow> l \<le> n \<Longrightarrow>
   init_row n j m ! k ! l = (if k = 0 \<and> j \<le> l then Some l else m ! k ! l)"
proof (induction n j m rule: init_row.induct)
  case (1 n j m)
  then show ?case
    by (subst init_row.simps) (auto simp: set_cell_nth)
qed

lemma edit_distance_take_step:
  assumes "0 < i" "i \<le> length a" "0 < j" "j \<le> length b"
  shows "edit_distance (take i a) (take j b) =
    js_min3 (edit_distance (take (i - 1) a) (take j b) + 1)
            (edit_distance (take i a) (take (j - 1) b) + 1)
            (edit_distance (take (i - 1) a) (take (j - 1) b)
               + (if a ! (i - 1) = b ! (j - 1) then 0 else 1))"
proof -
  from assms have "take i a = take (i - 1) a @ [a ! (i - 1)]"
    and "take j b = take (j - 1) b @ [b ! (j - 1)]"
    by (simp_all add: take_Suc_conv_app_nth [symmetric])
  then show ?thesis by (simp add: edit_distance_snoc)
qed

lemma dp_inv_cell:
  assumes "dp_inv a b i j m" "k \<le> length a" "l \<le> length b" "done_cell i j k l"
  shows "get_cell m k l = edit_distance (take k a) (take l b)"
proof -
  from assms have "m ! k ! l = Some (edit_distance (take k a) (take l b))"
    unfolding dp_inv_def by blast
  then show ?thesis by (simp add: get_cell_def js_num_def)
qed

lemma dp_inv_set_cell:
  assumes inv: "dp_inv a b i j m" and i: "0 < i" "i \<le> length a" and j: "j \<le> length b"
    and v: "v = edit_distance (take i a) (take j b)"
  shows "dp_inv a b i (Suc j) (set_cell m i j v)"
proof -
  have sh: "shape m (Suc (length a)) (Suc (length b))"
    using inv by (simp add: dp_inv_def)
  show ?thesis
    unfolding dp_inv_def
  proof (intro conjI allI impI)
    show "shape (set_cell m i j v) (Suc (length a)) (Suc (length b))"
      using sh i by simp
  next
    fix k l
    assume k: "k \<le> length a" and l: "l \<le> length b" and d: "done_cell i (Suc j) k l"
    show "set_cell m i j v ! k ! l = Some (edit_distance (take k a) (take l b))"
    proof (cases "k = i \<and> l = j")
      case True
      with sh i j v show ?thesis by (simp add: set_cell_nth)
    next
      case False
      with d have "done_cell i j k l" by (auto simp: done_cell_def)
      with inv k l have "m ! k ! l = Some (edit_distance (take k a) (take l b))"
        unfolding dp_inv_def by blast
      with False sh i j k show ?thesis by (auto simp: set_cell_nth)
    qed
  qed
qed

lemma dp_inv_step:
  assumes inv: "dp_inv a b i j m" and i: "0 < i" "i \<le> length a" and j: "0 < j" "j \<le> length b"
  shows "dp_inv a b i (Suc j) (set_cell m i j
           (js_min3 (get_cell m (i - 1) j + 1) (get_cell m i (j - 1) + 1)
              (get_cell m (i - 1) (j - 1) + (if a ! (i - 1) = b ! (j - 1) then 0 else 1))))"
proof (rule dp_inv_set_cell [OF inv i j(2)])
  show "js_min3 (get_cell m (i - 1) j + 1) (get_cell m i (j - 1) + 1)
          (get_cell m (i - 1) (j - 1) + (if a ! (i - 1) = b ! (j - 1) then 0 else 1))
        = edit_distance (take i a) (take j b)"
    using i j by (simp add: dp_inv_cell [OF inv] done_cell_def edit_distance_take_step)
qed

lemma dp_inv_mono:
  assumes "dp_inv a b i j m" "\<And>k l. l \<le> length b \<Longrightarrow> done_cell i' j' k l \<Longrightarrow> done_cell i j k l"
  shows "dp_inv a b i' j' m"
  using assms unfolding dp_inv_def by blast

lemma fill_row_inv:
  "dp_inv a b i j m \<Longrightarrow> 0 < i \<Longrightarrow> i \<le> length a \<Longrightarrow> 0 < j \<Longrightarrow>
   dp_inv a b i (Suc (length b)) (fill_row a b i j m)"
proof (induction a b i j m rule: fill_row.induct)
  case (1 a b i j m)
  show ?case
  proof (cases "j \<le> length b")
    case True
    with "1.prems" have "dp_inv a b i (Suc j) (set_cell m i j
           (js_min3 (get_cell m (i - 1) j + 1) (get_cell m i (j - 1) + 1)
              (get_cell m (i - 1) (j - 1) + (if a ! (i - 1) = b ! (j - 1) then 0 else 1))))"
      by (intro dp_inv_step) simp_all
    with True "1.IH" "1.prems" show ?thesis
      by (simp add: fill_row.simps [of a b i j m] Let_def)
  next
    case False
    with "1.prems"(1) have "dp_inv a b i (Suc (length b)) m"
      by (rule_tac dp_inv_mono) (auto simp: done_cell_def)
    with False show ?thesis
      by (simp add: fill_row.simps [of a b i j m])
  qed
qed

lemma dp_inv_next_row:
  "dp_inv a b i (Suc (length b)) m \<Longrightarrow> dp_inv a b (Suc i) 1 m"
  by (erule dp_inv_mono) (auto simp: done_cell_def)

lemma fill_rows_inv:
  "dp_inv a b i 1 m \<Longrightarrow> 0 < i \<Longrightarrow> dp_inv a b (Suc (length a)) 1 (fill_rows a b i m)"
proof (induction a b i m rule: fill_rows.induct)
  case (1 a b i m)
  show ?case
  proof (cases "i \<le> length a")
    case True
    with "1.prems" have "dp_inv a b i (Suc (length b)) (fill_row a b i 1 m)"
      by (intro fill_row_inv) simp_all
    then have "dp_inv a b (Suc i) 1 (fill_row a b i 1 m)"
      by (rule dp_inv_next_row)
    with True "1.IH" show ?thesis
      by (simp add: fill_rows.simps [of a b i m])
  next
    case False
    with "1.prems"(1) have "dp_inv a b (Suc (length a)) 1 m"
      by (rule_tac dp_inv_mono) (auto simp: done_cell_def)
    with False show ?thesis
      by (simp add: fill_rows.simps [of a b i m])
  qed
qed

lemma dp_inv_init:
  "dp_inv a b 1 1 (init_row (length b) 0 (init_col (length a) 0 (new_matrix a b)))"
proof -
  let ?m1 = "init_col (length a) 0 (new_matrix a b)"
  have s1: "shape ?m1 (Suc (length a)) (Suc (length b))"
    by (rule init_col_shape [OF shape_new_matrix])
  have c1: "?m1 ! k ! 0 = Some k" if "k \<le> length a" for k
    using that by (simp add: init_col_nth [OF shape_new_matrix])
  have "init_row (length b) 0 ?m1 ! k ! l =
          (if k = 0 then Some l else if l = 0 then Some k else ?m1 ! k ! l)"
    if "k \<le> length a" "l \<le> length b" for k l
    using that by (simp add: init_row_nth [OF s1] c1)
  then show ?thesis
    using init_row_shape [OF s1] by (auto simp: dp_inv_def done_cell_def)
qed

lemma levenshteinDistance_correct [simp]: "levenshteinDistance a b = edit_distance a b"
proof (cases "a = [] \<or> b = []")
  case True
  then show ?thesis by (auto simp: levenshteinDistance_def)
next
  case False
  let ?m2 = "init_row (length b) 0 (init_col (length a) 0 (new_matrix a b))"
  have "dp_inv a b (Suc (length a)) 1 (fill_rows a b 1 ?m2)"
    by (rule fill_rows_inv [OF dp_inv_init]) simp
  then have "get_cell (fill_rows a b 1 ?m2) (length a) (length b) = edit_distance a b"
    by (simp add: dp_inv_cell done_cell_def)
  with False show ?thesis by (simp add: levenshteinDistance_def)
qed

subsection \<open>Properties of the distance\<close>

lemma edit_distance_refl [simp]: "edit_distance xs xs = 0"
proof (induction xs rule: rev_induct)
  case Nil
  show ?case by simp
next
  case (snoc x xs)
  then show ?case using edit_distance_sub_le [of xs x xs x] by simp
qed

lemma edit_distance_sym: "edit_distance xs ys = edit_distance ys xs"
proof (induction xs ys rule: edit_distance.induct)
  case (1 xs ys)
  show ?case
  proof (cases "xs = [] \<or> ys = []")
    case True
    then show ?thesis by auto
  next
    case False
    with "1.IH" show ?thesis
      by (simp add: edit_distance.simps [of xs ys] edit_distance.simps [of ys xs] js_min3_def
          min.commute min.left_commute eq_commute)
  qed
qed

lemma align_length_diff: "align xs ys n \<Longrightarrow> length xs - length ys \<le> n \<and> length ys - length xs \<le> n"
  by (induction rule: align.induct) auto

lemma edit_distance_length_diff:
  "length xs - length ys \<le> edit_distance xs ys \<and> length ys - length xs \<le> edit_distance xs ys"
  by (rule align_length_diff [OF align_edit_distance])

lemma edit_distance_le_max: "edit_distance xs ys \<le> max (length xs) (length ys)"
proof (induction xs ys rule: edit_distance.induct)
  case (1 xs ys)
  show ?case
  proof (cases "xs = [] \<or> ys = []")
    case True
    then show ?thesis by auto
  next
    case False
    with "1.IH"(3) have ih: "edit_distance (butlast xs) (butlast ys)
        \<le> max (length xs - 1) (length ys - 1)" by simp
    from False have "edit_distance xs ys \<le> edit_distance (butlast xs) (butlast ys) + 1"
      by (simp add: edit_distance.simps [of xs ys] js_min3_def min_le_iff_disj)
    moreover from False have "0 < length xs" "0 < length ys" by simp_all
    ultimately show ?thesis using ih by linarith
  qed
qed

lemma edit_distance_eq_0_iff [simp]: "edit_distance xs ys = 0 \<longleftrightarrow> xs = ys"
proof
  assume "edit_distance xs ys = 0"
  then have "align xs ys 0" using align_edit_distance [of xs ys] by simp
  then show "xs = ys"
    by (induction xs ys "0::nat" rule: align.induct) (auto split: if_splits)
qed simp

subsection \<open>What the code computes\<close>

text \<open>
  C1.  \<open>levenshteinDistance a b\<close> is the least number of single-character insertions,
  deletions and substitutions of an alignment that turns \<open>a\<close> into \<open>b\<close>: the code
  meets the contract of the edit-distance primitive.
\<close>

theorem levenshteinDistance_spec: "levenshteinDistance a b = (LEAST n. align a b n)"
  by (simp add: edit_distance_is_least)

text \<open>
  C14.  The tested values of the primitive: the distance of a string to itself is 0, from
  the empty string it is the length of the other, and \<open>kitten\<close> is 3 edits from
  \<open>sitting\<close>.
\<close>

theorem levenshteinDistance_values:
  "levenshteinDistance s s = 0 \<and> levenshteinDistance [] s = length s \<and>
   levenshteinDistance ''kitten'' ''sitting'' = 3"
proof (intro conjI)
  show "levenshteinDistance ''kitten'' ''sitting'' = 3"
    by code_simp
qed (simp_all add: levenshteinDistance_def)

text \<open>
  C15.  The distance the code computes is symmetric, although the matrix is filled in one
  direction, and it lies between the difference of the lengths and the larger length.
\<close>

theorem levenshteinDistance_sym_bounds:
  "levenshteinDistance a b = levenshteinDistance b a \<and>
   length a - length b \<le> levenshteinDistance a b \<and>
   length b - length a \<le> levenshteinDistance a b \<and>
   levenshteinDistance a b \<le> max (length a) (length b)"
  using edit_distance_sym [of a b] edit_distance_length_diff [of a b] edit_distance_le_max [of a b]
  by simp

end
