(* ===== verification/Fuzzy_Match.thy ===== *)
theory Fuzzy_Match
  imports Levenshtein
begin

text \<open>
  The typo-tolerant keyword test of the chat widget, \<open>fuzzyMatch\<close> in
  \<open>src/src/components/home/ChatBot.tsx\<close> (lines 37--71).  The input is lower-cased; if
  some term occurs in it, the test succeeds at once (the exact pass, \<open>terms.some\<close>).
  Otherwise the loop over the terms compares the whole input with each term: a term of at
  most 3 characters must be within distance 1, a longer one within
  \<open>Math.ceil(term.length * 0.3)\<close>, and a longer term also matches when one
  white-space separated word of the input is within that distance.
  \<open>term_matches\<close> states, for one term, what the loop tests; the theorems show that
  \<open>fuzzyMatch\<close> succeeds exactly when some term matches in that sense, so the order of the
  terms and the early returns do not change the answer.
\<close>

subsection \<open>The code\<close>

text \<open>
  \<open>Math.ceil(term.length * 0.3)\<close> on a length \<open>n\<close>: the least integer not below
  \<open>3n/10\<close>.  The double \<open>0.3\<close> is slightly below \<open>3/10\<close> and the product is rounded to
  nearest, so where \<open>3n/10\<close> is an integer the product rounds to it or below, and elsewhere
  \<open>3n/10\<close> is at least \<open>0.1\<close> from an integer; the ceiling of the double product is
  therefore the exact one for every length a string can have.
\<close>

definition max_distance :: "nat \<Rightarrow> nat" where
  "max_distance n = (3 * n + 9) div 10"

text \<open>\<open>for (const word of words) if (levenshteinDistance(word, term.toLowerCase()) <= maxDistance) return true\<close>\<close>

fun word_match :: "string list \<Rightarrow> string \<Rightarrow> nat \<Rightarrow> bool" where
  "word_match [] term maxDistance = False"
| "word_match (word # words) term maxDistance =
     (if levenshteinDistance word (toLowerCase term) \<le> maxDistance then True
      else word_match words term maxDistance)"

text \<open>The loop \<open>for (const term of terms)\<close> of the fuzzy pass.\<close>

fun fuzzy_terms :: "string \<Rightarrow> string list \<Rightarrow> bool" where
  "fuzzy_terms normalizedInput [] = False"
| "fuzzy_terms normalizedInput (term # terms) =
     (if length term \<le> 3 then
        (if levenshteinDistance normalizedInput (toLowerCase term) \<le> 1 then True
         else fuzzy_terms normalizedInput terms)
      else
        (let maxDistance = max_distance (length term)
         in if levenshteinDistance normalizedInput (toLowerCase term) \<le> maxDistance then True
            else if word_match (split_ws normalizedInput) term maxDistance then True
            else fuzzy_terms normalizedInput terms))"

definition fuzzyMatch :: "string \<Rightarrow> string list \<Rightarrow> bool" where
  "fuzzyMatch input terms =
     (let normalizedInput = toLowerCase input
      in if list_ex (\<lambda>term. js_includes normalizedInput (toLowerCase term)) terms then True
         else fuzzy_terms normalizedInput terms)"

subsection \<open>Specification: when one term matches\<close>

definition term_matches :: "string \<Rightarrow> string \<Rightarrow> bool" where
  "term_matches s t \<longleftrightarrow>
     js_includes s (toLowerCase t) \<or>
     (if length t \<le> 3 then edit_distance s (toLowerCase t) \<le> 1
      else edit_distance s (toLowerCase t) \<le> max_distance (length t) \<or>
           (\<exists>w \<in> set (split_ws s). edit_distance w (toLowerCase t) \<le> max_distance (length t)))"

subsection \<open>Lemmas\<close>

lemma word_match_iff:
  "word_match words t d \<longleftrightarrow> (\<exists>w \<in> set words. edit_distance w (toLowerCase t) \<le> d)"
  by (induction words) auto

lemma fuzzy_terms_iff:
  "fuzzy_terms s terms \<longleftrightarrow>
     (\<exists>t \<in> set terms.
        if length t \<le> 3 then edit_distance s (toLowerCase t) \<le> 1
        else edit_distance s (toLowerCase t) \<le> max_distance (length t) \<or>
             (\<exists>w \<in> set (split_ws s). edit_distance w (toLowerCase t) \<le> max_distance (length t)))"
  by (induction terms) (auto simp: word_match_iff Let_def)

lemma fuzzyMatch_exact:
  "t \<in> set terms \<Longrightarrow> js_includes (toLowerCase input) (toLowerCase t) \<Longrightarrow> fuzzyMatch input terms"
  by (auto simp: fuzzyMatch_def list_ex_iff Let_def)

lemma fuzzyMatch_lower [simp]: "fuzzyMatch (toLowerCase input) terms = fuzzyMatch input terms"
  by (simp add: fuzzyMatch_def)

subsection \<open>What the matcher decides\<close>

text \<open>
  C2.  \<open>fuzzyMatch\<close> succeeds exactly when some term matches the lower-cased input: it
  occurs in it, or (a term of at most 3 characters) the whole input is within distance 1
  of it, or (a longer term) the whole input or one of its words is within
  \<open>Math.ceil(0.3 * length)\<close> of it.  The exact pass, the order of the terms and the
  early returns do not change the answer.
\<close>

theorem fuzzyMatch_spec:
  "fuzzyMatch input terms \<longleftrightarrow> (\<exists>t \<in> set terms. term_matches (toLowerCase input) t)"
  by (auto simp: fuzzyMatch_def term_matches_def fuzzy_terms_iff list_ex_iff Let_def)

text \<open>
  The integer form of \<open>Math.ceil(term.length * 0.3)\<close> is exact:
  \<open>max_distance\<close> is the ceiling of 30\<percent> of the term's length, the least number whose tenfold is at least three times the length.
\<close>

lemma max_distance_ceiling:
  "3 * n \<le> 10 * max_distance n \<and> 10 * max_distance n < 3 * n + 10"
  by (simp add: max_distance_def) presburger

end
