(* ===== verification/Responses.thy ===== *)
theory Responses
  imports JS_Prelude Complex_Main
begin

text \<open>
  The response catalogue of the chat widget in \<open>src/src/components/home/ChatBot.tsx\<close>:
  the categories (the keys of \<open>botResponses\<close>, lines 102--338), the canned replies of
  each, \<open>getRandomResponse\<close> (lines 340--344) and \<open>getCategoryLinks\<close> (lines
  346--404).  Reply texts are the source's, byte for byte: characters outside ASCII (the
  emoji and the rupee sign) are written as their UTF-8 bytes.  \<open>Math.random()\<close> is the
  parameter \<open>r\<close> of \<open>getRandomResponse\<close>, a real number in \<open>[0, 1)\<close>.
\<close>

datatype category =
    Greetings
  | HowAreYou
  | Name
  | Thanks
  | Bored
  | Games
  | Puzzle
  | Challenge
  | Newest
  | Download
  | Offline
  | Mobile
  | Educational
  | Horror
  | Kits
  | BeginnerKits
  | Safe
  | Robotics
  | Science
  | Manuals
  | OrderOnline
  | Returns
  | Creative
  | Cost
  | Coolest
  | TestApps
  | MakeSomething
  | StudentMade
  | OpenSource
  | LearnAppDev
  | Internships
  | Confused
  | Cute
  | WhoMadeYou
  | JoinReview
  | BuildApps
  | Blog
  | Events
  | Social
  | LoveSite
  | Bye
  | Studios
  | Labs
  | About
  | Help
  | Login
  | Default

text \<open>The key of each category in \<open>botResponses\<close>, as \<open>keyof typeof botResponses\<close> names it.\<close>

primrec category_key :: "category \<Rightarrow> string" where
    "category_key Greetings = ''greetings''"
  | "category_key HowAreYou = ''howAreYou''"
  | "category_key Name = ''name''"
  | "category_key Thanks = ''thanks''"
  | "category_key Bored = ''bored''"
  | "category_key Games = ''games''"
  | "category_key Puzzle = ''puzzle''"
  | "category_key Challenge = ''challenge''"
  | "category_key Newest = ''newest''"
  | "category_key Download = ''download''"
  | "category_key Offline = ''offline''"
  | "category_key Mobile = ''mobile''"
  | "category_key Educational = ''educational''"
  | "category_key Horror = ''horror''"
  | "category_key Kits = ''kits''"
  | "category_key BeginnerKits = ''beginnerKits''"
  | "category_key Safe = ''safe''"
  | "category_key Robotics = ''robotics''"
  | "category_key Science = ''science''"
  | "category_key Manuals = ''manuals''"
  | "category_key OrderOnline = ''orderOnline''"
  | "category_key Returns = ''returns''"
  | "category_key Creative = ''creative''"
  | "category_key Cost = ''cost''"
  | "category_key Coolest = ''coolest''"
  | "category_key TestApps = ''testApps''"
  | "category_key MakeSomething = ''makeSomething''"
  | "category_key StudentMade = ''studentMade''"
  | "category_key OpenSource = ''openSource''"
  | "category_key LearnAppDev = ''learnAppDev''"
  | "category_key Internships = ''internships''"
  | "category_key Confused = ''confused''"
  | "category_key Cute = ''cute''"
  | "category_key WhoMadeYou = ''whoMadeYou''"
  | "category_key JoinReview = ''joinReview''"
  | "category_key BuildApps = ''buildApps''"
  | "category_key Blog = ''blog''"
  | "category_key Events = ''events''"
  | "category_key Social = ''social''"
  | "category_key LoveSite = ''loveSite''"
  | "category_key Bye = ''bye''"
  | "category_key Studios = ''studios''"
  | "category_key Labs = ''labs''"
  | "category_key About = ''about''"
  | "category_key Help = ''help''"
  | "category_key Login = ''login''"
  | "category_key Default = ''default''"

primrec botResponses :: "category \<Rightarrow> string list" where
    "botResponses Greetings =
     [''Hey hey! '' @ [CHR 0xF0, CHR 0x9F, CHR 0x98, CHR 0x8A] @ '' What can I do for you today?'',
      ''Hi there! '' @ [CHR 0xF0, CHR 0x9F, CHR 0x8C, CHR 0x9F] @ '' I'm Revy. How's it going?'',
      ''Hey! '' @ [CHR 0xF0, CHR 0x9F, CHR 0x98, CHR 0x84] @ '' Ready for some fun today?'']"
  | "botResponses HowAreYou =
     [''I'm vibin', thanks for asking! How about you? '' @ [CHR 0xF0, CHR 0x9F, CHR 0x98, CHR 0x8E],
      ''All systems go and feeling great! How's your day going? '' @ [CHR 0xE2, CHR 0x9C, CHR 0xA8],
      ''Just chillin' in the digital realm! You? '' @ [CHR 0xF0, CHR 0x9F, CHR 0xA4, CHR 0x96, CHR 0xF0, CHR 0x9F, CHR 0x92, CHR 0x99]]"
  | "botResponses Name =
     [''I'm Revy! Your friendly neighborhood bot with all the cool stuff! '' @ [CHR 0xF0, CHR 0x9F, CHR 0xA4, CHR 0x96, CHR 0xE2, CHR 0x9C, CHR 0xA8],
      ''Name's Revy! Here to chat, help, and maybe crack a joke or two! '' @ [CHR 0xF0, CHR 0x9F, CHR 0x98, CHR 0x84],
      ''Revy at your service! That's me - your digital buddy from Re-View! '' @ [CHR 0xF0, CHR 0x9F, CHR 0x9A, CHR 0x80]]"
  | "botResponses Thanks =
     [''Anytime! That's what I'm here for! Need anything else? '' @ [CHR 0xF0, CHR 0x9F, CHR 0x98, CHR 0x8A],
      ''No prob! Just doing my bot thing! What else can I help with? '' @ [CHR 0xF0, CHR 0x9F, CHR 0xA4, CHR 0x96],
      ''You're welcome! Hit me up if you need more help! '' @ [CHR 0xF0, CHR 0x9F, CHR 0x92, CHR 0xAF]]"
  | "botResponses Bored =
     [''Say less! Let's get your brain buzzing '' @ [CHR 0xF0, CHR 0x9F, CHR 0xA7, CHR 0xA0] @ '' Check out our games section!'',
      ''Boredom? I got the cure! How about some fun games to pass the time?'',
      ''I feel you! Let's fix that with some exciting games we've got!'']"
  | "botResponses Games =
     [''Fun? I gotchu '' @ [CHR 0xF0, CHR 0x9F, CHR 0x8E, CHR 0x89] @ '' We've got puzzles, challenges, and brain teasers. What's your style?'',
      ''Game time! We have everything from casual to hardcore. What are you in the mood for?'',
      ''We have tons of games - offline, online, puzzles, action, you name it! Want specifics?'']"
  | "botResponses Puzzle =
     [''Yep! Sudoku, logic games, and more await '' @ [CHR 0xF0, CHR 0x9F, CHR 0xA7, CHR 0xA0, CHR 0xE2, CHR 0x9C, CHR 0xA8] @ '' Perfect for giving your brain a workout!'',
      ''Puzzle fan? Same! We've got mind-benders that'll keep you busy for hours!'',
      ''Love a good puzzle? Try our Sudoku Sensei or Logic Labyrinth games. They're addictive!'']"
  | "botResponses Challenge =
     [''Dare accepted. Start with our toughest level in Sudoku Sensei '' @ [CHR 0xF0, CHR 0x9F, CHR 0xA5, CHR 0xB7] @ '' or try the impossible mode in Logic Maze!'',
      ''Oh, you want a REAL challenge? Try beating my high score in Pattern Panic. I dare you!'',
      ''Challenge seeker, huh? Our Extreme Puzzles collection will make your brain sweat!'']"
  | "botResponses Newest =
     [''Just launched a fresh one! It's a mix of puzzle and strategy - totally addictive!'',
      ''Our newest baby is 'Quantum Quest' - it's mind-bending in the best way!'',
      ''Hot off the digital press: 'Neon Nights' - a retro-future arcade experience!'']"
  | "botResponses Download =
     [''For sure! Some are mobile-friendly too '' @ [CHR 0xF0, CHR 0x9F, CHR 0x93, CHR 0xB1] @ '' You can download most games as APKs for Android!'',
      ''Yep! Many games are available for download. Perfect for offline gaming sessions!'',
      ''Absolutely! Check out our downloads section for both mobile and desktop versions!'']"
  | "botResponses Offline =
     [''Yes! Offline versions available. Perfect for those long flights or subway rides!'',
      ''We've got plenty of games that work without internet! Great for anywhere, anytime fun!'',
      ''Offline gaming? Got you covered! Our mobile games work perfectly without WiFi!'']"
  | "botResponses Mobile =
     [''No worries! All our games work great on phones too '' @ [CHR 0xF0, CHR 0x9F, CHR 0x93, CHR 0xB2] @ '' Fully responsive and touch-friendly!'',
      ''Mobile gamer? Sweet! Our entire collection is optimized for touchscreens!'',
      ''Phone or tablet? Perfect! Every game is designed with mobile in mind from day one!'']"
  | "botResponses Educational =
     [''Learning + Fun = Us '' @ [CHR 0xF0, CHR 0x9F, CHR 0x92, CHR 0xA1] @ '' Try our brain-training games that actually teach you stuff while you play!'',
      ''We love edu-games! Check out 'Code Crusader' to learn programming basics while playing!'',
      ''Education disguised as fun? That's our specialty! Try 'Math Ninja' - it's sneakily educational!'']"
  | "botResponses Horror =
     [''You're brave '' @ [CHR 0xF0, CHR 0x9F, CHR 0x91, CHR 0xBB] @ '' Try our Halloween prototype 'Midnight Manor' - not for the faint-hearted!'',
      ''Oooh, looking for scares? 'Shadow Corridor' is our creepiest game yet. Play with the lights on!'',
      ''We have a few spooky ones! 'Whisper Woods' has made people actually scream. Just saying...'']"
  | "botResponses Kits =
     [''Sensors, wires, motors, magic! (Okay'' @ [CHR 0xE2, CHR 0x80, CHR 0xA6] @ '' not magic, but close.) '' @ [CHR 0xF0, CHR 0x9F, CHR 0x9B, CHR 0xA0, CHR 0xEF, CHR 0xB8, CHR 0x8F] @ '' Our kits have everything for awesome projects!'',
      ''Our kits come with all components, detailed instructions, and access to online tutorials!'',
      ''We've got kits for all levels - from complete beginners to advanced engineers! What's your experience level?'']"
  | "botResponses BeginnerKits =
     [''Just starting out? No worries! Our starter kits are designed specifically for beginners with clear instructions!'',
      ''Everyone starts somewhere! Our beginner kits include extra guidance and simpler projects to build confidence!'',
      ''New to this? Check out our 'First Steps in Electronics' kit - it's perfect for building fundamentals!'']"
  | "botResponses Safe =
     [''100%! Child-safe and tested by our team '' @ [CHR 0xF0, CHR 0x9F, CHR 0x91, CHR 0xA9, CHR 0xE2, CHR 0x80, CHR 0x8D, CHR 0xF0, CHR 0x9F, CHR 0x94, CHR 0xA7, CHR 0xF0, CHR 0x9F, CHR 0xA7, CHR 0x91, CHR 0xE2, CHR 0x80, CHR 0x8D, CHR 0xF0, CHR 0x9F, CHR 0x94, CHR 0xAC] @ '' We take safety very seriously!'',
      ''Absolutely! All components are low-voltage and we include safety guidelines with every kit!'',
      ''Safety first! Our kits are designed with beginners in mind, with no dangerous components!'']"
  | "botResponses Robotics =
     [''Say no more. Get hands-on with bots here '' @ [CHR 0xF0, CHR 0x9F, CHR 0xA4, CHR 0x96] @ '' From simple rovers to complex arm manipulators!'',
      ''Robot fan? Same! Our robotics kits let you build everything from simple followers to programmable companions!'',
      ''Robotics is our jam! Start with the mini-bot kit or go all out with our advanced programmable robot arm!'']"
  | "botResponses Science =
     [''School fair coming up? We got you '' @ [CHR 0xF0, CHR 0x9F, CHR 0x8E, CHR 0x93] @ '' Our science project kits come with presentation materials too!'',
      ''Our science kits are perfect for school projects! They include documentation to help explain the concepts!'',
      ''Need to impress your science teacher? Our project kits have won multiple science fairs! Just saying...'']"
  | "botResponses Manuals =
     [''Yup! Step-by-step guides included in every kit '' @ [CHR 0xF0, CHR 0x9F, CHR 0x93, CHR 0x98] @ '' Plus video tutorials online!'',
      ''Every kit comes with detailed manuals! We also have online support if you get stuck!'',
      ''Comprehensive guides with every purchase! We make sure you're never left wondering what to do next!'']"
  | "botResponses OrderOnline =
     [''Absolutely. Add to cart and we'll ship it fast '' @ [CHR 0xF0, CHR 0x9F, CHR 0x9A, CHR 0x9A, CHR 0xF0, CHR 0x9F, CHR 0x92, CHR 0xA8] @ '' Usually within 2-3 business days!'',
      ''Online ordering is super easy! We ship nationwide with tracking numbers for every package!'',
      ''Just a few clicks and your kit is on its way! We have express shipping options too!'']"
  | "botResponses Returns =
     [''If it's unused and safe, yes! We have a 30-day return policy for unopened kits!'',
      ''Unopened kits can be returned within a month! Just keep the original packaging intact!'',
      ''Got the wrong kit? No problem! Our return process is simple and hassle-free!'']"
  | "botResponses Creative =
     [''Try our DIY Art & Tech fusion kit '' @ [CHR 0xF0, CHR 0x9F, CHR 0x8E, CHR 0xA8, CHR 0xE2, CHR 0x9A, CHR 0x99, CHR 0xEF, CHR 0xB8, CHR 0x8F] @ '' It's where creativity meets engineering!'',
      ''Our 'Creative Circuit' kit is perfect - it lets you make light-up art pieces and interactive displays!'',
      ''Check out the 'Digital Canvas' kit - you can create tech-powered art installations that respond to movement!'']"
  | "botResponses Cost =
     [''Super affordable. Starts at just '' @ [CHR 0xE2, CHR 0x82, CHR 0xB9] @ ''199 for basic kits! The premium ones go up to '' @ [CHR 0xE2, CHR 0x82, CHR 0xB9] @ ''1999.'',
      ''We've got options for every budget! Basic kits start around '' @ [CHR 0xE2, CHR 0x82, CHR 0xB9] @ ''199, with most popular ones at '' @ [CHR 0xE2, CHR 0x82, CHR 0xB9] @ ''599.'',
      ''Our prices are student-friendly! Most popular kits are between '' @ [CHR 0xE2, CHR 0x82, CHR 0xB9] @ ''499-899. Worth every rupee!'']"
  | "botResponses Coolest =
     [''Hard to choose'' @ [CHR 0xE2, CHR 0x80, CHR 0xA6] @ '' but our AR-powered chess board is getting a lot of attention right now!'',
      ''My personal fave is the voice-controlled home automation system! It's like living in the future!'',
      ''The solar-powered weather station is pretty rad! It texts you weather forecasts every morning!'']"
  | "botResponses TestApps =
     [''Yes, we'd love feedback! We're always looking for beta testers for our new applications!'',
      ''Absolutely! Join our beta testing program and get early access to all our new apps!'',
      ''We need testers! Plus, beta testers get special perks when the apps officially launch!'']"
  | "botResponses MakeSomething =
     [''That's the spirit! Start with our starter kit + code samples. You'll be creating in no time!'',
      ''Love the enthusiasm! Our 'Creator's Kit' is perfect for beginners wanting to build cool stuff!'',
      ''Awesome! Check out our tutorials section first, then grab a starter kit to begin your journey!'']"
  | "botResponses StudentMade =
     [''Yup! Teen brains + team vibes = everything you see '' @ [CHR 0xF0, CHR 0x9F, CHR 0x92, CHR 0xAA] @ '' We're all students or recent grads!'',
      ''100% student-created! Every project, kit and game comes from young innovators like yourself!'',
      ''Made BY students FOR students! Our whole team is under 25, building stuff we wished existed!'']"
  | "botResponses OpenSource =
     [''Heck yes. We believe in sharing knowledge! Many of our projects have open GitHub repos!'',
      ''Absolutely! Check out our GitHub - we love contributions from the community!'',
      ''Open source is our philosophy! Fork our repos, suggest improvements, or just learn from the code!'']"
  | "botResponses LearnAppDev =
     [''We got tutorials and beginner kits for app development! Start with our 'App Dev 101' guide!'',
      ''Want to make apps? Start with our Flutter basics kit! It's the fastest way to build cross-platform apps!'',
      ''App development is super fun! Our tutorials take you from zero to launching your first app!'']"
  | "botResponses Internships =
     [''We love young creators! We offer internships in coding, design, and marketing every summer!'',
      ''Internship applications open twice a year! Great opportunity to work with other young innovators!'',
      ''Want to join the team? We're always looking for passionate interns who want to make cool stuff!'']"
  | "botResponses Confused =
     [''No worries. I'm here to help. What are you looking for? Games, kits, or just want to chat?'',
      ''Let me clear things up! What would you like to know more about? I can explain anything we offer!'',
      ''It's all good! Let's take a step back. Are you interested in our games, engineering kits, or something else?'']"
  | "botResponses Cute =
     [''Stop it, you! '' @ [CHR 0xF0, CHR 0x9F, CHR 0x98, CHR 0xB3] @ '' You're making my circuits blush.'',
      ''Aww shucks! *robot blush* Thanks for the compliment!'',
      ''That's the nicest thing anyone's said to me today! You're pretty awesome yourself!'']"
  | "botResponses WhoMadeYou =
     [''The awesome folks at Re-View! A team of young dreamers & doers '' @ [CHR 0xF0, CHR 0x9F, CHR 0x8C, CHR 0x9F],
      ''I was created by the Re-View team - a group of students passionate about tech innovation!'',
      ''The talented devs at Re-View brought me to life! They're super cool people!'']"
  | "botResponses JoinReview =
     [''We'd love that! We're always looking for passionate people to join our growing team!'',
      ''Interested in joining? Awesome! We hire developers, designers, and creative thinkers!'',
      ''We're expanding our team! Send us your resume if you're passionate about tech and innovation!'']"
  | "botResponses BuildApps =
     [''Start with our kits and guides! '' @ [CHR 0xF0, CHR 0x9F, CHR 0x9A, CHR 0x80] @ '' We have great tutorials for beginners in app development!'',
      ''Want to build apps? Awesome! Our Flutter starter kit is perfect for beginners!'',
      ''App building is fun! Check out our 'First App' tutorial series to get started quickly!'']"
  | "botResponses Blog =
     [''Oh yes! We post stories, updates, and tech guides regularly on our blog!'',
      ''Our blog is updated weekly with project ideas, tutorials, and tech news!'',
      ''Check out our blog for behind-the-scenes stories and tips from our developer team!'']"
  | "botResponses Events =
     [''Yup! Workshops, hackathons, and more. We host events both online and offline throughout the year!'',
      ''We have monthly workshops and quarterly hackathons! Great way to meet other tech enthusiasts!'',
      ''Our next event is coming soon! We host everything from coding challenges to maker faires!'']"
  | "botResponses Social =
     [''We're @ReViewTech on most platforms! Instagram, Twitter, YouTube - find us everywhere!'',
      ''Follow our socials for updates, behind-the-scenes content, and early announcements!'',
      ''We post daily on Instagram and have a YouTube channel with tutorials and project showcases!'']"
  | "botResponses LoveSite =
     [''Aww! We love you more '' @ [CHR 0xF0, CHR 0x9F, CHR 0x92, CHR 0x96] @ '' Thanks for the visit! Anything specific you're enjoying?'',
      ''That means a lot to us! We put a lot of work into making this site awesome for visitors like you!'',
      ''Thanks! We're always improving - let us know if you have suggestions to make it even better!'']"
  | "botResponses Bye =
     [''Byeee! Come back soon for more fun '' @ [CHR 0xF0, CHR 0x9F, CHR 0x98, CHR 0x84],
      ''Take care! Don't be a stranger - come back anytime!'',
      ''Goodbye for now! Hope to chat again soon! '' @ [CHR 0xF0, CHR 0x9F, CHR 0x91, CHR 0x8B]]"
  | "botResponses Studios =
     [''View-Studios creates professional web and mobile applications with cutting-edge design and technology!'',
      ''Our Studios team builds custom apps and websites for clients who need something special.'',
      ''Need a professional website or app? Our Studios division can build exactly what you need!'']"
  | "botResponses Labs =
     [''N-8 Labs makes educational project kits for engineering students - especially ECE/EEE projects!'',
      ''Our Labs division focuses on creating hands-on learning experiences through project kits.'',
      ''N-8 Labs is passionate about making engineering education more practical and fun!'']"
  | "botResponses About =
     [''Re-View has three main divisions: Re-Games for fun, View-Studios for pro apps, and N-8 Labs for educational kits!'',
      ''We're a tech company founded by students who wanted to make technology more accessible and fun for everyone.'',
      ''We started in a college dorm room with a simple game, and now we've grown into a full tech company!'']"
  | "botResponses Help =
     [''I can tell you about our games, kits, applications, or just chat! What are you curious about?'',
      ''I'm here for whatever you need! Questions about our products? Want recommendations? Just ask!'',
      ''How can I make your day better? I can explain our offerings or just have a friendly chat!'']"
  | "botResponses Login =
     [''You can create an account or log in to access premium games, track orders, and save favorites!'',
      ''Logging in gives you access to your purchase history and lets you save your progress in games!'',
      ''Create an account to join our community and access exclusive content and early releases!'']"
  | "botResponses Default =
     [''I'm still learning! Could you rephrase that or ask something else?'',
      ''Hmm, not sure I caught that. Want to try asking differently?'',
      ''Interesting! Tell me more or try asking something about our games, kits, or services!'']"

text \<open>\<open>{ text: string; url: string }\<close>, the element type of a message's \<open>links\<close>.\<close>

record link =
  link_text :: string
  link_url :: string

text \<open>
  \<open>getRandomResponse\<close>: \<open>Math.floor(Math.random() * responses.length)\<close> indexes the
  replies; \<open>r\<close> is the value \<open>Math.random()\<close> returned.
\<close>

definition getRandomResponse :: "real \<Rightarrow> category \<Rightarrow> string" where
  "getRandomResponse r category =
     (let responses = botResponses category;
          randomIndex = nat \<lfloor>r * real (length responses)\<rfloor>
      in responses ! randomIndex)"

text \<open>
  \<open>getCategoryLinks(category: string)\<close>: the \<open>switch\<close> on the category's name, with
  \<open>undefined\<close> for every other name as \<open>None\<close>.
\<close>

definition getCategoryLinks :: "string \<Rightarrow> link list option" where
  "getCategoryLinks category =
     (if category = ''games'' then
        Some [\<lparr>link_text = ''Explore Games'', link_url = ''/games''\<rparr>]
      else if category \<in> set [''bored'', ''puzzle'', ''challenge'', ''newest'', ''download'',
                               ''offline'', ''mobile'', ''educational'', ''horror''] then
        Some [\<lparr>link_text = ''Open Games Page'', link_url = ''/games''\<rparr>]
      else if category \<in> set [''studios'', ''buildApps'', ''testApps''] then
        Some [\<lparr>link_text = ''View Applications'', link_url = ''/studios''\<rparr>]
      else if category \<in> set [''labs'', ''kits'', ''beginnerKits'', ''robotics'', ''science'',
                               ''manuals'', ''orderOnline'', ''returns'', ''creative'', ''cost''] then
        Some [\<lparr>link_text = ''Discover Kits'', link_url = ''/labs''\<rparr>]
      else if category = ''about'' then
        Some [\<lparr>link_text = ''Games'', link_url = ''/games''\<rparr>,
              \<lparr>link_text = ''Applications'', link_url = ''/studios''\<rparr>,
              \<lparr>link_text = ''Project Kits'', link_url = ''/labs''\<rparr>]
      else if category \<in> set [''help'', ''confused''] then
        Some [\<lparr>link_text = ''Games'', link_url = ''/games''\<rparr>,
              \<lparr>link_text = ''Applications'', link_url = ''/studios''\<rparr>,
              \<lparr>link_text = ''Project Kits'', link_url = ''/labs''\<rparr>]
      else if category = ''login'' then
        Some [\<lparr>link_text = ''Login / Register'', link_url = ''/login''\<rparr>]
      else if category = ''events'' then
        Some [\<lparr>link_text = ''See Events'', link_url = ''/labs''\<rparr>]
      else if category = ''blog'' then
        Some [\<lparr>link_text = ''Read Blog'', link_url = ''/studios''\<rparr>]
      else if category = ''joinReview'' then
        Some [\<lparr>link_text = ''Join Us'', link_url = ''/studios''\<rparr>]
      else if category = ''openSource'' then
        Some [\<lparr>link_text = ''GitHub Projects'', link_url = ''/labs''\<rparr>]
      else if category = ''coolest'' then
        Some [\<lparr>link_text = ''View Projects'', link_url = ''/labs''\<rparr>]
      else None)"

text \<open>The site routes a link may point at.\<close>

definition site_routes :: "string set" where
  "site_routes = {''/games'', ''/studios'', ''/labs'', ''/login''}"

text \<open>A message's \<open>links\<close> are well formed: absent, or a non-empty list of site routes.\<close>

definition links_ok :: "link list option \<Rightarrow> bool" where
  "links_ok r \<longleftrightarrow> (case r of None \<Rightarrow> True
     | Some ls \<Rightarrow> ls \<noteq> [] \<and> (\<forall>l \<in> set ls. link_url l \<in> site_routes))"

subsection \<open>Lemmas\<close>

lemma length_botResponses [simp]: "length (botResponses c) = 3"
  by (cases c) simp_all

lemma botResponses_nonempty [simp]: "botResponses c \<noteq> []"
proof
  assume "botResponses c = []"
  then have "length (botResponses c) = 0" by simp
  then show False by simp
qed

lemma getRandomResponse_mem:
  assumes "0 \<le> r" and "r < 1"
  shows "getRandomResponse r c \<in> set (botResponses c)"
proof -
  have f: "\<lfloor>r * 3\<rfloor> < 3" using assms(2) by (simp add: floor_less_iff)
  have g: "0 \<le> \<lfloor>r * 3\<rfloor>" using assms(1) by simp
  from f g have "nat \<lfloor>r * 3\<rfloor> < length (botResponses c)" by (simp add: nat_less_iff)
  then show ?thesis
    by (auto simp: getRandomResponse_def Let_def intro!: nth_mem)
qed

text \<open>
  C17.  Every category has replies, and for every value \<open>Math.random()\<close> can return the
  index \<open>getRandomResponse\<close> computes is in range: the reply is one of the category's.
\<close>

theorem getRandomResponse_in_range:
  assumes "0 \<le> r" and "r < 1"
  shows "botResponses c \<noteq> [] \<and> getRandomResponse r c \<in> set (botResponses c)"
  using getRandomResponse_mem [OF assms] by simp

theorem getRandomResponse_in_range_witness:
  "botResponses Greetings \<noteq> [] \<and>
   getRandomResponse (1 / 2) Greetings \<in> set (botResponses Greetings)"
  by (rule getRandomResponse_in_range) simp_all

lemma links_ok_None [simp]: "links_ok None"
  by (simp add: links_ok_def)

lemma getCategoryLinks_ok: "links_ok (getCategoryLinks c)"
  unfolding getCategoryLinks_def
  by (intro if_pred [where P = links_ok]) (simp_all add: links_ok_def site_routes_def)

end
