(* ===== verification/Intent.thy ===== *)
theory Intent
  imports Fuzzy_Match Responses
begin

text \<open>
  The intent classifier of the chat widget: the body of the \<open>setTimeout\<close> callback in
  \<open>handleSendMessage\<close> (\<open>src/src/components/home/ChatBot.tsx\<close>, lines 420--654)
  that turns the lower-cased message into a response category and, for some categories,
  navigation links.  \<open>intent_chain\<close> is the source's chain of 46 \<open>if\<close>/\<open>else if\<close>
  tests, in its order, each with its own condition (compound ones included) and its own
  link policy: no links, links only when the message also contains \<open>see\<close>,
  \<open>visit\<close> or \<open>go to\<close> (\<open>link_cue\<close>), or links always.

  \<open>rule_table\<close> and \<open>first_match\<close> are the data-driven reading of the chain that the
  specification's design notes ask for: a list of rule records evaluated by one generic
  loop, first match wins, the fallback category \<open>Default\<close> with no links when no rule
  holds.  \<open>intent_chain_eq\<close> shows that the chain is that loop over that table; the
  theorems use it for what the chain guarantees: the fallback, links that are site routes,
  greetings found anywhere in the message, and link keys that \<open>getCategoryLinks\<close> handles.
\<close>

subsection \<open>The code\<close>

text \<open>\<open>input.includes("see") || input.includes("visit") || input.includes("go to")\<close>\<close>

definition link_cue :: "string \<Rightarrow> bool" where
  "link_cue input \<longleftrightarrow>
     js_includes input ''see'' \<or> js_includes input ''visit'' \<or> js_includes input ''go to''"

text \<open>
  The chain, for \<open>input = newMessage.toLowerCase()\<close>: the pair of
  \<open>responseCategory\<close> (initially \<open>"default"\<close>) and \<open>responseLinks\<close> (initially
  \<open>undefined\<close>, here \<open>None\<close>) after it.
\<close>

definition intent_chain :: "string \<Rightarrow> category \<times> link list option" where
  "intent_chain input =
     (
      if fuzzyMatch input [''hi'', ''hey'', ''hello'', ''howdy'', ''sup'', ''yo'', ''greetings''] then (Greetings, None)
      else if fuzzyMatch input [''how are you'', ''how're you doing'', ''how's it going'', ''what's up'', ''hows it going'', ''whats up'', ''hru''] then (HowAreYou, None)
      else if fuzzyMatch input [''your name'', ''who are you'', ''what's your name'', ''whats your name''] then (Name, None)
      else if fuzzyMatch input [''thank'', ''thanks'', ''thx'', ''ty'', ''thank you''] then (Thanks, None)
      else if fuzzyMatch input [''i'm bored'', ''im bored'', ''bored'', ''nothing to do''] then (Bored, if link_cue input then getCategoryLinks ''bored'' else None)
      else if fuzzyMatch input [''puzzle'', ''sudoku'', ''brain teaser'', ''puzle''] then (Puzzle, if link_cue input then getCategoryLinks ''puzzle'' else None)
      else if fuzzyMatch input [''challenge'', ''difficult'', ''hard'', ''tough'', ''advanced'', ''chalenge''] then (Challenge, if link_cue input then getCategoryLinks ''challenge'' else None)
      else if fuzzyMatch input [''newest'', ''latest'', ''new'', ''recent'', ''just launched''] then (Newest, if link_cue input then getCategoryLinks ''newest'' else None)
      else if fuzzyMatch input [''download'', ''get'', ''install'', ''apk'', ''downlod''] then (Download, if link_cue input then getCategoryLinks ''download'' else None)
      else if fuzzyMatch input [''offline'', ''without internet'', ''no internet'', ''no wifi''] then (Offline, if link_cue input then getCategoryLinks ''offline'' else None)
      else if fuzzyMatch input [''mobile'', ''phone'', ''tablet'', ''android'', ''ios''] then (Mobile, if link_cue input then getCategoryLinks ''mobile'' else None)
      else if fuzzyMatch input [''education'', ''educational'', ''learn'', ''learning''] then (Educational, if link_cue input then getCategoryLinks ''educational'' else None)
      else if fuzzyMatch input [''horror'', ''scary'', ''spooky'', ''creepy''] then (Horror, if link_cue input then getCategoryLinks ''horror'' else None)
      else if fuzzyMatch input [''kits'', ''what's in'', ''whats in'', ''components''] \<and> \<not> fuzzyMatch input [''studios'', ''games''] then (Kits, if link_cue input then getCategoryLinks ''kits'' else None)
      else if fuzzyMatch input [''beginner'', ''starting'', ''novice'', ''new to'', ''first time''] \<and> fuzzyMatch input [''kits'', ''kit'', ''project''] then (BeginnerKits, if link_cue input then getCategoryLinks ''beginnerKits'' else None)
      else if fuzzyMatch input [''safe'', ''safety'', ''dangerous'', ''child'', ''kid''] then (Safe, None)
      else if fuzzyMatch input [''robot'', ''robotics'', ''bot'', ''automation''] then (Robotics, if link_cue input then getCategoryLinks ''robotics'' else None)
      else if fuzzyMatch input [''science'', ''project'', ''school'', ''fair'', ''assignment''] then (Science, if link_cue input then getCategoryLinks ''science'' else None)
      else if fuzzyMatch input [''manual'', ''manuals'', ''instruction'', ''guide'', ''documentation''] then (Manuals, None)
      else if fuzzyMatch input [''order'', ''buy'', ''purchase'', ''ship''] then (OrderOnline, None)
      else if fuzzyMatch input [''return'', ''refund'', ''money back'', ''exchange''] then (Returns, if link_cue input then getCategoryLinks ''returns'' else None)
      else if fuzzyMatch input [''creative'', ''art'', ''design'', ''craft''] then (Creative, if link_cue input then getCategoryLinks ''creative'' else None)
      else if fuzzyMatch input [''cost'', ''price'', ''how much'', ''expensive'', ''cheap'', ''affordable''] then (Cost, None)
      else if fuzzyMatch input [''coolest'', ''best'', ''top'', ''impressive'', ''project''] then (Coolest, if link_cue input then getCategoryLinks ''coolest'' else None)
      else if fuzzyMatch input [''test'', ''beta'', ''try'', ''preview'', ''early access''] then (TestApps, if link_cue input then getCategoryLinks ''testApps'' else None)
      else if fuzzyMatch input [''make'', ''build'', ''create'', ''develop'', ''like this''] then (MakeSomething, None)
      else if fuzzyMatch input [''student'', ''teen'', ''young'', ''made by''] then (StudentMade, None)
      else if fuzzyMatch input [''open source'', ''github'', ''code'', ''repository'', ''contribute''] then (OpenSource, if link_cue input then getCategoryLinks ''openSource'' else None)
      else if fuzzyMatch input [''learn'', ''app dev'', ''application'', ''development'', ''coding''] then (LearnAppDev, if link_cue input then getCategoryLinks ''buildApps'' else None)
      else if fuzzyMatch input [''intern'', ''internship'', ''job'', ''work'', ''career''] then (Internships, if link_cue input then getCategoryLinks ''joinReview'' else None)
      else if fuzzyMatch input [''confused'', ''don't understand'', ''what is this'', ''help me''] then (Confused, getCategoryLinks ''confused'')
      else if fuzzyMatch input [''cute'', ''nice'', ''cool'', ''awesome'', ''amazing'', ''good''] \<and> js_includes input ''you'' then (Cute, None)
      else if fuzzyMatch input [''who made'', ''creator'', ''developers'', ''team behind''] then (WhoMadeYou, None)
      else if fuzzyMatch input [''join'', ''work at'', ''work with'', ''become part''] then (JoinReview, if link_cue input then getCategoryLinks ''joinReview'' else None)
      else if fuzzyMatch input [''build apps'', ''create app'', ''create website'', ''create web''] then (BuildApps, if link_cue input then getCategoryLinks ''buildApps'' else None)
      else if fuzzyMatch input [''blog'', ''article'', ''post'', ''news'', ''updates''] then (Blog, if link_cue input then getCategoryLinks ''blog'' else None)
      else if fuzzyMatch input [''event'', ''workshop'', ''hackathon'', ''meetup'', ''conference''] then (Events, if link_cue input then getCategoryLinks ''events'' else None)
      else if fuzzyMatch input [''insta'', ''instagram'', ''social'', ''follow'', ''twitter'', ''facebook''] then (Social, None)
      else if fuzzyMatch input [''love'', ''like'', ''enjoy'', ''great'', ''wonderful''] \<and> fuzzyMatch input [''site'', ''website'', ''page''] then (LoveSite, None)
      else if fuzzyMatch input [''bye'', ''goodbye'', ''see you'', ''later'', ''exit'', ''byeee'', ''cya''] then (Bye, None)
      else if fuzzyMatch input [''game'', ''games''] \<and> ((fuzzyMatch input [''about'', ''play'', ''explore'', ''see'', ''show me''] \<or> input = ''game'') \<or> input = ''games'') then (Games, getCategoryLinks ''games'')
      else if fuzzyMatch input [''studio'', ''studios''] \<and> fuzzyMatch input [''about'', ''explore'', ''see'', ''show me''] then (Studios, getCategoryLinks ''studios'')
      else if fuzzyMatch input [''lab'', ''labs''] \<and> fuzzyMatch input [''about'', ''explore'', ''see'', ''show me''] then (Labs, getCategoryLinks ''labs'')
      else if fuzzyMatch input [''about''] then (About, getCategoryLinks ''about'')
      else if fuzzyMatch input [''help'', ''support'', ''assist''] then (Help, getCategoryLinks ''help'')
      else if fuzzyMatch input [''log in'', ''login'', ''sign in'', ''signin'', ''register'', ''account''] then (Login, getCategoryLinks ''login'')
      else (Default, None))"

subsection \<open>Specification: an ordered rule table\<close>

datatype cond =
    Fuzzy "string list"
  | Has string
  | Is string
  | Both cond cond
  | Either cond cond
  | Neg cond

primrec holds :: "string \<Rightarrow> cond \<Rightarrow> bool" where
  "holds input (Fuzzy terms) = fuzzyMatch input terms"
| "holds input (Has s) = js_includes input s"
| "holds input (Is s) = (input = s)"
| "holds input (Both c d) = (holds input c \<and> holds input d)"
| "holds input (Either c d) = (holds input c \<or> holds input d)"
| "holds input (Neg c) = (\<not> holds input c)"

datatype link_policy = NoLinks | CueLinks string | AlwaysLinks string

primrec policy_links :: "string \<Rightarrow> link_policy \<Rightarrow> link list option" where
  "policy_links input NoLinks = None"
| "policy_links input (CueLinks k) = (if link_cue input then getCategoryLinks k else None)"
| "policy_links input (AlwaysLinks k) = getCategoryLinks k"

record rule =
  rule_category :: category
  rule_cond :: cond
  rule_links :: link_policy

fun first_match :: "string \<Rightarrow> rule list \<Rightarrow> category \<times> link list option" where
  "first_match input [] = (Default, None)"
| "first_match input (r # rs) =
     (if holds input (rule_cond r) then (rule_category r, policy_links input (rule_links r))
      else first_match input rs)"

definition rule_table :: "rule list" where
  "rule_table = [
     \<lparr>rule_category = Greetings, rule_cond = Fuzzy [''hi'', ''hey'', ''hello'', ''howdy'', ''sup'', ''yo'', ''greetings''],
      rule_links = NoLinks\<rparr>,
     \<lparr>rule_category = HowAreYou, rule_cond = Fuzzy [''how are you'', ''how're you doing'', ''how's it going'', ''what's up'', ''hows it going'', ''whats up'', ''hru''],
      rule_links = NoLinks\<rparr>,
     \<lparr>rule_category = Name, rule_cond = Fuzzy [''your name'', ''who are you'', ''what's your name'', ''whats your name''],
      rule_links = NoLinks\<rparr>,
     \<lparr>rule_category = Thanks, rule_cond = Fuzzy [''thank'', ''thanks'', ''thx'', ''ty'', ''thank you''],
      rule_links = NoLinks\<rparr>,
     \<lparr>rule_category = Bored, rule_cond = Fuzzy [''i'm bored'', ''im bored'', ''bored'', ''nothing to do''],
      rule_links = CueLinks ''bored''\<rparr>,
     \<lparr>rule_category = Puzzle, rule_cond = Fuzzy [''puzzle'', ''sudoku'', ''brain teaser'', ''puzle''],
      rule_links = CueLinks ''puzzle''\<rparr>,
     \<lparr>rule_category = Challenge, rule_cond = Fuzzy [''challenge'', ''difficult'', ''hard'', ''tough'', ''advanced'', ''chalenge''],
      rule_links = CueLinks ''challenge''\<rparr>,
     \<lparr>rule_category = Newest, rule_cond = Fuzzy [''newest'', ''latest'', ''new'', ''recent'', ''just launched''],
      rule_links = CueLinks ''newest''\<rparr>,
     \<lparr>rule_category = Download, rule_cond = Fuzzy [''download'', ''get'', ''install'', ''apk'', ''downlod''],
      rule_links = CueLinks ''download''\<rparr>,
     \<lparr>rule_category = Offline, rule_cond = Fuzzy [''offline'', ''without internet'', ''no internet'', ''no wifi''],
      rule_links = CueLinks ''offline''\<rparr>,
     \<lparr>rule_category = Mobile, rule_cond = Fuzzy [''mobile'', ''phone'', ''tablet'', ''android'', ''ios''],
      rule_links = CueLinks ''mobile''\<rparr>,
     \<lparr>rule_category = Educational, rule_cond = Fuzzy [''education'', ''educational'', ''learn'', ''learning''],
      rule_links = CueLinks ''educational''\<rparr>,
     \<lparr>rule_category = Horror, rule_cond = Fuzzy [''horror'', ''scary'', ''spooky'', ''creepy''],
      rule_links = CueLinks ''horror''\<rparr>,
     \<lparr>rule_category = Kits, rule_cond = Both (Fuzzy [''kits'', ''what's in'', ''whats in'', ''components'']) (Neg (Fuzzy [''studios'', ''games''])),
      rule_links = CueLinks ''kits''\<rparr>,
     \<lparr>rule_category = BeginnerKits, rule_cond = Both (Fuzzy [''beginner'', ''starting'', ''novice'', ''new to'', ''first time'']) (Fuzzy [''kits'', ''kit'', ''project'']),
      rule_links = CueLinks ''beginnerKits''\<rparr>,
     \<lparr>rule_category = Safe, rule_cond = Fuzzy [''safe'', ''safety'', ''dangerous'', ''child'', ''kid''],
      rule_links = NoLinks\<rparr>,
     \<lparr>rule_category = Robotics, rule_cond = Fuzzy [''robot'', ''robotics'', ''bot'', ''automation''],
      rule_links = CueLinks ''robotics''\<rparr>,
     \<lparr>rule_category = Science, rule_cond = Fuzzy [''science'', ''project'', ''school'', ''fair'', ''assignment''],
      rule_links = CueLinks ''science''\<rparr>,
     \<lparr>rule_category = Manuals, rule_cond = Fuzzy [''manual'', ''manuals'', ''instruction'', ''guide'', ''documentation''],
      rule_links = NoLinks\<rparr>,
     \<lparr>rule_category = OrderOnline, rule_cond = Fuzzy [''order'', ''buy'', ''purchase'', ''ship''],
      rule_links = NoLinks\<rparr>,
     \<lparr>rule_category = Returns, rule_cond = Fuzzy [''return'', ''refund'', ''money back'', ''exchange''],
      rule_links = CueLinks ''returns''\<rparr>,
     \<lparr>rule_category = Creative, rule_cond = Fuzzy [''creative'', ''art'', ''design'', ''craft''],
      rule_links = CueLinks ''creative''\<rparr>,
     \<lparr>rule_category = Cost, rule_cond = Fuzzy [''cost'', ''price'', ''how much'', ''expensive'', ''cheap'', ''affordable''],
      rule_links = NoLinks\<rparr>,
     \<lparr>rule_category = Coolest, rule_cond = Fuzzy [''coolest'', ''best'', ''top'', ''impressive'', ''project''],
      rule_links = CueLinks ''coolest''\<rparr>,
     \<lparr>rule_category = TestApps, rule_cond = Fuzzy [''test'', ''beta'', ''try'', ''preview'', ''early access''],
      rule_links = CueLinks ''testApps''\<rparr>,
     \<lparr>rule_category = MakeSomething, rule_cond = Fuzzy [''make'', ''build'', ''create'', ''develop'', ''like this''],
      rule_links = NoLinks\<rparr>,
     \<lparr>rule_category = StudentMade, rule_cond = Fuzzy [''student'', ''teen'', ''young'', ''made by''],
      rule_links = NoLinks\<rparr>,
     \<lparr>rule_category = OpenSource, rule_cond = Fuzzy [''open source'', ''github'', ''code'', ''repository'', ''contribute''],
      rule_links = CueLinks ''openSource''\<rparr>,
     \<lparr>rule_category = LearnAppDev, rule_cond = Fuzzy [''learn'', ''app dev'', ''application'', ''development'', ''coding''],
      rule_links = CueLinks ''buildApps''\<rparr>,
     \<lparr>rule_category = Internships, rule_cond = Fuzzy [''intern'', ''internship'', ''job'', ''work'', ''career''],
      rule_links = CueLinks ''joinReview''\<rparr>,
     \<lparr>rule_category = Confused, rule_cond = Fuzzy [''confused'', ''don't understand'', ''what is this'', ''help me''],
      rule_links = AlwaysLinks ''confused''\<rparr>,
     \<lparr>rule_category = Cute, rule_cond = Both (Fuzzy [''cute'', ''nice'', ''cool'', ''awesome'', ''amazing'', ''good'']) (Has ''you''),
      rule_links = NoLinks\<rparr>,
     \<lparr>rule_category = WhoMadeYou, rule_cond = Fuzzy [''who made'', ''creator'', ''developers'', ''team behind''],
      rule_links = NoLinks\<rparr>,
     \<lparr>rule_category = JoinReview, rule_cond = Fuzzy [''join'', ''work at'', ''work with'', ''become part''],
      rule_links = CueLinks ''joinReview''\<rparr>,
     \<lparr>rule_category = BuildApps, rule_cond = Fuzzy [''build apps'', ''create app'', ''create website'', ''create web''],
      rule_links = CueLinks ''buildApps''\<rparr>,
     \<lparr>rule_category = Blog, rule_cond = Fuzzy [''blog'', ''article'', ''post'', ''news'', ''updates''],
      rule_links = CueLinks ''blog''\<rparr>,
     \<lparr>rule_category = Events, rule_cond = Fuzzy [''event'', ''workshop'', ''hackathon'', ''meetup'', ''conference''],
      rule_links = CueLinks ''events''\<rparr>,
     \<lparr>rule_category = Social, rule_cond = Fuzzy [''insta'', ''instagram'', ''social'', ''follow'', ''twitter'', ''facebook''],
      rule_links = NoLinks\<rparr>,
     \<lparr>rule_category = LoveSite, rule_cond = Both (Fuzzy [''love'', ''like'', ''enjoy'', ''great'', ''wonderful'']) (Fuzzy [''site'', ''website'', ''page'']),
      rule_links = NoLinks\<rparr>,
     \<lparr>rule_category = Bye, rule_cond = Fuzzy [''bye'', ''goodbye'', ''see you'', ''later'', ''exit'', ''byeee'', ''cya''],
      rule_links = NoLinks\<rparr>,
     \<lparr>rule_category = Games, rule_cond = Both (Fuzzy [''game'', ''games'']) (Either (Either (Fuzzy [''about'', ''play'', ''explore'', ''see'', ''show me'']) (Is ''game'')) (Is ''games'')),
      rule_links = AlwaysLinks ''games''\<rparr>,
     \<lparr>rule_category = Studios, rule_cond = Both (Fuzzy [''studio'', ''studios'']) (Fuzzy [''about'', ''explore'', ''see'', ''show me'']),
      rule_links = AlwaysLinks ''studios''\<rparr>,
     \<lparr>rule_category = Labs, rule_cond = Both (Fuzzy [''lab'', ''labs'']) (Fuzzy [''about'', ''explore'', ''see'', ''show me'']),
      rule_links = AlwaysLinks ''labs''\<rparr>,
     \<lparr>rule_category = About, rule_cond = Fuzzy [''about''],
      rule_links = AlwaysLinks ''about''\<rparr>,
     \<lparr>rule_category = Help, rule_cond = Fuzzy [''help'', ''support'', ''assist''],
      rule_links = AlwaysLinks ''help''\<rparr>,
     \<lparr>rule_category = Login, rule_cond = Fuzzy [''log in'', ''login'', ''sign in'', ''signin'', ''register'', ''account''],
      rule_links = AlwaysLinks ''login''\<rparr>]"


text \<open>
  The categories whose branch of the chain calls \<open>getCategoryLinks\<close>, under a link cue
  or always.
\<close>

definition link_categories :: "category set" where
  "link_categories =
     {Bored, Puzzle, Challenge, Newest, Download, Offline, Mobile, Educational,
      Horror, Kits, BeginnerKits, Robotics, Science, Returns, Creative, Coolest,
      TestApps, OpenSource, LearnAppDev, Internships, Confused, JoinReview, BuildApps,
      Blog, Events, Games, Studios, Labs, About, Help, Login}"

subsection \<open>Lemmas\<close>

lemma intent_chain_eq: "intent_chain input = first_match input rule_table"
  by (simp only: intent_chain_def rule_table_def first_match.simps holds.simps policy_links.simps
      rule.select_convs)

lemma policy_links_ok [simp]: "links_ok (policy_links input p)"
  by (cases p) (simp_all add: getCategoryLinks_ok)

lemma first_match_links_ok: "links_ok (snd (first_match input rs))"
  by (induction rs) simp_all

lemma first_match_Default:
  "Default \<notin> rule_category ` set rs \<Longrightarrow> fst (first_match input rs) = Default \<Longrightarrow>
   snd (first_match input rs) = None \<and> (\<forall>r \<in> set rs. \<not> holds input (rule_cond r))"
  by (induction rs) (auto split: if_splits)

lemma Default_not_in_rule_table: "Default \<notin> rule_category ` set rule_table"
  by (simp add: rule_table_def)

lemma greeting_terms_lower:
  "map toLowerCase [''hi'', ''hey'', ''hello'', ''howdy'', ''sup'', ''yo'', ''greetings''] =
   [''hi'', ''hey'', ''hello'', ''howdy'', ''sup'', ''yo'', ''greetings'']"
  by (simp add: js_lower_char_def less_eq_char_def)

lemma intent_chain_empty: "intent_chain [] = (Default, None)"
  by code_simp

subsection \<open>What the classifier decides\<close>

text \<open>
  C8.  The fallback: a message classified \<open>Default\<close> gets no links, and it is so
  classified only when no rule of the table holds for it.
\<close>

theorem intent_chain_Default:
  assumes "fst (intent_chain input) = Default"
  shows "snd (intent_chain input) = None \<and> (\<forall>r \<in> set rule_table. \<not> holds input (rule_cond r))"
  using first_match_Default [OF Default_not_in_rule_table] assms by (simp add: intent_chain_eq)

theorem intent_chain_Default_witness:
  "intent_chain [] = (Default, None) \<and> list_all (\<lambda>r. \<not> holds [] (rule_cond r)) rule_table"
  using intent_chain_Default [of "[]"] by (simp add: intent_chain_empty list_all_iff)

text \<open>
  C9.  Whatever the message, the links attached to the reply are absent or a non-empty
  list of the site's own routes (\<open>/games\<close>, \<open>/studios\<close>, \<open>/labs\<close>, \<open>/login\<close>).
\<close>

theorem intent_chain_links_ok: "links_ok (snd (intent_chain input))"
  by (simp add: intent_chain_eq first_match_links_ok)

theorem intent_chain_links_ok_witness:
  "links_ok (snd (intent_chain ''can i visit the games page, i am bored''))"
  by (rule intent_chain_links_ok)

text \<open>
  C6.  The exact pass of the first rule matches a greeting word anywhere in the message,
  also inside another word: every message containing \<open>hi\<close>, \<open>hey\<close>, \<open>hello\<close>,
  \<open>howdy\<close>, \<open>sup\<close>, \<open>yo\<close> or \<open>greetings\<close> is a greeting.  So \<open>thank you\<close>,
  \<open>how are you\<close> and \<open>what's your name\<close> (through \<open>yo\<close>) and \<open>hit\<close> or
  \<open>something\<close> (through \<open>hi\<close>) are all greetings.
\<close>

theorem intent_chain_greeting_substring:
  assumes "t \<in> set [''hi'', ''hey'', ''hello'', ''howdy'', ''sup'', ''yo'', ''greetings'']"
    and "js_includes input t"
  shows "intent_chain input = (Greetings, None)"
proof -
  from assms(1) have "toLowerCase t = t"
    using greeting_terms_lower by auto
  with assms have "fuzzyMatch input [''hi'', ''hey'', ''hello'', ''howdy'', ''sup'', ''yo'', ''greetings'']"
    by (metis fuzzyMatch_exact includes_toLowerCase)
  then show ?thesis by (simp add: intent_chain_def)
qed

theorem intent_chain_greeting_substring_witness:
  "intent_chain ''thank you'' = (Greetings, None) \<and> intent_chain ''how are you'' = (Greetings, None)"
proof
  have yo: "''yo'' \<in> set [''hi'', ''hey'', ''hello'', ''howdy'', ''sup'', ''yo'', ''greetings'']"
    by simp
  have "js_includes ''thank you'' ''yo''" by code_simp
  with yo show "intent_chain ''thank you'' = (Greetings, None)"
    by (rule intent_chain_greeting_substring)
  have "js_includes ''how are you'' ''yo''" by code_simp
  with yo show "intent_chain ''how are you'' = (Greetings, None)"
    by (rule intent_chain_greeting_substring)
qed

text \<open>
  C24.  A message with a link cue (\<open>see\<close>, \<open>visit\<close>, \<open>go to\<close>) classified in a category
  whose branch asks \<open>getCategoryLinks\<close> for links always gets them: every key the chain
  passes is one \<open>getCategoryLinks\<close> handles.  The replies about manuals, ordering and cost
  never get links, although \<open>getCategoryLinks\<close> has links for their keys: those cases of
  its \<open>switch\<close> are never reached.
\<close>

theorem cue_gets_links:
  "(link_cue input \<and> fst (intent_chain input) \<in> link_categories \<longrightarrow>
      snd (intent_chain input) \<noteq> None) \<and>
   (fst (intent_chain input) \<in> {Manuals, OrderOnline, Cost} \<longrightarrow> snd (intent_chain input) = None) \<and>
   list_all (\<lambda>c. getCategoryLinks (category_key c) \<noteq> None) [Manuals, OrderOnline, Cost]"
proof -
  have table: "\<forall>r \<in> set rule_table.
      (rule_category r \<in> link_categories \<longrightarrow> (link_cue input \<longrightarrow> policy_links input (rule_links r) \<noteq> None)) \<and>
      (rule_category r \<in> {Manuals, OrderOnline, Cost} \<longrightarrow> rule_links r = NoLinks)"
    by (simp add: rule_table_def link_categories_def getCategoryLinks_def)
  have "fst (first_match input rs) = c \<Longrightarrow> c \<noteq> Default \<Longrightarrow>
      \<exists>r \<in> set rs. rule_category r = c \<and> snd (first_match input rs) = policy_links input (rule_links r)"
    for rs c by (induction rs) (auto split: if_splits)
  moreover have "Default \<notin> link_categories" by (simp add: link_categories_def)
  ultimately have "(link_cue input \<and> fst (intent_chain input) \<in> link_categories \<longrightarrow>
      snd (intent_chain input) \<noteq> None) \<and>
     (fst (intent_chain input) \<in> {Manuals, OrderOnline, Cost} \<longrightarrow> snd (intent_chain input) = None)"
    using table unfolding intent_chain_eq by (metis empty_iff insert_iff category.distinct policy_links.simps(1))
  moreover have "list_all (\<lambda>c. getCategoryLinks (category_key c) \<noteq> None) [Manuals, OrderOnline, Cost]"
    by (simp add: getCategoryLinks_def)
  ultimately show ?thesis by blast
qed

theorem cue_gets_links_witness:
  "intent_chain ''visit bored'' = (Bored, getCategoryLinks ''bored'') \<and>
   snd (intent_chain ''visit bored'') \<noteq> None"
proof -
  have chain: "intent_chain ''visit bored'' = (Bored, getCategoryLinks ''bored'')" by code_simp
  have "link_cue ''visit bored''" by code_simp
  moreover have "Bored \<in> link_categories" by (simp add: link_categories_def)
  ultimately have "snd (intent_chain ''visit bored'') \<noteq> None"
    using cue_gets_links [of "''visit bored''"] chain by simp
  with chain show ?thesis by simp
qed

end
