(* ===== verification/Chat_Session.thy ===== *)
theory Chat_Session
  imports Intent
begin

text \<open>
  The chat widget as a state machine: the React state of the \<open>ChatBot\<close> component
  (\<open>src/src/components/home/ChatBot.tsx\<close>, lines 6--26 and 406--767).  The state is
  \<open>isOpen\<close>, \<open>messages\<close>, \<open>newMessage\<close> and \<open>isTyping\<close>, together with the
  replies scheduled by \<open>setTimeout\<close> and not yet delivered.  A scheduled reply is a closure
  over the values of \<open>newMessage\<close> and \<open>messages\<close> at the time of the submission; all use
  the same delay of 1500 ms, so they fire in the order they were scheduled.  Between two
  events React has re-rendered, so each event handler reads the current state.

  The events are the ones the rendered page offers: the chat button (rendered only while
  the widget is closed), the close button, typing into the input and submitting the form
  (rendered only while it is open), and the firing of the oldest scheduled reply, with the
  value \<open>Math.random()\<close> returns in it.  A timer fires whether the widget is open or
  not: the source does not cancel it.
\<close>

subsection \<open>The state\<close>

record message =
  msg_id :: nat
  msg_text :: string
  isBot :: bool
  links :: "link list option"

definition welcome_text :: string where
  "welcome_text =
     ''Hey there, I'm Revy! '' @ [CHR 0xF0, CHR 0x9F, CHR 0xA4, CHR 0x96, CHR 0xE2, CHR 0x9C, CHR 0xA8] @ '' Feeling curious, bored, or just vibin'? Ask me anything or tap on something below. I got games, kits, cool projects'' @ [CHR 0xE2, CHR 0x80, CHR 0x94] @ ''and good vibes. '' @ [CHR 0xF0, CHR 0x9F, CHR 0x98, CHR 0x84]"

definition initialMessages :: "message list" where
  "initialMessages = [\<lparr>msg_id = 1, msg_text = welcome_text, isBot = True, links = None\<rparr>]"

text \<open>A scheduled reply: what its closure captured.\<close>

record pending =
  p_newMessage :: string
  p_messages_len :: nat

record chat_state =
  isOpen :: bool
  messages :: "message list"
  newMessage :: string
  isTyping :: bool
  timers :: "pending list"

definition init_chat :: chat_state where
  "init_chat = \<lparr>isOpen = False, messages = initialMessages, newMessage = [], isTyping = False,
                timers = []\<rparr>"

subsection \<open>The handlers\<close>

text \<open>
  \<open>handleSendMessage\<close>: nothing for a blank message; otherwise append the user's message
  with id \<open>messages.length + 1\<close>, clear the input, show the typing indicator and schedule
  the reply.
\<close>

definition handleSendMessage :: "chat_state \<Rightarrow> chat_state" where
  "handleSendMessage st =
     (if trim (newMessage st) = [] then st
      else
        (let userMessage = \<lparr>msg_id = length (messages st) + 1, msg_text = newMessage st,
                            isBot = False, links = None\<rparr>
         in st\<lparr>messages := messages st @ [userMessage], newMessage := [], isTyping := True,
               timers := timers st @ [\<lparr>p_newMessage = newMessage st,
                                       p_messages_len = length (messages st)\<rparr>]\<rparr>))"

text \<open>
  The \<open>setTimeout\<close> callback: classify the captured message, draw a reply, hide the
  typing indicator and append the bot's message with id \<open>messages.length + 2\<close>, where
  \<open>messages\<close> is the array the closure captured.
\<close>

definition reply_callback :: "real \<Rightarrow> pending \<Rightarrow> chat_state \<Rightarrow> chat_state" where
  "reply_callback r p st =
     (let input = toLowerCase (p_newMessage p);
          (responseCategory, responseLinks) = intent_chain input;
          responseText = getRandomResponse r responseCategory;
          botMessage = \<lparr>msg_id = p_messages_len p + 2, msg_text = responseText, isBot = True,
                        links = responseLinks\<rparr>
      in st\<lparr>isTyping := False, messages := messages st @ [botMessage]\<rparr>)"

datatype event = OpenChat | CloseChat | TypeMessage string | Submit | TimerFires real

fun chat_step :: "chat_state \<Rightarrow> event \<Rightarrow> chat_state" where
  "chat_step st OpenChat = (if isOpen st then st else st\<lparr>isOpen := True\<rparr>)"
| "chat_step st CloseChat = (if isOpen st then st\<lparr>isOpen := False\<rparr> else st)"
| "chat_step st (TypeMessage s) = (if isOpen st then st\<lparr>newMessage := s\<rparr> else st)"
| "chat_step st Submit = (if isOpen st then handleSendMessage st else st)"
| "chat_step st (TimerFires r) =
     (case timers st of
        [] \<Rightarrow> st
      | p # ps \<Rightarrow> reply_callback r p (st\<lparr>timers := ps\<rparr>))"

fun chat_run :: "chat_state \<Rightarrow> event list \<Rightarrow> chat_state" where
  "chat_run st [] = st"
| "chat_run st (e # es) = chat_run (chat_step st e) es"

text \<open>\<open>Math.random()\<close> returns a number in \<open>[0, 1)\<close>.\<close>

fun valid_event :: "event \<Rightarrow> bool" where
  "valid_event (TimerFires r) = (0 \<le> r \<and> r < 1)"
| "valid_event _ = True"

inductive reachable :: "chat_state \<Rightarrow> bool" where
  init: "reachable init_chat"
| step: "reachable st \<Longrightarrow> valid_event e \<Longrightarrow> reachable (chat_step st e)"

subsection \<open>Invariants\<close>

text \<open>
  What every reachable state keeps: the welcome message stays first, every user message
  has exactly one reply, delivered or scheduled, the typing indicator is shown only while a
  reply is scheduled, and every scheduled reply captured a non-blank message and a length
  of the history that has since been reached.
\<close>

definition chat_inv :: "chat_state \<Rightarrow> bool" where
  "chat_inv st \<longleftrightarrow>
     messages st \<noteq> [] \<and> hd (messages st) = hd initialMessages \<and>
     length (filter isBot (messages st)) + length (timers st)
       = Suc (length (filter (\<lambda>m. \<not> isBot m) (messages st))) \<and>
     (isTyping st \<longrightarrow> timers st \<noteq> []) \<and>
     (\<forall>p \<in> set (timers st). p_messages_len p < length (messages st) \<and> trim (p_newMessage p) \<noteq> [])"

text \<open>
  Serial use: the user submits only when no reply is pending.  Under it the ids are
  \<open>1, 2, 3, \<dots>\<close>: the scheduled reply, if any, was captured one message ago.
\<close>

inductive serial_reachable :: "chat_state \<Rightarrow> bool" where
  init: "serial_reachable init_chat"
| step: "serial_reachable st \<Longrightarrow> valid_event e \<Longrightarrow> (e = Submit \<longrightarrow> timers st = []) \<Longrightarrow>
         serial_reachable (chat_step st e)"

definition serial_inv :: "chat_state \<Rightarrow> bool" where
  "serial_inv st \<longleftrightarrow>
     map msg_id (messages st) = [1..<Suc (length (messages st))] \<and>
     (timers st = [] \<or> (\<exists>p. timers st = [p] \<and> Suc (p_messages_len p) = length (messages st)))"

text \<open>The run that submits twice before the first reply arrives.\<close>

definition double_submit :: "event list" where
  "double_submit = [OpenChat, TypeMessage ''hi'', Submit, TypeMessage ''yo'', Submit, TimerFires 0]"

subsection \<open>Lemmas\<close>

lemma chat_inv_init: "chat_inv init_chat"
  by (simp add: chat_inv_def init_chat_def initialMessages_def)

lemma reply_callback_simps [simp]:
  "isOpen (reply_callback r p st) = isOpen st"
  "newMessage (reply_callback r p st) = newMessage st"
  "timers (reply_callback r p st) = timers st"
  "isTyping (reply_callback r p st) = False"
  "messages (reply_callback r p st) = messages st @
     [\<lparr>msg_id = p_messages_len p + 2,
       msg_text = getRandomResponse r (fst (intent_chain (toLowerCase (p_newMessage p)))),
       isBot = True, links = snd (intent_chain (toLowerCase (p_newMessage p)))\<rparr>]"
  by (simp_all add: reply_callback_def Let_def split: prod.splits)

lemma handleSendMessage_inv: "chat_inv st \<Longrightarrow> chat_inv (handleSendMessage st)"
  by (auto simp: chat_inv_def handleSendMessage_def Let_def)

lemma TimerFires_inv: "chat_inv st \<Longrightarrow> chat_inv (chat_step st (TimerFires r))"
  by (cases "timers st") (auto simp: chat_inv_def)

lemma chat_step_inv: "chat_inv st \<Longrightarrow> chat_inv (chat_step st e)"
proof (cases e)
  case Submit
  then show "chat_inv st \<Longrightarrow> ?thesis" by (simp add: handleSendMessage_inv)
next
  case (TimerFires r)
  then show "chat_inv st \<Longrightarrow> ?thesis" by (simp only: TimerFires_inv)
qed (simp_all add: chat_inv_def)

lemma reachable_chat_inv: "reachable st \<Longrightarrow> chat_inv st"
  by (induction rule: reachable.induct) (simp_all add: chat_inv_init chat_step_inv)


lemma chat_run_inv: "chat_inv st \<Longrightarrow> chat_inv (chat_run st es)"
  by (induction es arbitrary: st) (simp_all add: chat_step_inv)

lemma reachable_chat_run: "reachable st \<Longrightarrow> list_all valid_event es \<Longrightarrow> reachable (chat_run st es)"
  by (induction es arbitrary: st) (auto intro: reachable.step)

lemma chat_run_fire_all:
  "length rs = length (timers st) \<Longrightarrow> timers (chat_run st (map TimerFires rs)) = [] \<and>
   (rs \<noteq> [] \<longrightarrow> \<not> isTyping (chat_run st (map TimerFires rs)))"
proof (induction rs arbitrary: st)
  case Nil
  then show ?case by simp
next
  case (Cons r rs)
  then obtain p ps where t: "timers st = p # ps" by (cases "timers st") auto
  let ?st' = "chat_step st (TimerFires r)"
  have "timers ?st' = ps" "\<not> isTyping ?st'" using t by simp_all
  with Cons.prems t have "length rs = length (timers ?st')" by simp
  with Cons.IH [of ?st'] \<open>\<not> isTyping ?st'\<close> show ?case
    by (cases rs) simp_all
qed

lemma serial_inv_Submit:
  "serial_inv st \<Longrightarrow> timers st = [] \<Longrightarrow> serial_inv (handleSendMessage st)"
  by (auto simp: serial_inv_def handleSendMessage_def Let_def)

lemma serial_inv_TimerFires:
  "serial_inv st \<Longrightarrow> serial_inv (chat_step st (TimerFires r))"
  by (auto simp: serial_inv_def)

lemma serial_inv_step:
  "serial_inv st \<Longrightarrow> (e = Submit \<longrightarrow> timers st = []) \<Longrightarrow> serial_inv (chat_step st e)"
proof (cases e)
  case Submit
  then show "serial_inv st \<Longrightarrow> (e = Submit \<longrightarrow> timers st = []) \<Longrightarrow> ?thesis"
    by (simp add: serial_inv_Submit)
next
  case (TimerFires r)
  then show "serial_inv st \<Longrightarrow> (e = Submit \<longrightarrow> timers st = []) \<Longrightarrow> ?thesis"
    by (simp only: serial_inv_TimerFires)
qed (simp_all add: serial_inv_def del: upt_Suc)

lemma serial_reachable_inv: "serial_reachable st \<Longrightarrow> serial_inv st"
proof (induction rule: serial_reachable.induct)
  case init
  show ?case by (simp add: serial_inv_def init_chat_def initialMessages_def)
next
  case (step st e)
  then show ?case by (simp add: serial_inv_step)
qed

lemma double_submit_run:
  "map msg_id (messages (chat_run init_chat double_submit)) = [1, 2, 3, 3] \<and>
   \<not> isTyping (chat_run init_chat double_submit) \<and> timers (chat_run init_chat double_submit) \<noteq> []"
  unfolding double_submit_def by code_simp

lemma double_submit_reachable: "reachable (chat_run init_chat double_submit)"
  by (rule reachable_chat_run [OF reachable.init]) (simp add: double_submit_def)

text \<open>Every message of a reachable state carries links the site routes.\<close>

lemma reachable_links_ok: "reachable st \<Longrightarrow> list_all (\<lambda>m. links_ok (links m)) (messages st)"
proof (induction rule: reachable.induct)
  case init
  then show ?case by (simp add: init_chat_def initialMessages_def)
next
  case (step st e)
  have reply: "links_ok (snd (intent_chain s))" for s
    by (simp add: intent_chain_eq first_match_links_ok)
  from step show ?case
    by (cases e)
       (auto simp: handleSendMessage_def reply Let_def split: list.split)
qed

lemma chat_step_prefix: "prefix (messages st) (messages (chat_step st e))"
  by (cases e) (auto simp: handleSendMessage_def Let_def split: list.splits)

subsection \<open>What the widget guarantees\<close>

text \<open>
  C3.  In every reachable state each message the user sent has exactly one bot reply,
  delivered or still scheduled: the bot messages and the pending timers together outnumber
  the user's messages by one, the welcome message.
\<close>

theorem chat_replies_balance:
  assumes "reachable st"
  shows "length (filter isBot (messages st)) + length (timers st)
           = Suc (length (filter (\<lambda>m. \<not> isBot m) (messages st)))"
  using reachable_chat_inv [OF assms] by (simp add: chat_inv_def)

theorem chat_replies_balance_witness:
  "length (filter isBot (messages (chat_run init_chat [OpenChat, TypeMessage ''hi'', Submit])))
     + length (timers (chat_run init_chat [OpenChat, TypeMessage ''hi'', Submit]))
   = Suc (length (filter (\<lambda>m. \<not> isBot m)
            (messages (chat_run init_chat [OpenChat, TypeMessage ''hi'', Submit]))))"
  by (rule chat_replies_balance [OF reachable_chat_run [OF reachable.init]]) simp

text \<open>
  C4.  Every submission is answered: from any reachable state, once the scheduled timers
  have fired, nothing is pending, the typing indicator is off, and there is one bot reply
  per user message besides the welcome message.
\<close>

theorem chat_all_replied:
  assumes "reachable st" and "length rs = length (timers st)"
  shows "timers (chat_run st (map TimerFires rs)) = [] \<and>
         \<not> isTyping (chat_run st (map TimerFires rs)) \<and>
         length (filter isBot (messages (chat_run st (map TimerFires rs))))
           = Suc (length (filter (\<lambda>m. \<not> isBot m) (messages (chat_run st (map TimerFires rs)))))"
proof -
  have inv: "chat_inv st" by (rule reachable_chat_inv [OF assms(1)])
  let ?st' = "chat_run st (map TimerFires rs)"
  have inv': "chat_inv ?st'" by (rule chat_run_inv [OF inv])
  have fired: "timers ?st' = [] \<and> (rs \<noteq> [] \<longrightarrow> \<not> isTyping ?st')"
    by (rule chat_run_fire_all [OF assms(2)])
  have "\<not> isTyping ?st'"
  proof (cases rs)
    case Nil
    with assms(2) inv show ?thesis by (simp add: chat_inv_def)
  next
    case Cons
    with fired show ?thesis by simp
  qed
  with fired inv' show ?thesis by (simp add: chat_inv_def)
qed

theorem chat_all_replied_witness:
  "timers (chat_run (chat_run init_chat double_submit) [TimerFires (1 / 2)]) = [] \<and>
   \<not> isTyping (chat_run (chat_run init_chat double_submit) [TimerFires (1 / 2)]) \<and>
   length (filter isBot (messages (chat_run (chat_run init_chat double_submit) [TimerFires (1 / 2)])))
     = Suc (length (filter (\<lambda>m. \<not> isBot m)
         (messages (chat_run (chat_run init_chat double_submit) [TimerFires (1 / 2)]))))"
proof -
  have "length [1 / 2 :: real] = length (timers (chat_run init_chat double_submit))"
    unfolding double_submit_def by code_simp
  from chat_all_replied [OF double_submit_reachable this] show ?thesis by simp
qed

text \<open>
  C5.  Two submissions before the first reply give two messages the same id: the user's
  second message gets \<open>messages.length + 1 = 3\<close> and the first reply, computed from the
  \<open>messages\<close> its closure captured, gets \<open>1 + 2 = 3\<close> too.  In the same reachable state
  the typing indicator is already off although the second reply is still pending.
\<close>

theorem chat_duplicate_ids:
  "reachable (chat_run init_chat double_submit) \<and>
   \<not> distinct (map msg_id (messages (chat_run init_chat double_submit))) \<and>
   \<not> isTyping (chat_run init_chat double_submit) \<and> timers (chat_run init_chat double_submit) \<noteq> []"
  using double_submit_reachable double_submit_run by simp

text \<open>
  C10.  Under serial use (no submission while a reply is pending) the ids of the history
  are exactly \<open>1, 2, \<dots>, n\<close>, so they are distinct, as React's \<open>key\<close> requires.
\<close>

theorem serial_ids:
  assumes "serial_reachable st"
  shows "map msg_id (messages st) = [1..<Suc (length (messages st))]"
  using serial_reachable_inv [OF assms] by (simp add: serial_inv_def)

theorem serial_ids_witness:
  "map msg_id (messages (chat_step (chat_step (chat_step (chat_step init_chat OpenChat)
      (TypeMessage ''hi'')) Submit) (TimerFires 0)))
   = [1..<Suc (length (messages (chat_step (chat_step (chat_step (chat_step init_chat OpenChat)
      (TypeMessage ''hi'')) Submit) (TimerFires 0))))]"
proof (rule serial_ids)
  have s1: "serial_reachable (chat_step init_chat OpenChat)"
    by (rule serial_reachable.step [OF serial_reachable.init]) simp_all
  have s2: "serial_reachable (chat_step (chat_step init_chat OpenChat) (TypeMessage ''hi''))"
    by (rule serial_reachable.step [OF s1]) simp_all
  have s3: "serial_reachable (chat_step (chat_step (chat_step init_chat OpenChat)
      (TypeMessage ''hi'')) Submit)"
    by (rule serial_reachable.step [OF s2]) (simp_all add: init_chat_def)
  show "serial_reachable (chat_step (chat_step (chat_step (chat_step init_chat OpenChat)
      (TypeMessage ''hi'')) Submit) (TimerFires 0))"
    by (rule serial_reachable.step [OF s3]) simp_all
qed

text \<open>C19.  The history is append-only: no sequence of events removes or rewrites a message.\<close>

theorem chat_run_prefix: "prefix (messages st) (messages (chat_run st es))"
proof (induction es arbitrary: st)
  case Nil
  then show ?case by simp
next
  case (Cons e es)
  then show ?case
    using chat_step_prefix [of st e] by (auto intro: prefix_order.trans)
qed

text \<open>
  C18.  A blank message (empty or white space only) is ignored: submitting it changes
  nothing, no message is added and no reply is scheduled.
\<close>

theorem blank_submit_ignored:
  assumes "trim (newMessage st) = []"
  shows "chat_step st Submit = st"
  using assms by (simp add: handleSendMessage_def)

theorem blank_submit_ignored_witness:
  "chat_step (init_chat\<lparr>isOpen := True, newMessage := ''  ''\<rparr>) Submit
   = init_chat\<lparr>isOpen := True, newMessage := ''  ''\<rparr>"
  by (rule blank_submit_ignored) (simp add: init_chat_def trim_def is_js_space_def)

end
