(* ===== verification/Chat_View.thy ===== *)
theory Chat_View
  imports Chat_Session
begin

text \<open>
  What the chat widget shows: the JSX it returns (\<open>src/src/components/home/ChatBot.tsx\<close>,
  lines 670--767) as an element tree over the state of \<open>Chat_Session\<close>, and the effect
  that scrolls the conversation to its end (lines 26--34).  The widget with its scroll
  position is \<open>chat_widget\<close>, whose step is \<open>chat_step\<close> followed by the effect.
\<close>

subsection \<open>The rendered widget\<close>

text \<open>
  The JSX of lines 670--767 as an element tree: the chat button while the widget is
  closed; otherwise the window with its header, one bubble per message (with its links),
  the typing indicator while \<open>isTyping\<close>, and the input form.  \<open>{msg.links && ...}\<close>
  renders the link block for every present array, also an empty one.
\<close>

definition link_node :: "link \<Rightarrow> vnode" where
  "link_node l =
     El ''Link'' [(''to'', link_url l), (''className'', ''flex items-center text-review-blue hover:underline'')]
       [El ''ExternalLink'' [(''size'', ''12''), (''className'', ''mr-1'')] [], Txt (link_text l)]"

definition message_node :: "message \<Rightarrow> vnode" where
  "message_node msg =
     El ''div'' [(''className'', ''flex '' @ (if isBot msg then ''justify-start'' else ''justify-end''))]
       [El ''div''
          [(''className'', ''max-w-[80%] rounded-lg p-3 '' @
             (if isBot msg then ''bg-gray-100 text-gray-800'' else ''bg-review-darkblue text-white''))]
          (El ''div'' [] [Txt (msg_text msg)] #
           (case links msg of
              None \<Rightarrow> []
            | Some ls \<Rightarrow> [El ''div'' [(''className'', ''mt-2 space-y-1'')] (map link_node ls)]))]"

definition typing_node :: vnode where
  "typing_node =
     El ''div'' [(''className'', ''flex justify-start'')]
       [El ''div'' [(''className'', ''bg-gray-100 rounded-lg p-3 max-w-[80%]'')]
          [El ''div'' [(''className'', ''flex space-x-1'')]
             [El ''div'' [(''className'', ''w-2 h-2 rounded-full bg-gray-400 animate-bounce'')] [],
              El ''div'' [(''className'', ''w-2 h-2 rounded-full bg-gray-400 animate-bounce [animation-delay:0.2s]'')] [],
              El ''div'' [(''className'', ''w-2 h-2 rounded-full bg-gray-400 animate-bounce [animation-delay:0.4s]'')] []]]]"

definition chat_header :: vnode where
  "chat_header =
     El ''div'' [(''className'', ''bg-review-darkblue text-white p-3 flex items-center justify-between rounded-t-lg'')]
       [El ''div'' [(''className'', ''flex items-center'')]
          [El ''Bot'' [(''size'', ''20''), (''className'', ''mr-2'')] [],
           El ''span'' [(''className'', ''font-medium'')] [Txt ''Chat with Revy'']],
        El ''button'' [(''className'', ''text-white hover:text-gray-300'')]
          [El ''X'' [(''size'', ''20'')] []]]"

definition chat_form :: "string \<Rightarrow> vnode" where
  "chat_form value =
     El ''div'' [(''className'', ''border-t p-3'')]
       [El ''form'' [(''className'', ''flex items-center'')]
          [El ''input'' [(''type'', ''text''), (''value'', value),
             (''className'', ''flex-grow border rounded-l-lg px-3 py-2 focus:outline-none focus:ring-1 focus:ring-review-blue''),
             (''placeholder'', ''Type a message...'')] [],
           El ''button'' [(''type'', ''submit''),
             (''className'', ''bg-review-darkblue text-white rounded-r-lg px-3 py-2 hover:bg-review-blue transition-colors'')]
             [El ''Send'' [(''size'', ''20'')] []]]]"

definition open_button :: vnode where
  "open_button =
     El ''button'' [(''className'', ''bg-review-darkblue text-white rounded-full p-3 shadow-lg hover:bg-review-blue transition-colors'')]
       [El ''MessageSquare'' [(''size'', ''24'')] []]"

definition chat_view :: "chat_state \<Rightarrow> vnode" where
  "chat_view st =
     El ''div'' [(''className'', ''fixed bottom-4 right-4 flex flex-col z-50'')]
       ((if isOpen st then
           [El ''div'' [(''className'', ''bg-white rounded-lg shadow-lg mb-2 w-80 sm:w-96 flex flex-col h-96 max-h-[80vh] overflow-hidden'')]
              [chat_header,
               El ''div'' [(''className'', ''flex-grow overflow-y-auto p-3 space-y-3'')]
                 (map message_node (messages st) @ (if isTyping st then [typing_node] else []) @
                  [El ''div'' [] []]),
               chat_form (newMessage st)]]
         else []) @
        (if \<not> isOpen st then [open_button] else []))"

subsection \<open>Scrolling the conversation\<close>

text \<open>
  \<open>scrollToBottom\<close> and its effect on \<open>[messages, isTyping]\<close>: after a render in which
  the history or the typing indicator changed, \<open>messagesEndRef.current?.scrollIntoView()\<close>.
  The ref is the empty \<open>div\<close> after the messages (line 731), which exists only while the
  window is open; when it is closed the optional call does nothing.  \<open>scrolledToEnd\<close>
  records whether the messages pane, since it was last mounted, has been scrolled to that
  \<open>div\<close>: closing the window unmounts the pane and opening it mounts a new one, at its top.
  The component itself mounts once, closed, so the effect's first run scrolls nothing.
\<close>

record chat_widget =
  chat :: chat_state
  scrolledToEnd :: bool

definition init_widget :: chat_widget where
  "init_widget = \<lparr>chat = init_chat, scrolledToEnd = False\<rparr>"

definition scrollToBottom :: "chat_widget \<Rightarrow> chat_widget" where
  "scrollToBottom w = (if isOpen (chat w) then w\<lparr>scrolledToEnd := True\<rparr> else w)"

definition widget_step :: "chat_widget \<Rightarrow> event \<Rightarrow> chat_widget" where
  "widget_step w e =
     (let st' = chat_step (chat w) e;
          w' = \<lparr>chat = st', scrolledToEnd = isOpen (chat w) \<and> isOpen st' \<and> scrolledToEnd w\<rparr>
      in if messages st' \<noteq> messages (chat w) \<or> isTyping st' \<noteq> isTyping (chat w)
         then scrollToBottom w' else w')"

fun widget_run :: "chat_widget \<Rightarrow> event list \<Rightarrow> chat_widget" where
  "widget_run w [] = w"
| "widget_run w (e # es) = widget_run (widget_step w e) es"

subsection \<open>Lemmas\<close>

lemma link_targets_message:
  "set (node_attrs ''to'' (message_node m)) =
     (case links m of None \<Rightarrow> {} | Some ls \<Rightarrow> link_url ` set ls)"
  by (auto simp: message_node_def link_node_def split: option.split)

lemma link_targets_view:
  "set (node_attrs ''to'' (chat_view st)) \<subseteq>
     (\<Union>m \<in> set (messages st). case links m of None \<Rightarrow> {} | Some ls \<Rightarrow> link_url ` set ls)"
  by (auto simp: chat_view_def link_targets_message typing_node_def chat_header_def chat_form_def
      open_button_def)

lemma chat_widget_step [simp]: "chat (widget_step w e) = chat_step (chat w) e"
  by (simp add: widget_step_def Let_def scrollToBottom_def)

text \<open>The widget refines the session: its conversation is the one \<open>chat_run\<close> computes.\<close>

lemma chat_widget_run [simp]: "chat (widget_run w es) = chat_run (chat w) es"
  by (induction es arbitrary: w) simp_all

lemma scrolledToEnd_step:
  "scrolledToEnd (widget_step w e) \<longleftrightarrow>
     isOpen (chat_step (chat w) e) \<and>
     (messages (chat_step (chat w) e) \<noteq> messages (chat w) \<or>
      isTyping (chat_step (chat w) e) \<noteq> isTyping (chat w) \<or>
      isOpen (chat w) \<and> scrolledToEnd w)"
  by (auto simp: widget_step_def Let_def scrollToBottom_def)

lemma reopen_not_scrolled: "\<not> isOpen (chat w) \<Longrightarrow> \<not> scrolledToEnd (widget_step w OpenChat)"
  by (simp add: scrolledToEnd_step)

subsection \<open>What the widget shows\<close>

text \<open>
  C29.  Every link the widget renders, in any reachable state, points to one of the site's
  routes (\<open>/games\<close>, \<open>/studios\<close>, \<open>/labs\<close>, \<open>/login\<close>): the rendered \<open>to\<close>
  attributes come from the replies' links, which the classifier takes from
  \<open>getCategoryLinks\<close>.
\<close>

theorem rendered_links_on_site:
  assumes "reachable st"
  shows "set (node_attrs ''to'' (chat_view st)) \<subseteq> site_routes"
proof -
  have "\<forall>m \<in> set (messages st). links_ok (links m)"
    using reachable_links_ok [OF assms] by (simp add: list_all_iff)
  then show ?thesis
    using link_targets_view [of st] by (fastforce simp: links_ok_def split: option.splits)
qed

theorem rendered_links_on_site_witness:
  "reachable (chat_step init_chat OpenChat) \<and>
   set (node_attrs ''to'' (chat_view (chat_step init_chat OpenChat))) \<subseteq> site_routes"
proof -
  have r: "reachable (chat_step init_chat OpenChat)"
    by (rule reachable.step [OF reachable.init]) simp
  then show ?thesis using rendered_links_on_site [OF r] by simp
qed

lemma typing_follows_messages:
  "messages (chat_step st e) = messages st \<Longrightarrow> isTyping (chat_step st e) = isTyping st"
  by (cases e) (auto simp: handleSendMessage_def reply_callback_def Let_def
      split: list.splits prod.splits if_splits)

text \<open>
  The pane is scrolled to its end only if the conversation has grown past \<open>M\<close>, a prefix
  of it: a step that scrolls it changes the history (a change of the typing indicator
  comes with one), and the history only grows.
\<close>

lemma scrolled_step_grown:
  assumes "prefix M (messages (chat w))" and "scrolledToEnd w \<longrightarrow> messages (chat w) \<noteq> M"
  shows "prefix M (messages (chat (widget_step w e))) \<and>
         (scrolledToEnd (widget_step w e) \<longrightarrow> messages (chat (widget_step w e)) \<noteq> M)"
proof -
  have grow: "prefix (messages (chat w)) (messages (chat_step (chat w) e))"
    by (rule chat_step_prefix)
  with assms(1) have pre: "prefix M (messages (chat_step (chat w) e))"
    by (rule prefix_order.trans)
  have "messages (chat_step (chat w) e) \<noteq> M" if "scrolledToEnd (widget_step w e)"
  proof
    assume eq: "messages (chat_step (chat w) e) = M"
    with grow assms(1) have same: "messages (chat_step (chat w) e) = messages (chat w)"
      by (metis prefix_order.antisym)
    with that typing_follows_messages [OF same] have "scrolledToEnd w"
      by (simp add: scrolledToEnd_step)
    with assms(2) same eq show False by simp
  qed
  with pre show ?thesis by simp
qed

lemma scrolled_run_grown:
  "prefix M (messages (chat w)) \<Longrightarrow> (scrolledToEnd w \<longrightarrow> messages (chat w) \<noteq> M) \<Longrightarrow>
   scrolledToEnd (widget_run w es) \<Longrightarrow> messages (chat (widget_run w es)) \<noteq> M"
proof (induction es arbitrary: w)
  case Nil
  then show ?case by simp
next
  case (Cons e es)
  then show ?case
    using scrolled_step_grown [OF Cons.prems(1,2), of e] Cons.IH [of "widget_step w e"] by simp
qed

lemma open_keeps_messages [simp]: "messages (chat_step st OpenChat) = messages st"
  by simp

text \<open>
  C16.  A reply delivered while the window is closed is not scrolled into view.  Take any
  widget whose window is closed, whatever was delivered to it in the meantime: after the
  window is reopened, and whatever the visitor does next, the messages pane is not scrolled
  to its end as long as the conversation is still the one the closed window held.  The
  effect on \<open>[messages, isTyping]\<close> found no pane to scroll when the reply arrived, and
  reopening changes neither, so only a later change of the conversation scrolls it.
\<close>

theorem reply_while_closed_not_scrolled:
  assumes "\<not> isOpen (chat w)"
    and "messages (chat (widget_run w (OpenChat # es))) = messages (chat w)"
  shows "\<not> scrolledToEnd (widget_run w (OpenChat # es))"
proof
  assume scrolled: "scrolledToEnd (widget_run w (OpenChat # es))"
  have "prefix (messages (chat w)) (messages (chat (widget_step w OpenChat)))"
    by simp
  moreover have "\<not> scrolledToEnd (widget_step w OpenChat)"
    using assms(1) by (rule reopen_not_scrolled)
  ultimately have "messages (chat (widget_run (widget_step w OpenChat) es)) \<noteq> messages (chat w)"
    using scrolled by (intro scrolled_run_grown) simp_all
  with assms(2) show False by simp
qed

theorem reply_while_closed_not_scrolled_witness:
  "\<not> isOpen (chat (widget_run init_widget [OpenChat, TypeMessage ''hi'', Submit, CloseChat, TimerFires 0])) \<and>
   isBot (last (messages (chat (widget_run init_widget
     [OpenChat, TypeMessage ''hi'', Submit, CloseChat, TimerFires 0])))) \<and>
   \<not> scrolledToEnd (widget_run (widget_run init_widget
     [OpenChat, TypeMessage ''hi'', Submit, CloseChat, TimerFires 0]) [OpenChat])"
proof -
  have closed: "\<not> isOpen (chat (widget_run init_widget
      [OpenChat, TypeMessage ''hi'', Submit, CloseChat, TimerFires 0]))"
    and bot: "isBot (last (messages (chat (widget_run init_widget
      [OpenChat, TypeMessage ''hi'', Submit, CloseChat, TimerFires 0]))))"
    by (simp_all add: init_widget_def init_chat_def handleSendMessage_def trim_def is_js_space_def)
  from closed have "messages (chat (widget_run (widget_run init_widget
      [OpenChat, TypeMessage ''hi'', Submit, CloseChat, TimerFires 0]) [OpenChat])) =
    messages (chat (widget_run init_widget
      [OpenChat, TypeMessage ''hi'', Submit, CloseChat, TimerFires 0]))"
    by simp
  with reply_while_closed_not_scrolled [OF closed, of "[]"] closed bot show ?thesis by simp
qed

end
