(* ===== verification/Games_Catalogue.thy ===== *)
theory Games_Catalogue
  imports JS_Prelude
begin

text \<open>
  The data of the games page, \<open>src/src/pages/Games.tsx\<close> lines 43--233: the array
  \<open>allGames\<close>, in the order and the groups of the source, and the name of its last game.
\<close>

subsection \<open>The catalogue\<close>

datatype icon = Icon_Brain | Icon_Gamepad | Icon_Gamepad2 | Icon_Joystick | Icon_Puzzle
  | Icon_Trophy | Icon_Zap

record game =
  game_id :: nat
  game_name :: string
  description :: string
  tags :: "string list"
  icon :: icon
  featured :: bool
  features :: "string list"

text \<open>
  The source's array, in its order.  Its comments divide it into the featured game and
  three pages: \<open>// Page 1\<close> before id 1, \<open>// Page 2\<close> before id 9, \<open>// Page 3\<close>
  before id 17.  A game without \<open>featured\<close> or \<open>features\<close> has \<open>False\<close> and \<open>[]\<close>.
\<close>

definition sudoku_sensei :: game where
  "sudoku_sensei =
     \<lparr>game_id = 0, game_name = ''Sudoku Sensei'',
      description =
        ''Master Sudoku with AI & Japanese Wisdom. Experience Sudoku like never before with AI solver, 30 levels of strategy, soothing aesthetics, and OCR magic.'',
      tags = [''Puzzle'', ''Strategy'', ''AI''], icon = Icon_Brain, featured = True,
      features = [''AI Solver: Snap a pic of any puzzle and let our smart solver guide you'',
        ''30 Levels of Strategy: Progress from Beginner to Master'',
        ''Soothing Japanese Aesthetics: Sakura animations and tranquil tunes'',
        ''Smart Play Tools: Hints, real-time error checks, dark/offline modes'',
        ''OCR Magic: Convert printed puzzles into digital form'']\<rparr>"

definition page1_games :: "game list" where
  "page1_games = [
     \<lparr>game_id = 1, game_name = ''Cyber Racers'',
      description =
        ''A high-speed racing game set in a futuristic cyberpunk world. Customize your vehicle and compete against AI or human players.'',
      tags = [''Racing'', ''Multiplayer''], icon = Icon_Gamepad2, featured = False,
      features = []\<rparr>,
     \<lparr>game_id = 2, game_name = ''Cosmic Defenders'',
      description =
        ''An epic space adventure game where you defend your galaxy against alien invaders. Upgrade your weapons and unlock new abilities.'',
      tags = [''Action'', ''Strategy''], icon = Icon_Joystick, featured = False,
      features = []\<rparr>,
     \<lparr>game_id = 3, game_name = ''Puzzle Master'',
      description =
        ''Challenge your brain with hundreds of unique puzzles. From simple to mind-bending, there's something for everyone.'',
      tags = [''Puzzle'', ''Casual''], icon = Icon_Puzzle, featured = False,
      features = []\<rparr>,
     \<lparr>game_id = 4, game_name = ''Speed Legends'',
      description =
        ''Become the fastest driver in this adrenaline-pumping racing simulator with realistic physics and stunning environments.'',
      tags = [''Racing'', ''Simulation''], icon = Icon_Zap, featured = False,
      features = []\<rparr>,
     \<lparr>game_id = 5, game_name = ''Battle Arena'',
      description =
        ''Enter the arena and fight your way to glory in this competitive multiplayer battle game with unique character abilities.'',
      tags = [''Action'', ''PvP''], icon = Icon_Trophy, featured = False,
      features = []\<rparr>,
     \<lparr>game_id = 6, game_name = ''Mystery Manor'',
      description =
        ''Solve the mystery of the abandoned manor by finding clues, solving puzzles, and uncovering the dark secrets within.'',
      tags = [''Adventure'', ''Mystery''], icon = Icon_Gamepad, featured = False,
      features = []\<rparr>,
     \<lparr>game_id = 7, game_name = ''Rhythm Master'',
      description =
        ''Test your musical timing and reflexes in this addictive rhythm game featuring tracks from popular artists.'',
      tags = [''Rhythm'', ''Music''], icon = Icon_Gamepad2, featured = False,
      features = []\<rparr>,
     \<lparr>game_id = 8, game_name = ''Fantasy Kingdoms'',
      description =
        ''Build and expand your medieval kingdom, form alliances, and conquer rival territories in this strategy game.'',
      tags = [''Strategy'', ''MMO''], icon = Icon_Gamepad, featured = False,
      features = []\<rparr>]"

definition page2_games :: "game list" where
  "page2_games = [
     \<lparr>game_id = 9, game_name = ''Ninja Warrior'',
      description =
        ''Master the art of stealth and combat as a ninja warrior on a mission to defeat evil forces threatening your clan.'',
      tags = [''Action'', ''Adventure''], icon = Icon_Gamepad2, featured = False,
      features = []\<rparr>,
     \<lparr>game_id = 10, game_name = ''Space Explorers'',
      description =
        ''Embark on an interstellar journey to explore uncharted planets, discover alien species, and collect valuable resources.'',
      tags = [''Exploration'', ''Sci-Fi''], icon = Icon_Joystick, featured = False,
      features = []\<rparr>,
     \<lparr>game_id = 11, game_name = ''Word Wizards'',
      description =
        ''Put your vocabulary to the test in this word puzzle game with multiple challenging modes and daily competitions.'',
      tags = [''Word'', ''Puzzle''], icon = Icon_Puzzle, featured = False,
      features = []\<rparr>,
     \<lparr>game_id = 12, game_name = ''Football Champions'',
      description =
        ''Lead your team to victory in this realistic football simulation game with authentic teams and strategic gameplay.'',
      tags = [''Sports'', ''Simulation''], icon = Icon_Trophy, featured = False,
      features = []\<rparr>,
     \<lparr>game_id = 13, game_name = ''Monster Hunter'',
      description =
        ''Track and hunt legendary monsters across vast landscapes while upgrading your gear and mastering different weapons.'',
      tags = [''RPG'', ''Action''], icon = Icon_Gamepad, featured = False,
      features = []\<rparr>,
     \<lparr>game_id = 14, game_name = ''City Builder'',
      description =
        ''Design and develop your dream city, manage resources, and keep your citizens happy in this immersive simulation.'',
      tags = [''Simulation'', ''Strategy''], icon = Icon_Joystick, featured = False,
      features = []\<rparr>,
     \<lparr>game_id = 15, game_name = ''Dungeon Delver'',
      description =
        ''Explore randomly generated dungeons, fight monsters, and collect treasure in this roguelike adventure.'',
      tags = [''Roguelike'', ''RPG''], icon = Icon_Gamepad2, featured = False,
      features = []\<rparr>,
     \<lparr>game_id = 16, game_name = ''Cooking Master'',
      description =
        ''Test your culinary skills in fast-paced cooking challenges against the clock or other players online.'',
      tags = [''Casual'', ''Multiplayer''], icon = Icon_Zap, featured = False,
      features = []\<rparr>]"

definition page3_games :: "game list" where
  "page3_games = [
     \<lparr>game_id = 17, game_name = ''Zombie Survival'',
      description =
        ''Survive in a post-apocalyptic world overrun by zombies. Scavenge for supplies and build defenses to stay alive.'',
      tags = [''Survival'', ''Horror''], icon = Icon_Gamepad, featured = False,
      features = []\<rparr>,
     \<lparr>game_id = 18, game_name = ''Card Kingdom'',
      description =
        ''Collect cards, build powerful decks, and battle against other players in this strategic card game.'',
      tags = [''Card Game'', ''Strategy''], icon = Icon_Trophy, featured = False,
      features = []\<rparr>,
     \<lparr>game_id = 19, game_name = ''Astro Golf'',
      description =
        ''Play golf across the galaxy on planets with different gravity, obstacles, and environments.'',
      tags = [''Sports'', ''Casual''], icon = Icon_Puzzle, featured = False,
      features = []\<rparr>,
     \<lparr>game_id = 20, game_name = ''Pirate Adventures'',
      description =
        ''Set sail on the high seas, discover treasure islands, engage in ship battles, and become the most feared pirate.'',
      tags = [''Adventure'', ''Open World''], icon = Icon_Gamepad2, featured = False,
      features = []\<rparr>,
     \<lparr>game_id = 21, game_name = ''Robot Wars'',
      description =
        ''Build and customize battle robots, then fight in arena competitions against other robot engineers.'',
      tags = [''Action'', ''Building''], icon = Icon_Joystick, featured = False,
      features = []\<rparr>,
     \<lparr>game_id = 22, game_name = ''Fashion Designer'',
      description =
        ''Create trendy fashion designs, run your own boutique, and become a famous fashion designer.'',
      tags = [''Simulation'', ''Casual''], icon = Icon_Zap, featured = False,
      features = []\<rparr>,
     \<lparr>game_id = 23, game_name = ''Desert Racing'',
      description =
        ''Race through challenging desert terrain in powerful off-road vehicles under extreme weather conditions.'',
      tags = [''Racing'', ''Extreme''], icon = Icon_Gamepad, featured = False,
      features = []\<rparr>,
     \<lparr>game_id = 24, game_name = ''Magic Academy'',
      description =
        ''Attend a school of magic, learn spells, brew potions, and compete in magical tournaments.'',
      tags = [''Fantasy'', ''RPG''], icon = Icon_Puzzle, featured = False,
      features = []\<rparr>]"

definition allGames :: "game list" where
  "allGames = sudoku_sensei # page1_games @ page2_games @ page3_games"

subsection \<open>Lemmas\<close>

lemma last_game_name: "game_name (last allGames) = ''Magic Academy''"
  by (simp add: allGames_def page1_games_def page2_games_def page3_games_def)

end
