(* ===== verification/Games_Page.thy ===== *)
theory Games_Page
  imports Games_Catalogue
begin

text \<open>
  The games catalogue page, \<open>src/src/pages/Games.tsx\<close>, over the catalogue of
  \<open>Games_Catalogue\<close>: the pagination state \<open>currentPage\<close> with \<open>gamesPerPage = 8\<close> and
  \<open>totalPages = 3\<close> (lines 14--16), the page shown (\<open>currentGames\<close>, lines 235--238),
  \<open>handlePageChange\<close> (lines 243--248) and the buttons that call it (lines 382--408), the
  featured game (line 241), and the two toasts: \<open>handlePlayNow\<close> (lines 26--28) and the
  subscription form's \<open>handleSubscribe\<close> (lines 30--41), with the browser's handling of
  the form's \<open>type="email"\<close> input (lines 429--434).  The whole page is a step
  function \<open>games_step\<close> over the events its rendered controls offer, with the effect on
  \<open>[currentPage]\<close> (lines 18--24), and its JSX is the element tree \<open>games_view\<close>.
  Icons are the names of the \<open>lucide-react\<close> components.
\<close>

subsection \<open>Pagination\<close>

definition gamesPerPage :: int where "gamesPerPage = 8"

definition totalPages :: int where "totalPages = 3"

definition currentGames :: "int \<Rightarrow> game list" where
  "currentGames currentPage =
     (let indexOfLastGame = currentPage * gamesPerPage;
          indexOfFirstGame = indexOfLastGame - gamesPerPage
      in js_slice allGames indexOfFirstGame indexOfLastGame)"

definition handlePageChange :: "int \<Rightarrow> int \<Rightarrow> int" where
  "handlePageChange page currentPage =
     (if page \<ge> 1 \<and> page \<le> totalPages then page else currentPage)"

text \<open>
  The pagination controls: \<open>PaginationPrevious\<close> calls
  \<open>handlePageChange(currentPage - 1)\<close>, \<open>PaginationNext\<close>
  \<open>handlePageChange(currentPage + 1)\<close>, and the links \<open>1\<close>, \<open>2\<close>, \<open>3\<close> their own
  number.  The greyed-out style of a disabled control (\<open>pointer-events-none\<close>) is not
  relied on: the guard of \<open>handlePageChange\<close> is.
\<close>

datatype page_event = PagePrevious | PageNext | PageLink int

fun page_step :: "int \<Rightarrow> page_event \<Rightarrow> int" where
  "page_step currentPage PagePrevious = handlePageChange (currentPage - 1) currentPage"
| "page_step currentPage PageNext = handlePageChange (currentPage + 1) currentPage"
| "page_step currentPage (PageLink page) = handlePageChange page currentPage"

fun page_run :: "int \<Rightarrow> page_event list \<Rightarrow> int" where
  "page_run currentPage [] = currentPage"
| "page_run currentPage (e # es) = page_run (page_step currentPage e) es"

text \<open>\<open>useState(1)\<close>\<close>

definition initial_page :: int where "initial_page = 1"

definition featuredGame :: "game option" where
  "featuredGame = find featured allGames"

subsection \<open>Toasts\<close>

datatype toast = ToastSuccess string | ToastError string

definition handlePlayNow :: "string \<Rightarrow> toast" where
  "handlePlayNow gameName = ToastSuccess (''Loading '' @ gameName @ ''... Get ready to play!'')"

text \<open>
  \<open>handleSubscribe\<close>: the form's \<open>email\<close> input is looked up (\<open>None\<close> when absent);
  the result is the toast and the input's value afterwards.
\<close>

definition handleSubscribe :: "string option \<Rightarrow> toast \<times> string option" where
  "handleSubscribe emailInput =
     (case emailInput of
        Some v \<Rightarrow>
          if v \<noteq> [] then
            (ToastSuccess ''Thanks for subscribing! We'll notify you about our upcoming games.'', Some [])
          else (ToastError ''Please enter a valid email address'', emailInput)
      | None \<Rightarrow> (ToastError ''Please enter a valid email address'', emailInput))"

subsection \<open>The e-mail input\<close>

text \<open>
  The form's field is \<open><input type="email" name="email">\<close> (lines 429--434), with no
  \<open>required\<close> and no \<open>multiple\<close>, and the form has no \<open>noValidate\<close>.  The browser
  sanitizes its value (HTML, \<open>type=email\<close>: strip newlines, then leading and trailing
  ASCII whitespace), and on submission runs interactive constraint validation: a value
  that is neither empty nor a valid e-mail address suffers from a type mismatch, and the
  form is not submitted, so \<open>onSubmit\<close> (\<open>handleSubscribe\<close>) is not called.  A valid
  e-mail address is the HTML standard's: a non-empty local part of the characters
  \<open>a-zA-Z0-9.!#$%&'*+/=?^_`{|}~-\<close>, an \<open>@\<close>, and dot-separated labels of 1 to 63
  letters, digits and hyphens that start and end with a letter or digit.
\<close>

definition ascii_whitespace :: "char \<Rightarrow> bool" where
  "ascii_whitespace c \<longleftrightarrow>
     c = CHR 0x09 \<or> c = CHR 0x0A \<or> c = CHR 0x0C \<or> c = CHR 0x0D \<or> c = CHR '' ''"

definition sanitize_email :: "string \<Rightarrow> string" where
  "sanitize_email v =
     (let w = filter (\<lambda>c. c \<noteq> CHR 0x0A \<and> c \<noteq> CHR 0x0D) v
      in rev (dropWhile ascii_whitespace (rev (dropWhile ascii_whitespace w))))"

definition is_alnum :: "char \<Rightarrow> bool" where
  "is_alnum c \<longleftrightarrow>
     c \<in> set ''abcdefghijklmnopqrstuvwxyzABCDEFGHIJKLMNOPQRSTUVWXYZ0123456789''"

definition is_atext :: "char \<Rightarrow> bool" where
  "is_atext c \<longleftrightarrow> is_alnum c \<or> c \<in> set ''.!#$%&*+/=?^_`{|}~-'' \<or> c = CHR 0x27"

fun split_on :: "char \<Rightarrow> string \<Rightarrow> string list" where
  "split_on d [] = [[]]"
| "split_on d (c # cs) =
     (if c = d then [] # split_on d cs
      else (case split_on d cs of [] \<Rightarrow> [[c]] | w # ws \<Rightarrow> (c # w) # ws))"

definition label_ok :: "string \<Rightarrow> bool" where
  "label_ok l \<longleftrightarrow>
     l \<noteq> [] \<and> length l \<le> 63 \<and> is_alnum (hd l) \<and> is_alnum (last l) \<and>
     list_all (\<lambda>c. is_alnum c \<or> c = CHR ''-'') l"

definition valid_email :: "string \<Rightarrow> bool" where
  "valid_email v =
     (case dropWhile (\<lambda>c. c \<noteq> CHR ''@'') v of
        [] \<Rightarrow> False
      | _ # domain \<Rightarrow>
          (let local = takeWhile (\<lambda>c. c \<noteq> CHR ''@'') v
           in local \<noteq> [] \<and> list_all is_atext local \<and> list_all label_ok (split_on CHR ''.'' domain)))"

definition email_type_mismatch :: "string \<Rightarrow> bool" where
  "email_type_mismatch v \<longleftrightarrow> v \<noteq> [] \<and> \<not> valid_email v"

subsection \<open>The page as a component\<close>

text \<open>
  The state the page reads and writes: \<open>currentPage\<close> (line 14), the value of the
  uncontrolled \<open>email\<close> input of the subscription form, the toasts shown so far (a toast
  is a call of \<open>toast.success\<close> or \<open>toast.error\<close>), the window's vertical scroll
  position and the document title.
\<close>

record games_state =
  currentPage :: int
  email :: string
  toasts :: "toast list"
  scrollY :: int
  documentTitle :: string

definition games_title :: string where
  "games_title = ''Re-Games | Mobile & Web Gaming Experiences''"

text \<open>The effect on \<open>[currentPage]\<close> (lines 18--24): scroll to the top and set the title.\<close>

definition page_effect :: "games_state \<Rightarrow> games_state" where
  "page_effect st = st\<lparr>scrollY := 0, documentTitle := games_title\<rparr>"

text \<open>
  Mounting: the first render with \<open>useState(1)\<close>, then the effect.  \<open>y\<close> and
  \<open>title\<close> are the window's scroll position and title before.
\<close>

definition mount_games :: "int \<Rightarrow> string \<Rightarrow> games_state" where
  "mount_games y title =
     page_effect \<lparr>currentPage = initial_page, email = [], toasts = [], scrollY = y,
                  documentTitle = title\<rparr>"

text \<open>\<open>handlePageChange\<close> with its effects: the state update and \<open>window.scrollTo(0, 0)\<close>.\<close>

definition handlePageChange_state :: "int \<Rightarrow> games_state \<Rightarrow> games_state" where
  "handlePageChange_state page st =
     (if page \<ge> 1 \<and> page \<le> totalPages then st\<lparr>currentPage := page, scrollY := 0\<rparr> else st)"

text \<open>The classes of the pagination controls (lines 385, 393--397 and 406) and the links' pages.\<close>

definition previous_class :: "int \<Rightarrow> string" where
  "previous_class cur =
     (if cur = 1 then ''pointer-events-none opacity-50'' else ''cursor-pointer'') @
     '' text-review-cyan border border-review-cyan/30''"

definition next_class :: "int \<Rightarrow> string" where
  "next_class cur =
     (if cur = totalPages then ''pointer-events-none opacity-50'' else ''cursor-pointer'') @
     '' text-review-cyan border border-review-cyan/30''"

definition link_class :: "int \<Rightarrow> int \<Rightarrow> string" where
  "link_class cur page =
     ''cursor-pointer '' @
     (if cur = page then ''bg-review-cyan text-review-black border border-review-cyan''
      else ''text-review-cyan border border-review-cyan/30'')"

definition page_numbers :: "int list" where
  "page_numbers = [1, 2, 3]"

text \<open>
  Tailwind's \<open>pointer-events-none\<close>: an element with this class receives no clicks, so its
  \<open>onClick\<close> never runs.
\<close>

definition clickable :: "string \<Rightarrow> bool" where
  "clickable cls \<longleftrightarrow> ''pointer-events-none'' \<notin> set (split_ws cls)"

text \<open>The \<open>Download APK\<close> button's toast (line 329).\<close>

definition downloadToast :: "game \<Rightarrow> toast" where
  "downloadToast g = ToastSuccess (''Downloading '' @ game_name g @ ''... Please check your downloads.'')"

text \<open>
  What the visitor can do on the rendered page: the pagination controls, the \<open>Play Now\<close>
  button of the \<open>i\<close>-th card shown, the two buttons of the featured game (rendered when
  there is one), typing an e-mail address and submitting the form, and scrolling.
\<close>

datatype games_event = ClickPrevious | ClickLink int | ClickNext | PlayCard nat | PlayFeatured
  | DownloadFeatured | TypeEmail string | SubmitSubscribe | ScrollTo int

fun games_handler :: "games_state \<Rightarrow> games_event \<Rightarrow> games_state" where
  "games_handler st ClickPrevious =
     (if clickable (previous_class (currentPage st))
      then handlePageChange_state (currentPage st - 1) st else st)"
| "games_handler st (ClickLink page) =
     (if page \<in> set page_numbers then handlePageChange_state page st else st)"
| "games_handler st ClickNext =
     (if clickable (next_class (currentPage st))
      then handlePageChange_state (currentPage st + 1) st else st)"
| "games_handler st (PlayCard i) =
     (if i < length (currentGames (currentPage st))
      then st\<lparr>toasts := toasts st @ [handlePlayNow (game_name (currentGames (currentPage st) ! i))]\<rparr>
      else st)"
| "games_handler st PlayFeatured =
     (case featuredGame of
        None \<Rightarrow> st
      | Some g \<Rightarrow> st\<lparr>toasts := toasts st @ [handlePlayNow (game_name g)]\<rparr>)"
| "games_handler st DownloadFeatured =
     (case featuredGame of
        None \<Rightarrow> st
      | Some g \<Rightarrow> st\<lparr>toasts := toasts st @ [downloadToast g]\<rparr>)"
| "games_handler st (TypeEmail s) = st\<lparr>email := sanitize_email s\<rparr>"
| "games_handler st SubmitSubscribe =
     (if email_type_mismatch (email st) then st
      else let (t, v) = handleSubscribe (Some (email st))
           in st\<lparr>toasts := toasts st @ [t],
                 email := (case v of None \<Rightarrow> email st | Some s \<Rightarrow> sanitize_email s)\<rparr>)"
| "games_handler st (ScrollTo y) = st\<lparr>scrollY := y\<rparr>"

text \<open>One event: the handler, then the re-render, whose effect runs if \<open>currentPage\<close> changed.\<close>

definition games_step :: "games_state \<Rightarrow> games_event \<Rightarrow> games_state" where
  "games_step st e =
     (let st' = games_handler st e
      in if currentPage st' \<noteq> currentPage st then page_effect st' else st')"

fun games_run :: "games_state \<Rightarrow> games_event list \<Rightarrow> games_state" where
  "games_run st [] = st"
| "games_run st (e # es) = games_run (games_step st e) es"

subsection \<open>The rendered page\<close>

text \<open>
  The JSX of lines 250--452 as an element tree.  \<open>{game.icon}\<close> is the element of the
  catalogue entry (\<open><Brain className="w-12 h-12" /> \<dots>\<close>); numbers are rendered with
  \<open>String(n)\<close>; \<open>Navbar\<close>, \<open>Footer\<close> and \<open>ChatBot\<close> are components of their own.
\<close>

primrec icon_name :: "icon \<Rightarrow> string" where
  "icon_name Icon_Brain = ''Brain''"
| "icon_name Icon_Gamepad = ''Gamepad''"
| "icon_name Icon_Gamepad2 = ''Gamepad2''"
| "icon_name Icon_Joystick = ''Joystick''"
| "icon_name Icon_Puzzle = ''Puzzle''"
| "icon_name Icon_Trophy = ''Trophy''"
| "icon_name Icon_Zap = ''Zap''"

definition icon_node :: "icon \<Rightarrow> vnode" where
  "icon_node ic = El (icon_name ic) [(''className'', ''w-12 h-12'')] []"

definition tag_node :: "nat \<times> string \<Rightarrow> vnode" where
  "tag_node it =
     El ''span'' [(''key'', js_string_of_nat (fst it)),
       (''className'', ''bg-review-cyan/10 text-review-cyan text-xs font-medium px-2.5 py-0.5 rounded'')]
       [Txt (snd it)]"

definition feature_node :: "nat \<times> string \<Rightarrow> vnode" where
  "feature_node it =
     El ''li'' [(''key'', js_string_of_nat (fst it)), (''className'', ''flex items-start gap-2'')]
       [El ''span'' [(''className'', ''text-review-cyan'')] [Txt [CHR 0xE2, CHR 0x80, CHR 0xA2]],
        El ''span'' [(''className'', ''text-gray-300 text-sm'')] [Txt (snd it)]]"

definition background_node :: vnode where
  "background_node =
     El ''div'' [(''className'', ''fixed inset-0 pointer-events-none z-0 overflow-hidden'')]
       [El ''div'' [(''className'', ''absolute top-1/4 left-20 opacity-10 animate-float''),
                    (''style'', ''animationDuration: 15s'')]
          [El ''Gamepad2'' [(''size'', ''120''), (''className'', ''text-review-cyan'')] []],
        El ''div'' [(''className'', ''absolute bottom-1/4 right-20 opacity-10 animate-float''),
                    (''style'', ''animationDuration: 18s; animationDelay: 2s'')]
          [El ''Joystick'' [(''size'', ''100''), (''className'', ''text-review-cyan'')] []],
        El ''div'' [(''className'', ''absolute top-1/3 right-1/4 opacity-10 animate-float''),
                    (''style'', ''animationDuration: 12s; animationDelay: 1s'')]
          [El ''Timer'' [(''size'', ''80''), (''className'', ''text-review-cyan'')] []],
        El ''div'' [(''className'', ''absolute inset-0 bg-[radial-gradient(#0AFFFF_1px,transparent_1px)] opacity-5''),
                    (''style'', ''backgroundSize: 30px 30px'')] []]"

definition featured_node :: "game \<Rightarrow> vnode" where
  "featured_node g =
     El ''div'' [(''className'', ''mb-16'')]
       [El ''h2'' [(''className'', ''text-2xl font-bold text-review-cyan mb-6'')] [Txt ''Featured Game''],
        El ''AnimatedCard'' [(''delay'', ''0''), (''className'', ''h-full'')]
          [El ''Card'' [(''className'', ''border-review-cyan/20 shadow-md bg-review-black/30 hover:shadow-lg transition-shadow overflow-hidden'')]
             [El ''div'' [(''className'', ''md:flex'')]
                [El ''div'' [(''className'', ''md:w-2/5 bg-gradient-to-br from-purple-900 to-blue-800 p-6 flex items-center justify-center'')]
                   [El ''div'' [(''className'', ''text-center'')]
                      [El ''div'' [(''className'', ''text-review-cyan mx-auto mb-4'')]
                         [El ''Brain'' [(''className'', ''w-24 h-24 md:w-32 md:h-32 mx-auto'')] []],
                       El ''h3'' [(''className'', ''text-3xl font-bold text-white mb-2'')] [Txt (game_name g)],
                       El ''div'' [(''className'', ''flex gap-2 mb-4 flex-wrap justify-center'')]
                         (map tag_node (enumerate 0 (tags g)))]],
                 El ''div'' [(''className'', ''md:w-3/5 p-6'')]
                   [El ''p'' [(''className'', ''text-gray-300 mb-4'')] [Txt (description g)],
                    El ''h4'' [(''className'', ''text-review-cyan font-semibold mb-2'')]
                      [Txt ([CHR 0xE2, CHR 0x9C, CHR 0xA8] @ '' Features You'll Love:'')],
                    El ''ul'' [(''className'', ''space-y-2 mb-6'')] (map feature_node (enumerate 0 (features g))),
                    El ''div'' [(''className'', ''flex gap-4 flex-wrap'')]
                      [El ''Button'' [(''className'', ''bg-review-black hover:bg-gray-900 text-review-cyan border border-review-cyan/30'')]
                         [Txt ''Play on Web''],
                       El ''Button'' [(''variant'', ''outline''),
                         (''className'', ''text-white border-review-cyan/30 hover:bg-review-cyan/10'')]
                         [Txt ''Download APK'']]]]]]]"

definition card_node :: "nat \<times> game \<Rightarrow> vnode" where
  "card_node ig =
     (let index = fst ig; game = snd ig
      in El ''AnimatedCard'' [(''key'', js_string_of_nat (game_id game)),
            (''delay'', js_string_of_nat (index * 100)), (''className'', ''h-full'')]
           [El ''Card'' [(''className'', ''border-review-cyan/20 shadow-md bg-review-black/30 hover:shadow-lg transition-shadow h-full'')]
              [El ''CardHeader'' []
                 [El ''div'' [(''className'', ''mb-4 text-review-cyan'')] [icon_node (icon game)],
                  El ''CardTitle'' [(''className'', ''text-review-cyan'')] [Txt (game_name game)],
                  El ''CardDescription'' [(''className'', ''text-gray-300'')] [Txt (description game)]],
               El ''CardContent'' []
                 [El ''div'' [(''className'', ''flex gap-2 mb-2'')] (map tag_node (enumerate 0 (tags game)))],
               El ''CardFooter'' []
                 [El ''Button'' [(''className'', ''w-full bg-review-black hover:bg-gray-900 text-review-cyan border border-review-cyan/30'')]
                    [Txt ''Play Now'']]]])"

definition pagination_node :: "int \<Rightarrow> vnode" where
  "pagination_node cur =
     El ''div'' [(''className'', ''mt-12 mb-8'')]
       [El ''Pagination'' []
          [El ''PaginationContent'' []
             ([El ''PaginationItem'' [] [El ''PaginationPrevious'' [(''className'', previous_class cur)] []]] @
              map (\<lambda>page. El ''PaginationItem'' [(''key'', js_string_of_int page)]
                     [El ''PaginationLink'' [(''isActive'', if cur = page then ''true'' else ''false''),
                        (''className'', link_class cur page)] [Txt (js_string_of_int page)]])
                page_numbers @
              [El ''PaginationItem'' [] [El ''PaginationNext'' [(''className'', next_class cur)] []]])]]"

definition upcoming_node :: vnode where
  "upcoming_node =
     El ''div'' [(''className'', ''mt-16'')]
       [El ''h2'' [(''className'', ''text-2xl font-bold text-review-cyan mb-6'')] [Txt ''Upcoming Releases''],
        El ''Card'' [(''className'', ''border-review-cyan/20 shadow-md bg-review-black/30 p-6'')]
          [El ''div'' [(''className'', ''text-center'')]
             [El ''p'' [(''className'', ''text-gray-300 mb-6'')]
                [Txt ''We're constantly developing new gaming experiences. Check back soon for our upcoming releases!''],
              El ''h3'' [(''className'', ''text-review-cyan text-lg font-semibold mb-2'')]
                [Txt ''Want to be notified about new games?''],
              El ''form'' [(''className'', ''max-w-md mx-auto'')]
                [El ''div'' [(''className'', ''flex flex-col sm:flex-row gap-2'')]
                   [El ''input'' [(''type'', ''email''), (''name'', ''email''), (''placeholder'', ''Your email address''),
                      (''className'', ''bg-review-black/50 border border-review-cyan/20 rounded px-4 py-2 text-gray-200 flex-grow'')] [],
                    El ''Button'' [(''type'', ''submit''),
                      (''className'', ''bg-review-black hover:bg-gray-900 text-review-cyan border border-review-cyan/30'')]
                      [Txt ''Subscribe'']]]]]]"

definition games_view :: "games_state \<Rightarrow> vnode" where
  "games_view st =
     El ''div'' [(''className'', ''min-h-screen flex flex-col bg-review-darkblue'')]
       [background_node,
        El ''Navbar'' [] [],
        El ''main'' [(''className'', ''flex-grow pt-24 relative z-10'')]
          [El ''section'' [(''className'', ''section'')]
             [El ''div'' [(''className'', ''container mx-auto'')]
                ([El ''div'' [(''className'', ''text-center mb-16'')]
                    [El ''h1'' [(''className'', ''text-4xl md:text-5xl font-bold mb-6 text-review-cyan'')] [Txt ''Re-Games''],
                     El ''p'' [(''className'', ''text-gray-300 max-w-2xl mx-auto'')]
                       [Txt ''Our collection of immersive gaming experiences powered by cutting-edge AI technology.'']]] @
                 (case featuredGame of None \<Rightarrow> [] | Some g \<Rightarrow> [featured_node g]) @
                 [El ''div'' [(''className'', ''mt-8'')]
                    [El ''h2'' [(''className'', ''text-2xl font-bold text-review-cyan mb-6'')] [Txt ''All Games''],
                     El ''div'' [(''className'', ''grid grid-cols-1 md:grid-cols-2 lg:grid-cols-4 gap-8'')]
                       (map card_node (enumerate 0 (currentGames (currentPage st)))),
                     pagination_node (currentPage st)],
                  upcoming_node])]],
        El ''Footer'' [] [],
        El ''ChatBot'' [] []]"

subsection \<open>Abstractions\<close>

text \<open>The pagination clicks of a sequence of page events, as events of \<open>page_step\<close>.\<close>

fun page_clicks :: "games_event list \<Rightarrow> page_event list" where
  "page_clicks [] = []"
| "page_clicks (ClickPrevious # es) = PagePrevious # page_clicks es"
| "page_clicks (ClickLink p # es) = PageLink p # page_clicks es"
| "page_clicks (ClickNext # es) = PageNext # page_clicks es"
| "page_clicks (_ # es) = page_clicks es"

subsection \<open>Lemmas\<close>

lemma handlePageChange_range:
  "1 \<le> cur \<Longrightarrow> cur \<le> 3 \<Longrightarrow> 1 \<le> handlePageChange page cur \<and> handlePageChange page cur \<le> 3"
  by (simp add: handlePageChange_def totalPages_def)

lemma page_run_range:
  "1 \<le> cur \<Longrightarrow> cur \<le> 3 \<Longrightarrow> 1 \<le> page_run cur es \<and> page_run cur es \<le> 3"
proof (induction es arbitrary: cur)
  case Nil
  then show ?case by simp
next
  case (Cons e es)
  then have "1 \<le> page_step cur e \<and> page_step cur e \<le> 3"
    by (cases e) (simp_all add: handlePageChange_range)
  with Cons.IH show ?case by simp
qed

lemma page_cases: "1 \<le> p \<Longrightarrow> p \<le> (3::int) \<Longrightarrow> p = 1 \<or> p = 2 \<or> p = 3"
  by linarith

lemma currentGames_ids:
  "map game_id (currentGames 1) = [0..<8] \<and> map game_id (currentGames 2) = [8..<16] \<and>
   map game_id (currentGames 3) = [16..<24]"
  by code_simp

lemma last_game_not_shown:
  "last allGames \<notin> set (currentGames 1) \<and> last allGames \<notin> set (currentGames 2) \<and>
   last allGames \<notin> set (currentGames 3)"
  by code_simp

lemma featuredGame_eq: "featuredGame = Some sudoku_sensei"
  by (simp add: featuredGame_def allGames_def sudoku_sensei_def)

lemma pages_without_last:
  "page \<in> {1, 2, 3} \<Longrightarrow> g \<in> set (currentGames page) \<Longrightarrow> game_name g \<noteq> ''Magic Academy''"
proof -
  have "list_all (\<lambda>g. game_name g \<noteq> ''Magic Academy'') (currentGames 1)" by code_simp
  moreover have "list_all (\<lambda>g. game_name g \<noteq> ''Magic Academy'') (currentGames 2)" by code_simp
  moreover have "list_all (\<lambda>g. game_name g \<noteq> ''Magic Academy'') (currentGames 3)" by code_simp
  ultimately show "page \<in> {1, 2, 3} \<Longrightarrow> g \<in> set (currentGames page) \<Longrightarrow> ?thesis"
    by (auto simp: list_all_iff)
qed

subsection \<open>Lemmas on the component\<close>

text \<open>The greyed-out controls are exactly Previous on page 1 and Next on page 3.\<close>

lemma clickable_previous: "clickable (previous_class cur) \<longleftrightarrow> cur \<noteq> 1"
  by (simp add: clickable_def previous_class_def split_ws_def is_js_space_def)

lemma clickable_next: "clickable (next_class cur) \<longleftrightarrow> cur \<noteq> 3"
  by (simp add: clickable_def next_class_def totalPages_def split_ws_def is_js_space_def)

lemma page_run_append: "page_run cur (xs @ ys) = page_run (page_run cur xs) ys"
  by (induction xs arbitrary: cur) simp_all

lemma page_clicks_Cons: "page_clicks (e # es) = page_clicks [e] @ page_clicks es"
  by (cases e) simp_all

lemma currentPage_page_effect [simp]: "currentPage (page_effect st) = currentPage st"
  by (simp add: page_effect_def)

lemma currentPage_games_handler:
  "currentPage (games_handler st e) = page_run (currentPage st) (page_clicks [e])"
  by (cases e)
     (auto simp: clickable_previous clickable_next handlePageChange_state_def handlePageChange_def
        page_numbers_def totalPages_def Let_def split: option.split prod.split)

lemma currentPage_games_step:
  "currentPage (games_step st e) = page_run (currentPage st) (page_clicks [e])"
  by (simp add: games_step_def Let_def currentPage_games_handler)

lemma games_step_page_valid:
  "currentPage st \<in> {1, 2, 3} \<Longrightarrow> currentPage (games_step st e) \<in> {1, 2, 3}"
  using page_run_range [of "currentPage st" "page_clicks [e]"] page_cases
  by (auto simp: currentPage_games_step)

lemma sanitize_email_Nil [simp]: "sanitize_email [] = []"
  by (simp add: sanitize_email_def)

lemma valid_email_Nil [simp]: "\<not> valid_email []"
  by (simp add: valid_email_def)

lemma handlePlayNow_inj [simp]: "handlePlayNow a = handlePlayNow b \<longleftrightarrow> a = b"
  by (simp add: handlePlayNow_def)

text \<open>On a page of the slider, no event starts the last game.\<close>

lemma toasts_games_step:
  assumes "currentPage st \<in> {1, 2, 3}"
  shows "set (toasts (games_step st e)) \<subseteq>
           set (toasts st) \<union> {t. t \<noteq> handlePlayNow ''Magic Academy''}"
proof (cases e)
  case (PlayCard i)
  with assms pages_without_last [of "currentPage st" "currentGames (currentPage st) ! i"]
  show ?thesis
    by (auto simp: games_step_def Let_def page_effect_def)
qed (auto simp: games_step_def Let_def page_effect_def handlePageChange_state_def featuredGame_eq
       sudoku_sensei_def downloadToast_def handlePlayNow_def handleSubscribe_def
       split: prod.split option.split if_split_asm)

lemma games_run_never_plays_last:
  "currentPage st \<in> {1, 2, 3} \<Longrightarrow> handlePlayNow ''Magic Academy'' \<notin> set (toasts st) \<Longrightarrow>
   handlePlayNow ''Magic Academy'' \<notin> set (toasts (games_run st es))"
proof (induction es arbitrary: st)
  case Nil
  then show ?case by simp
next
  case (Cons e es)
  then show ?case
    using toasts_games_step [of st e] games_step_page_valid [of st e] by auto
qed

lemma currentPage_games_run:
  "currentPage (games_run st es) = page_run (currentPage st) (page_clicks es)"
proof (induction es arbitrary: st)
  case Nil
  then show ?case by simp
next
  case (Cons e es)
  then show ?case
    by (simp add: currentPage_games_step page_run_append page_clicks_Cons [of e es])
qed

text \<open>Only the pagination links carry \<open>isActive\<close>.\<close>

lemma isActive_nodes [simp]:
  "node_attrs ''isActive'' (tag_node it) = []"
  "node_attrs ''isActive'' (feature_node it) = []"
  "node_attrs ''isActive'' (icon_node ic) = []"
  "node_attrs ''isActive'' (card_node ig) = []"
  "node_attrs ''isActive'' (featured_node g) = []"
  "node_attrs ''isActive'' background_node = []"
  "node_attrs ''isActive'' upcoming_node = []"
  by (simp_all add: tag_node_def feature_node_def icon_node_def card_node_def Let_def
      featured_node_def background_node_def upcoming_node_def)

lemma isActive_games_view:
  "node_attrs ''isActive'' (games_view st) =
     map (\<lambda>p. if currentPage st = p then ''true'' else ''false'') page_numbers"
  by (simp add: games_view_def pagination_node_def page_numbers_def featuredGame_eq)

subsection \<open>What the page does\<close>

text \<open>
  C22.  Whatever the visitor does on the mounted page (pagination clicks, playing,
  subscribing, scrolling), the current page stays between 1 and \<open>totalPages = 3\<close>:
  Previous on page 1 and Next on page 3 are ignored.
\<close>

theorem page_always_valid:
  "1 \<le> currentPage (games_run (mount_games y title) es) \<and>
   currentPage (games_run (mount_games y title) es) \<le> totalPages"
  using page_run_range [of initial_page "page_clicks es"]
  by (simp add: currentPage_games_run mount_games_def page_effect_def initial_page_def totalPages_def)

text \<open>
  C23.  The pages the slice shows are ids 0--7, 8--15 and 16--23: page 1 repeats the
  featured Sudoku Sensei (id 0) and the games the source's comments put on pages 1, 2 and
  3 (ids 1--8, 9--16, 17--24) are shifted by one.
\<close>

theorem pages_shown:
  "featuredGame = Some sudoku_sensei \<and> game_id sudoku_sensei = 0 \<and>
   map game_id (currentGames 1) = [0..<8] \<and> map game_id (currentGames 2) = [8..<16] \<and>
   map game_id (currentGames 3) = [16..<24]"
  using currentGames_ids by (simp add: featuredGame_eq sudoku_sensei_def)

text \<open>
  C11.  The catalogue has 25 games but \<open>totalPages * gamesPerPage = 24\<close> places: the last
  game, Magic Academy, is on no page the visitor can reach.
\<close>

theorem last_game_unreachable:
  "length allGames = 25 \<and> totalPages * gamesPerPage = 24 \<and>
   game_name (last allGames) = ''Magic Academy'' \<and>
   last allGames \<notin> set (currentGames (page_run initial_page es))"
proof -
  have "1 \<le> page_run initial_page es \<and> page_run initial_page es \<le> 3"
    using page_run_range [of initial_page es] by (simp add: initial_page_def)
  then have "page_run initial_page es \<in> {1, 2, 3}"
    using page_cases by blast
  then have "last allGames \<notin> set (currentGames (page_run initial_page es))"
    using last_game_not_shown by auto
  moreover have "length allGames = 25"
    by (simp add: allGames_def page1_games_def page2_games_def page3_games_def)
  ultimately show ?thesis by (simp add: totalPages_def gamesPerPage_def last_game_name)
qed

text \<open>
  C12.  The page refines the pagination model: after any sequence of events, the current
  page is what \<open>page_step\<close> computes from the pagination clicks alone.  The greyed-out
  controls (\<open>pointer-events-none\<close>) add nothing to the guard of \<open>handlePageChange\<close>, and
  no other event changes the page.
\<close>

theorem games_run_refines_page_run:
  "currentPage (games_run st es) = page_run (currentPage st) (page_clicks es)"
  by (rule currentPage_games_run)

text \<open>
  C13.  No sequence of events on the mounted page starts the catalogue's last game: its
  \<open>Play Now\<close> button is never rendered and the featured game is another one.
\<close>

theorem last_game_never_played:
  "handlePlayNow (game_name (last allGames)) \<notin> set (toasts (games_run (mount_games y title) es))"
  by (simp add: last_game_name games_run_never_plays_last mount_games_def page_effect_def
      initial_page_def)

text \<open>
  C25.  The Previous and Next controls on a page of the slider: on the first page Previous,
  and on the last page Next, change nothing; otherwise they move one page, scroll to the
  top and set the title.
\<close>

theorem pagination_controls:
  assumes "currentPage st \<in> {1, 2, 3}"
  shows "games_step st ClickPrevious =
           (if currentPage st = 1 then st
            else page_effect (st\<lparr>currentPage := currentPage st - 1, scrollY := 0\<rparr>)) \<and>
         games_step st ClickNext =
           (if currentPage st = 3 then st
            else page_effect (st\<lparr>currentPage := currentPage st + 1, scrollY := 0\<rparr>))"
  using assms
  by (auto simp: games_step_def clickable_previous clickable_next handlePageChange_state_def
      totalPages_def)

theorem pagination_controls_witness:
  "games_step (mount_games 7 []) ClickPrevious = mount_games 7 [] \<and>
   games_step (mount_games 7 []) ClickNext =
     page_effect ((mount_games 7 [])\<lparr>currentPage := 2, scrollY := 0\<rparr>)"
  using pagination_controls [of "mount_games 7 []"]
  by (simp add: mount_games_def page_effect_def initial_page_def)

text \<open>
  C26.  A page link moves to its page and scrolls to the top, also when it is the current
  page; the effect sets the title only when the page changed.  Afterwards that link is the
  only one the page renders as active.
\<close>

theorem page_link_click:
  assumes "page \<in> set page_numbers"
  shows "games_step st (ClickLink page) =
           (if page = currentPage st then st\<lparr>scrollY := 0\<rparr>
            else page_effect (st\<lparr>currentPage := page, scrollY := 0\<rparr>)) \<and>
         node_attrs ''isActive'' (games_view (games_step st (ClickLink page))) =
           map (\<lambda>p. if page = p then ''true'' else ''false'') page_numbers"
  using assms
  by (auto simp: games_step_def handlePageChange_state_def page_numbers_def totalPages_def
      isActive_games_view page_effect_def)

theorem page_link_click_witness:
  "games_step (mount_games 7 []) (ClickLink 1) = (mount_games 7 [])\<lparr>scrollY := 0\<rparr>"
  using page_link_click [of 1 "mount_games 7 []"]
  by (simp add: page_numbers_def mount_games_def page_effect_def initial_page_def)

text \<open>
  C27.  Typing an address and submitting the form, with the browser's handling of the
  \<open>type="email"\<close> input: an address that is blank once sanitized reaches
  \<open>handleSubscribe\<close> empty and gives the error toast; a valid address gives the thanks
  and empties the input; any other address is stopped by the browser's validation, so no
  toast is shown and the input keeps it.  The form always renders its \<open>email\<close> input, so
  the branch of \<open>handleSubscribe\<close> for a missing input is never taken on this page.
\<close>

theorem subscribe_after_typing:
  "toasts (games_run st [TypeEmail s, SubmitSubscribe]) =
     toasts st @
       (if sanitize_email s = [] then [ToastError ''Please enter a valid email address'']
        else if valid_email (sanitize_email s)
        then [ToastSuccess ''Thanks for subscribing! We'll notify you about our upcoming games.'']
        else [])
   \<and> email (games_run st [TypeEmail s, SubmitSubscribe]) =
       (if valid_email (sanitize_email s) then [] else sanitize_email s)"
  by (simp add: games_step_def handleSubscribe_def email_type_mismatch_def)

theorem subscribe_after_typing_witness:
  "toasts (games_run (mount_games 0 []) [TypeEmail '' ada@re-view.in '', SubmitSubscribe]) =
     [ToastSuccess ''Thanks for subscribing! We'll notify you about our upcoming games.''] \<and>
   toasts (games_run (mount_games 0 []) [TypeEmail ''ada'', SubmitSubscribe]) = [] \<and>
   email (games_run (mount_games 0 []) [TypeEmail ''ada'', SubmitSubscribe]) = ''ada'' \<and>
   toasts (games_run (mount_games 0 []) [TypeEmail ''   '', SubmitSubscribe]) =
     [ToastError ''Please enter a valid email address'']"
proof -
  have "sanitize_email '' ada@re-view.in '' = ''ada@re-view.in''"
    and "valid_email ''ada@re-view.in''"
    and "sanitize_email ''ada'' = ''ada''" and "\<not> valid_email ''ada''"
    and "sanitize_email ''   '' = []"
    by code_simp+
  with subscribe_after_typing [of "mount_games 0 []" "'' ada@re-view.in ''"]
    subscribe_after_typing [of "mount_games 0 []" "''ada''"]
    subscribe_after_typing [of "mount_games 0 []" "''   ''"]
  show ?thesis by (simp add: mount_games_def page_effect_def)
qed

text \<open>
  C28.  The React keys of the cards on any page, the games' ids, are distinct, whatever the
  page number.
\<close>

theorem card_keys_distinct: "distinct (map game_id (currentGames page))"
proof -
  have "distinct (map game_id allGames)" by code_simp
  then show ?thesis
    by (simp add: currentGames_def Let_def map_js_slice js_slice_distinct)
qed

end
