(* ===== verification/Tailwind_Config.thy ===== *)
theory Tailwind_Config
  imports JS_Prelude
begin

text \<open>
  The Tailwind CSS configuration \<open>src/tailwind.config.ts\<close> as data, and the part of
  Tailwind's reading of a class that the pages depend on: a utility that names a colour of
  the configuration's own palettes (\<open>review\<close>, \<open>sidebar\<close>, \<dots>) or an animation
  generates CSS only if that colour or animation is defined.  The colours of Tailwind's
  default palette (\<open>gray-400\<close>, \<open>white\<close>, \<dots>) and its other utilities are always
  generated and are not checked here.  The configuration's theme object is a record, each
  of its maps an association list in the source's order.
\<close>

subsection \<open>The configuration\<close>

text \<open>A colour is a value or a nested object; \<open>DEFAULT\<close> names the palette itself.\<close>

datatype color_value = Color string | Palette "(string \<times> string) list"

text \<open>A keyframe: its selector (\<open>from\<close>, \<open>50%\<close>, \<dots>) and its declarations.\<close>

type_synonym keyframe = "string \<times> (string \<times> string) list"

record container_config =
  center :: bool
  padding :: string
  screens :: "(string \<times> string) list"

record theme_extension =
  colors :: "(string \<times> color_value) list"
  borderRadius :: "(string \<times> string) list"
  keyframes :: "(string \<times> keyframe list) list"
  animation :: "(string \<times> string) list"
  backgroundImage :: "(string \<times> string) list"
  boxShadow :: "(string \<times> string) list"

record tailwind_config =
  darkMode :: "string list"
  content :: "string list"
  tw_prefix :: string
  container :: container_config
  theme_extend :: theme_extension
  plugins :: "string list"

definition config_container :: container_config where
  "config_container = \<lparr>center = True, padding = ''2rem'', screens = [(''2xl'', ''1400px'')]\<rparr>"

definition config_colors :: "(string \<times> color_value) list" where
  "config_colors = [
     (''border'', Color ''hsl(var(--border))''),
     (''input'', Color ''hsl(var(--input))''),
     (''ring'', Color ''hsl(var(--ring))''),
     (''background'', Color ''hsl(var(--background))''),
     (''foreground'', Color ''hsl(var(--foreground))''),
     (''primary'', Palette [(''DEFAULT'', ''hsl(var(--primary))''),
        (''foreground'', ''hsl(var(--primary-foreground))'')]),
     (''secondary'', Palette [(''DEFAULT'', ''hsl(var(--secondary))''),
        (''foreground'', ''hsl(var(--secondary-foreground))'')]),
     (''destructive'', Palette [(''DEFAULT'', ''hsl(var(--destructive))''),
        (''foreground'', ''hsl(var(--destructive-foreground))'')]),
     (''muted'', Palette [(''DEFAULT'', ''hsl(var(--muted))''),
        (''foreground'', ''hsl(var(--muted-foreground))'')]),
     (''accent'', Palette [(''DEFAULT'', ''hsl(var(--accent))''),
        (''foreground'', ''hsl(var(--accent-foreground))'')]),
     (''popover'', Palette [(''DEFAULT'', ''hsl(var(--popover))''),
        (''foreground'', ''hsl(var(--popover-foreground))'')]),
     (''card'', Palette [(''DEFAULT'', ''hsl(var(--card))''),
        (''foreground'', ''hsl(var(--card-foreground))'')]),
     (''sidebar'', Palette [(''DEFAULT'', ''hsl(var(--sidebar-background))''),
        (''foreground'', ''hsl(var(--sidebar-foreground))''),
        (''primary'', ''hsl(var(--sidebar-primary))''),
        (''primary-foreground'', ''hsl(var(--sidebar-primary-foreground))''),
        (''accent'', ''hsl(var(--sidebar-accent))''),
        (''accent-foreground'', ''hsl(var(--sidebar-accent-foreground))''),
        (''border'', ''hsl(var(--sidebar-border))''),
        (''ring'', ''hsl(var(--sidebar-ring))'')]),
     (''review'', Palette [(''cyan'', ''#0AFFFF''),
        (''darkblue'', ''#0A1A2A''),
        (''black'', ''#040D14''),
        (''gray'', ''#363A42''),
        (''lightgray'', ''#F0F2F5'')])]"

definition config_keyframes :: "(string \<times> keyframe list) list" where
  "config_keyframes = [
     (''accordion-down'',
       [(''from'', [(''height'', ''0'')]),
        (''to'', [(''height'', ''var(--radix-accordion-content-height)'')])]),
     (''accordion-up'',
       [(''from'', [(''height'', ''var(--radix-accordion-content-height)'')]),
        (''to'', [(''height'', ''0'')])]),
     (''fade-in'',
       [(''0%'', [(''opacity'', ''0''), (''transform'', ''translateY(10px)'')]),
        (''100%'', [(''opacity'', ''1''), (''transform'', ''translateY(0)'')])]),
     (''fade-out'',
       [(''0%'', [(''opacity'', ''1''), (''transform'', ''translateY(0)'')]),
        (''100%'', [(''opacity'', ''0''), (''transform'', ''translateY(10px)'')])]),
     (''scale-in'',
       [(''0%'', [(''transform'', ''scale(0.95)''), (''opacity'', ''0'')]),
        (''100%'', [(''transform'', ''scale(1)''), (''opacity'', ''1'')])]),
     (''scale-out'',
       [(''from'', [(''transform'', ''scale(1)''), (''opacity'', ''1'')]),
        (''to'', [(''transform'', ''scale(0.95)''), (''opacity'', ''0'')])]),
     (''slide-in-right'',
       [(''0%'', [(''transform'', ''translateX(100%)'')]),
        (''100%'', [(''transform'', ''translateX(0)'')])]),
     (''slide-out-right'',
       [(''0%'', [(''transform'', ''translateX(0)'')]),
        (''100%'', [(''transform'', ''translateX(100%)'')])]),
     (''slide-in-top'',
       [(''0%'', [(''transform'', ''translateY(-100%)'')]),
        (''100%'', [(''transform'', ''translateY(0)'')])]),
     (''slide-in-bottom'',
       [(''0%'', [(''transform'', ''translateY(100%)'')]),
        (''100%'', [(''transform'', ''translateY(0)'')])]),
     (''rotate'',
       [(''0%'', [(''transform'', ''rotate(0deg)'')]),
        (''100%'', [(''transform'', ''rotate(360deg)'')])]),
     (''pulse-glow'',
       [(''0%, 100%'', [(''opacity'', ''0.8''), (''filter'', ''brightness(1.1) drop-shadow(0 0 5px rgba(10, 255, 255, 0.7))'')]),
        (''50%'', [(''opacity'', ''1''), (''filter'', ''brightness(1.3) drop-shadow(0 0 15px rgba(10, 255, 255, 0.9))'')])]),
     (''float'',
       [(''0%, 100%'', [(''transform'', ''translateY(0)'')]),
        (''50%'', [(''transform'', ''translateY(-10px)'')])])]"

definition config_borderRadius :: "(string \<times> string) list" where
  "config_borderRadius = [
     (''lg'', ''var(--radius)''),
     (''md'', ''calc(var(--radius) - 2px)''),
     (''sm'', ''calc(var(--radius) - 4px)'')]"

definition config_animation :: "(string \<times> string) list" where
  "config_animation = [
     (''accordion-down'', ''accordion-down 0.2s ease-out''),
     (''accordion-up'', ''accordion-up 0.2s ease-out''),
     (''fade-in'', ''fade-in 0.5s ease-out forwards''),
     (''fade-out'', ''fade-out 0.5s ease-out forwards''),
     (''scale-in'', ''scale-in 0.3s ease-out forwards''),
     (''scale-out'', ''scale-out 0.3s ease-out forwards''),
     (''slide-in-right'', ''slide-in-right 0.4s ease-out forwards''),
     (''slide-in-top'', ''slide-in-top 0.4s ease-out forwards''),
     (''slide-in-bottom'', ''slide-in-bottom 0.4s ease-out forwards''),
     (''rotate-slow'', ''rotate 8s linear infinite''),
     (''pulse-glow'', ''pulse-glow 2s ease-in-out infinite''),
     (''float'', ''float 6s ease-in-out infinite'')]"

definition config_backgroundImage :: "(string \<times> string) list" where
  "config_backgroundImage = [
     (''gradient-radial'', ''radial-gradient(var(--tw-gradient-stops))''),
     (''gradient-conic'', ''conic-gradient(from 180deg at 50% 50%, var(--tw-gradient-stops))''),
     (''tech-pattern'', ''url('/pattern.svg')'')]"

definition config_boxShadow :: "(string \<times> string) list" where
  "config_boxShadow = [
     (''neon'', ''0 0 10px rgba(10, 255, 255, 0.5), 0 0 20px rgba(10, 255, 255, 0.3)''),
     (''neon-strong'', ''0 0 15px rgba(10, 255, 255, 0.7), 0 0 30px rgba(10, 255, 255, 0.5)''),
     (''inner-neon'', ''inset 0 0 10px rgba(10, 255, 255, 0.3), inset 0 0 20px rgba(10, 255, 255, 0.2)'')]"

definition config :: tailwind_config where
  "config =
     \<lparr>darkMode = [''class''],
      content = [''./pages/**/*.{ts,tsx}'', ''./components/**/*.{ts,tsx}'', ''./app/**/*.{ts,tsx}'',
                 ''./src/**/*.{ts,tsx}''],
      tw_prefix = [],
      container = config_container,
      theme_extend = \<lparr>colors = config_colors, borderRadius = config_borderRadius,
                keyframes = config_keyframes, animation = config_animation,
                backgroundImage = config_backgroundImage, boxShadow = config_boxShadow\<rparr>,
      plugins = [''tailwindcss-animate'']\<rparr>"

subsection \<open>How Tailwind reads a class\<close>

text \<open>
  The colour names a configuration defines: a value under its key, a nested object under
  \<open>key-subkey\<close>, and its \<open>DEFAULT\<close> under the key alone.
\<close>

definition color_names :: "(string \<times> color_value) list \<Rightarrow> string list" where
  "color_names cs =
     concat (map (\<lambda>(k, v). case v of
                    Color _ \<Rightarrow> [k]
                  | Palette ps \<Rightarrow> map (\<lambda>(s, _). if s = ''DEFAULT'' then k else k @ ''-'' @ s) ps) cs)"

text \<open>The keyframes an animation value runs: the first word of the shorthand.\<close>

definition animation_keyframes :: "string \<Rightarrow> string" where
  "animation_keyframes v = takeWhile (\<lambda>c. c \<noteq> CHR '' '') v"

text \<open>Tailwind's own animations, generated whatever the configuration.\<close>

definition core_animations :: "string list" where
  "core_animations = [''none'', ''spin'', ''ping'', ''pulse'', ''bounce'']"

text \<open>
  A class is its variants (\<open>hover:\<close>, \<open>md:\<close>, \<dots>) and a utility, separated by colons
  outside brackets (\<open>[animation-delay:0.2s]\<close> is one arbitrary property); \<open>/30\<close> is
  an opacity modifier.  \<open>class_utility_from d cur s\<close> keeps the reversed last segment in
  \<open>cur\<close> at bracket depth \<open>d\<close>.
\<close>

fun class_utility_from :: "nat \<Rightarrow> string \<Rightarrow> string \<Rightarrow> string" where
  "class_utility_from d cur [] = rev cur"
| "class_utility_from d cur (c # cs) =
     (if c = CHR '':'' \<and> d = 0 then class_utility_from d [] cs
      else if c = CHR ''['' then class_utility_from (Suc d) (c # cur) cs
      else if c = CHR '']'' then class_utility_from (d - 1) (c # cur) cs
      else class_utility_from d (c # cur) cs)"

definition class_utility :: "string \<Rightarrow> string" where
  "class_utility cls = takeWhile (\<lambda>c. c \<noteq> CHR ''/'') (class_utility_from 0 [] cls)"

definition color_prefixes :: "string list" where
  "color_prefixes = [''text-'', ''bg-'', ''border-'', ''ring-'', ''ring-offset-'', ''from-'', ''via-'',
     ''to-'', ''fill-'', ''stroke-'', ''outline-'', ''divide-'', ''placeholder-'', ''accent-'',
     ''caret-'', ''decoration-'', ''shadow-'']"

text \<open>The colour part names one of the configuration's own palettes.\<close>

definition custom_color_ref :: "tailwind_config \<Rightarrow> string \<Rightarrow> bool" where
  "custom_color_ref cfg c \<longleftrightarrow>
     list_ex (\<lambda>(k, v). case v of Palette _ \<Rightarrow> c = k \<or> prefix (k @ ''-'') c | Color _ \<Rightarrow> False)
       (colors (theme_extend cfg))"

text \<open>A class that names a custom colour or an animation the configuration does not define.\<close>

definition class_undefined :: "tailwind_config \<Rightarrow> string \<Rightarrow> bool" where
  "class_undefined cfg cls =
     (let u = class_utility cls
      in if prefix ''animate-'' u
         then drop 8 u \<notin> set (map fst (animation (theme_extend cfg)) @ core_animations)
         else list_ex (\<lambda>p. if prefix p u
                            then (if custom_color_ref cfg (drop (length p) u)
                                  then drop (length p) u \<notin> set (color_names (colors (theme_extend cfg)))
                                  else False)
                            else False) color_prefixes)"

definition undefined_classes :: "tailwind_config \<Rightarrow> string list \<Rightarrow> string list" where
  "undefined_classes cfg classes = filter (class_undefined cfg) classes"

subsection \<open>Lemmas\<close>

lemma undefined_classes_append [simp]:
  "undefined_classes cfg (xs @ ys) = undefined_classes cfg xs @ undefined_classes cfg ys"
  by (simp add: undefined_classes_def)

lemma undefined_classes_Nil [simp]: "undefined_classes cfg [] = []"
  by (simp add: undefined_classes_def)

lemma set_undefined_classes_concat:
  "set (undefined_classes cfg (concat xss)) = (\<Union>xs \<in> set xss. set (undefined_classes cfg xs))"
  by (auto simp: undefined_classes_def)

end
