(* ===== verification/Spec2Isabelle.thy ===== *)
theory Spec2Isabelle
  imports Chat_View Games_Page Tailwind_Config
begin

text \<open>
  \<^bold>\<open>A verification development for the Re-View site's chat widget, games page and styling.\<close>

  \<^bold>\<open>The program.\<close>  The repository is a React/TypeScript marketing site.  Its
  component with algorithmic content is the chat widget "Revy",
  \<open>src/src/components/home/ChatBot.tsx\<close>: a visitor types a message, and after a delay of
  1500 ms the widget answers with a canned reply chosen by classifying the message.  The
  classification is a chain of 46 keyword tests; each test is \<open>fuzzyMatch\<close>, an exact
  substring test followed by a typo-tolerant one built on \<open>levenshteinDistance\<close>.  The
  category selects a random reply from \<open>botResponses\<close> and, for some categories,
  navigation links from \<open>getCategoryLinks\<close>.  The games page
  \<open>src/src/pages/Games.tsx\<close> lists a catalogue of 25 games in pages of 8, with a featured
  game, toasts for its buttons and a subscription form.  \<open>src/tailwind.config.ts\<close> is the
  styling configuration whose custom colours and animations both pages use.

  \<^bold>\<open>The theories\<close>, bottom up:
  \<^item> \<open>JS_Prelude\<close>: the JavaScript builtins the code calls, on ASCII strings
    (\<open>toLowerCase\<close>, \<open>includes\<close> as \<open>js_includes\<close>, \<open>trim\<close>, \<open>split(/\s+/)\<close> as
    \<open>split_ws\<close>, \<open>Array.prototype.slice\<close> as \<open>js_slice\<close>, \<open>String(n)\<close>, \<open>Math.min\<close>),
    rendered React elements as the tree \<open>vnode\<close>, and shared lemmas.
  \<^item> \<open>Levenshtein\<close>: \<open>levenshteinDistance\<close> (ChatBot.tsx 74--100) as the code
    computes it: the early returns, a matrix of \<open>null\<close> cells (\<open>None\<close>, read as 0 by
    JavaScript arithmetic), two initialisation loops and the nested filling loop, each loop a
    \<^theory_text>\<open>function\<close> with a measure.  Its contract is \<open>align\<close>, the
    alignments of insertions, deletions and substitutions; \<open>edit_distance\<close> is the prefix
    recurrence, and the loop invariant \<open>dp_inv\<close> says which cells hold it.
  \<^item> \<open>Fuzzy_Match\<close>: \<open>fuzzyMatch\<close> (37--71) with its two loops (\<open>fuzzy_terms\<close>,
    \<open>word_match\<close>) and \<open>Math.ceil(0.3 * n)\<close> as \<open>max_distance\<close>; \<open>term_matches\<close>
    is what one term's test means.
  \<^item> \<open>Responses\<close>: the 47 categories, their replies (text byte for byte, non-ASCII as
    UTF-8) and the object's keys, \<open>getRandomResponse\<close> with the
    value of \<open>Math.random()\<close> as a parameter, and \<open>getCategoryLinks\<close>.
  \<^item> \<open>Intent\<close>: \<open>intent_chain\<close>, the 46 branches of the reply callback (420--654) in
    order, and its data-driven reading: a \<open>rule_table\<close> of rule records evaluated by the
    generic \<open>first_match\<close> loop, proved equal to it and used by the proofs.
  \<^item> \<open>Chat_Session\<close>: the component's state (\<open>isOpen\<close>, \<open>messages\<close>,
    \<open>newMessage\<close>, \<open>isTyping\<close>) plus the scheduled replies, each the pair of values its
    closure captured; \<open>handleSendMessage\<close>, \<open>reply_callback\<close> and \<open>chat_step\<close> over
    the events the page offers; \<open>reachable\<close> states by an inductive definition, and
    \<open>serial_reachable\<close> ones for a user who waits for each reply.
  \<^item> \<open>Chat_View\<close>: the rendered widget \<open>chat_view\<close> (670--767) and the effect that
    scrolls the conversation to its end (26--34), as \<open>widget_step\<close> over \<open>chat_step\<close>.
  \<^item> \<open>Games_Catalogue\<close>: \<open>allGames\<close> (as the source's four commented groups).
  \<^item> \<open>Games_Page\<close>: \<open>currentGames\<close>, \<open>handlePageChange\<close> and the pagination controls as \<open>page_step\<close>;
    the whole page as \<open>games_step\<close> over its events (pagination clicks, the Play/Download
    buttons, typing and submitting the e-mail, scrolling) with the \<open>[currentPage]\<close> effect,
    the browser's sanitization and validation of the \<open>type="email"\<close> input
    (\<open>sanitize_email\<close>, \<open>valid_email\<close>), and its rendered tree \<open>games_view\<close> (250--456).
  \<^item> \<open>Tailwind_Config\<close>: \<open>tailwind.config.ts\<close> as a record of association lists, and
    \<open>class_undefined\<close>, the part of Tailwind's class reading the pages depend on.
  \<^item> this theory: the end-to-end scenarios of the specification through the whole reply
    pipeline of \<open>chat_step\<close>; the games page with the chat widget mounted at
    \<open><ChatBot />\<close> (\<open>games_page_view\<close>, by \<open>mount\<close>); and the rendered pages against
    the configuration.

  \<^bold>\<open>What is proved.\<close>  The edit distance the code computes is the least cost of an
  alignment (C1), with its tested values and bounds (C14, C15).  \<open>fuzzyMatch\<close> succeeds
  exactly when one term matches, exactly or within the tolerance, independently of term
  order (C2).  Of the 46-branch chain: the fallback has no links and is taken only when no
  rule holds (C8), links are always site routes (C9), and a link cue always gets the links
  its category offers (C24).  In the session, every submission has exactly one reply,
  delivered or pending (C3), all are delivered once the timers fire, also to a closed
  widget (C4), serial use gives ids \<open>1..n\<close> (C10), the history is append-only over any run
  (C19), blank messages are ignored (C18), a reply's random index is in range (C17), and
  every rendered link is a site route (C29).  The scenarios of the specification are C7,
  C20 and C21.  On the games page, the whole page refines the pagination model (C12), the
  page stays in range whatever the visitor does (C22), the controls and links behave at
  the boundaries (C25, C26), the subscription form answers as the browser lets it (C27),
  and card keys are distinct (C28); the pages shown are C23.  The classes without CSS
  are the chat widget's, on its own (C30) and mounted in the games page (C31).

  \<^bold>\<open>Where the code and the specification part.\<close>  The exact pass accepts a greeting
  term inside any word, so \<open>thank you\<close>, \<open>how are you\<close> and \<open>hit\<close> are greetings (C6).
  The specification's scenario "can I see the games" is answered in the \<open>safe\<close>
  category without links, because the word \<open>see\<close> is within distance 2 of \<open>safe\<close> (C7).
  Submitting twice before a reply gives two messages the same id and hides the typing
  indicator while a reply is pending (C5).  The catalogue's 25th game is on no page (C11)
  and can never be started (C13); the pages are shifted by one against the source's
  comments (C23).  The chat widget's colour \<open>review-blue\<close> is not in the configuration,
  so its links, focus ring and button hover colours generate no CSS (C30), also on the
  games page (C31).  A reply delivered while the window is closed is not scrolled into
  view (C16).  The cases of \<open>getCategoryLinks\<close> for manuals, ordering and cost are never
  reached (C24).  The specification answers empty input with the fallback; the code
  ignores a blank message and answers nothing (C18).  The subscription's error toast asks
  for a valid address but is shown only for a blank one; an invalid address is stopped by
  the browser before \<open>handleSubscribe\<close> runs (C27).

  \<^bold>\<open>Bounds and modelling choices.\<close>  No fuel is used: every loop is a
  \<^theory_text>\<open>function\<close> with a measure or a structural recursion, so every definition
  is total and evaluates by \<open>simp\<close> or \<open>code_simp\<close>.  Strings are byte lists; the builtins are modelled on ASCII,
  where UTF-16 code units and bytes agree.  \<open>Math.ceil(n * 0.3)\<close> is the exact ceiling
  (the header of \<open>Fuzzy_Match\<close> explains why the double product gives the same value).
  The \<open>type="email"\<close> input follows the HTML standard (value sanitization, the valid
  e-mail address grammar, interactive validation before \<open>submit\<close>), on ASCII.
  \<open>Math.random()\<close> is the event's parameter \<open>r\<close>, with \<open>0 \<le> r < 1\<close>.  All timers have
  the same delay, so they fire in the order they were scheduled.  Toasts are values
  appended to a list; a link is a pair of strings; a rendered element keeps its tag,
  attributes and children but not its handlers, which the step functions model.

  \<^bold>\<open>Not modelled.\<close>  Layout and animation (CSS is only checked for defined custom
  classes), the geometry of scrolling (whether the history overflows the pane; only
  which scroll requests are made is modelled), the browser's validation message, the insides of \<open>Navbar\<close>,
  \<open>Footer\<close>, \<open>AnimatedCard\<close> and the \<open>lucide-react\<close>, \<open>sonner\<close> and \<open>react-router\<close>
  libraries, and Tailwind's default palette and utilities.  The JavaScript builtins are
  modelled on ASCII only: strings are byte lists, so case mapping and white space outside
  ASCII (which JavaScript applies to UTF-16 code units) cannot be stated faithfully, and the
  builtins' component stays partly modelled.
\<close>

subsection \<open>Classes against the configuration\<close>

text \<open>A rendered tree whose classes are all defined by the Tailwind configuration.\<close>

definition classes_defined :: "vnode \<Rightarrow> bool" where
  "classes_defined v \<longleftrightarrow> undefined_classes config (node_classes v) = []"

subsection \<open>The games page with its chat widget\<close>

text \<open>
  \<open>Games.tsx\<close> renders \<open><ChatBot />\<close> as the last child of its root (line 450); React
  mounts the component there, so the rendered page holds the widget's tree in place of the
  element.  \<open>mount n w v\<close> puts the tree \<open>w\<close> of the component \<open>n\<close> in place of each
  \<open><n />\<close> element (no attributes, no children) of \<open>v\<close>.
\<close>

fun mount :: "string \<Rightarrow> vnode \<Rightarrow> vnode \<Rightarrow> vnode" where
  "mount n w (El t attrs cs) =
     (if t = n \<and> attrs = [] \<and> cs = [] then w else El t attrs (map (mount n w) cs))"
| "mount n w (Txt s) = Txt s"

definition games_page_view :: "games_state \<Rightarrow> chat_state \<Rightarrow> vnode" where
  "games_page_view st cst = mount ''ChatBot'' (chat_view cst) (games_view st)"

subsection \<open>Lemmas on the rendered pages' classes\<close>

lemma classes_defined_El [simp]:
  "classes_defined (El t attrs cs) \<longleftrightarrow>
     (\<forall>c \<in> set (map snd (filter (\<lambda>(k, v). k = ''className'') attrs)).
        undefined_classes config (split_ws c) = []) \<and> (\<forall>v \<in> set cs. classes_defined v)"
  by (auto simp: classes_defined_def undefined_classes_def filter_empty_conv)

lemma classes_defined_Txt [simp]: "classes_defined (Txt s)"
  by (simp add: classes_defined_def)

lemma tag_node_defined [simp]: "classes_defined (tag_node it)"
proof -
  have "classes_defined (tag_node (0, []))" by code_simp
  then show ?thesis by (simp add: tag_node_def)
qed

lemma feature_node_defined [simp]: "classes_defined (feature_node it)"
proof -
  have "classes_defined (feature_node (0, []))" by code_simp
  then show ?thesis by (simp add: feature_node_def)
qed

lemma icon_node_defined [simp]: "classes_defined (icon_node ic)"
proof -
  have "classes_defined (icon_node Icon_Brain)" by code_simp
  then show ?thesis by (simp add: icon_node_def)
qed

lemma card_node_defined [simp]: "classes_defined (card_node ig)"
proof -
  have "classes_defined (card_node (0, \<lparr>game_id = 0, game_name = [], description = [], tags = [[]],
           icon = Icon_Brain, featured = False, features = []\<rparr>))"
    by code_simp
  then show ?thesis by (simp add: card_node_def Let_def)
qed

lemma featured_node_defined [simp]: "classes_defined (featured_node g)"
proof -
  have "classes_defined (featured_node \<lparr>game_id = 0, game_name = [], description = [], tags = [[]],
           icon = Icon_Brain, featured = True, features = [[]]\<rparr>)"
    by code_simp
  then show ?thesis by (simp add: featured_node_def)
qed

lemma pagination_node_defined [simp]: "classes_defined (pagination_node cur)"
proof -
  have "classes_defined (pagination_node 1)" and "classes_defined (pagination_node 2)"
    and "classes_defined (pagination_node 3)"
    by code_simp+
  then show ?thesis
    by (simp add: pagination_node_def previous_class_def next_class_def link_class_def
        page_numbers_def totalPages_def split: if_splits)
qed

lemma background_node_defined [simp]: "classes_defined background_node"
  by code_simp

lemma upcoming_node_defined [simp]: "classes_defined upcoming_node"
  by code_simp


lemma undefined_link: "undefined_classes config (node_classes (link_node l)) = [''text-review-blue'']"
proof -
  have "undefined_classes config (split_ws ''flex items-center text-review-blue hover:underline'') @
        undefined_classes config (split_ws ''mr-1'') = [''text-review-blue'']" by code_simp
  then show ?thesis by (simp add: link_node_def)
qed

lemma undefined_message:
  "set (undefined_classes config (node_classes (message_node m))) \<subseteq> {''text-review-blue''}"
proof -
  have "undefined_classes config (split_ws ''flex justify-start'') = []"
    and "undefined_classes config (split_ws ''flex justify-end'') = []"
    and "undefined_classes config (split_ws ''max-w-[80%] rounded-lg p-3 bg-gray-100 text-gray-800'') = []"
    and "undefined_classes config (split_ws ''max-w-[80%] rounded-lg p-3 bg-review-darkblue text-white'') = []"
    and "undefined_classes config (split_ws ''mt-2 space-y-1'') = []"
    by code_simp+
  then show ?thesis
    by (cases "isBot m")
       (auto simp: message_node_def set_undefined_classes_concat undefined_link
          split: option.split if_splits)
qed


lemma undefined_static:
  "undefined_classes config (node_classes chat_header) = []"
  "undefined_classes config (node_classes typing_node) = []"
  "undefined_classes config (node_classes (chat_form v)) = [''focus:ring-review-blue'', ''hover:bg-review-blue'']"
  "undefined_classes config (node_classes open_button) = [''hover:bg-review-blue'']"
  "undefined_classes config (split_ws ''fixed bottom-4 right-4 flex flex-col z-50'') = []"
  "undefined_classes config (split_ws ''bg-white rounded-lg shadow-lg mb-2 w-80 sm:w-96 flex flex-col h-96 max-h-[80vh] overflow-hidden'') = []"
  "undefined_classes config (split_ws ''flex-grow overflow-y-auto p-3 space-y-3'') = []"
  by (simp_all add: chat_header_def typing_node_def chat_form_def open_button_def) code_simp+

lemma node_classes_mount:
  "set (node_classes (mount n w v)) \<subseteq> set (node_classes v) \<union> set (node_classes w)"
proof (induction v)
  case (El t attrs cs)
  then show ?case by auto
qed simp

lemma chat_view_hover_blue:
  "''hover:bg-review-blue'' \<in> set (undefined_classes config (node_classes (chat_view st)))"
  by (auto simp: chat_view_def undefined_static set_undefined_classes_concat)

text \<open>Every class the games page's own markup uses is defined.\<close>

lemma games_view_own_classes_defined: "undefined_classes config (node_classes (games_view st)) = []"
proof -
  have lits:
    "undefined_classes config (split_ws ''min-h-screen flex flex-col bg-review-darkblue'') = []"
    "undefined_classes config (split_ws ''flex-grow pt-24 relative z-10'') = []"
    "undefined_classes config (split_ws ''section'') = []"
    "undefined_classes config (split_ws ''container mx-auto'') = []"
    "undefined_classes config (split_ws ''text-center mb-16'') = []"
    "undefined_classes config (split_ws ''text-4xl md:text-5xl font-bold mb-6 text-review-cyan'') = []"
    "undefined_classes config (split_ws ''text-gray-300 max-w-2xl mx-auto'') = []"
    "undefined_classes config (split_ws ''mt-8'') = []"
    "undefined_classes config (split_ws ''text-2xl font-bold text-review-cyan mb-6'') = []"
    "undefined_classes config (split_ws ''grid grid-cols-1 md:grid-cols-2 lg:grid-cols-4 gap-8'') = []"
    by code_simp+
  have "classes_defined (games_view st)"
    by (simp add: games_view_def lits featuredGame_eq)
  then show ?thesis by (simp add: classes_defined_def)
qed

subsection \<open>The specification's scenarios\<close>

lemma intent_chain_hii: "intent_chain (toLowerCase ''hii'') = (Greetings, None)"
  by code_simp

lemma intent_chain_see_games: "intent_chain (toLowerCase ''can I see the games'') = (Safe, None)"
  by code_simp

lemma intent_chain_asdkjasd: "intent_chain (toLowerCase ''asdkjasd'') = (Default, None)"
  by code_simp

lemma submit_then_reply:
  assumes "trim s \<noteq> []"
  shows "last (messages (chat_run init_chat [OpenChat, TypeMessage s, Submit, TimerFires r])) =
    \<lparr>msg_id = 3, msg_text = getRandomResponse r (fst (intent_chain (toLowerCase s))),
     isBot = True, links = snd (intent_chain (toLowerCase s))\<rparr>"
  using assms
  by (simp add: init_chat_def initialMessages_def handleSendMessage_def Let_def)

text \<open>
  C20.  The message \<open>hii\<close> is answered as a greeting (fuzzy match against \<open>hi\<close>): the
  reply is one of the greeting replies and has no links.
\<close>

theorem scenario_hii:
  assumes "0 \<le> r" and "r < 1"
  shows "msg_text (last (messages (chat_run init_chat [OpenChat, TypeMessage ''hii'', Submit,
            TimerFires r]))) \<in> set (botResponses Greetings) \<and>
         links (last (messages (chat_run init_chat [OpenChat, TypeMessage ''hii'', Submit,
            TimerFires r]))) = None"
proof -
  have "trim ''hii'' \<noteq> []" by (simp add: trim_def is_js_space_def)
  from submit_then_reply [OF this] getRandomResponse_mem [OF assms] show ?thesis
    by (simp only: intent_chain_hii fst_conv snd_conv message.select_convs simp_thms)
qed

theorem scenario_hii_witness:
  "msg_text (last (messages (chat_run init_chat [OpenChat, TypeMessage ''hii'', Submit,
      TimerFires 0]))) \<in> set (botResponses Greetings) \<and>
   links (last (messages (chat_run init_chat [OpenChat, TypeMessage ''hii'', Submit,
      TimerFires 0]))) = None"
  by (rule scenario_hii) simp_all

text \<open>
  C7.  The specification expects "can I see the games" to be answered in the games
  category with one link to the games page.  The code answers it in the \<open>safe\<close> category,
  without links: no earlier rule matches, and the word \<open>see\<close> is within distance 2 (the
  tolerance of a 4-letter term) of the trigger \<open>safe\<close>, whose rule comes before the games
  rule.
\<close>

theorem scenario_see_games:
  assumes "0 \<le> r" and "r < 1"
  shows "msg_text (last (messages (chat_run init_chat [OpenChat, TypeMessage ''can I see the games'',
            Submit, TimerFires r]))) \<in> set (botResponses Safe) \<and>
         links (last (messages (chat_run init_chat [OpenChat, TypeMessage ''can I see the games'',
            Submit, TimerFires r]))) = None"
proof -
  have "trim ''can I see the games'' \<noteq> []" by (simp add: trim_def is_js_space_def)
  from submit_then_reply [OF this] getRandomResponse_mem [OF assms] show ?thesis
    by (simp only: intent_chain_see_games fst_conv snd_conv message.select_convs simp_thms)
qed

theorem scenario_see_games_witness:
  "msg_text (last (messages (chat_run init_chat [OpenChat, TypeMessage ''can I see the games'',
      Submit, TimerFires (1 / 2)]))) \<in> set (botResponses Safe) \<and>
   links (last (messages (chat_run init_chat [OpenChat, TypeMessage ''can I see the games'',
      Submit, TimerFires (1 / 2)]))) = None"
  by (rule scenario_see_games) simp_all

text \<open>
  C21.  A message no rule matches, \<open>asdkjasd\<close>, is answered with a fallback reply and no
  links.
\<close>

theorem scenario_fallback:
  assumes "0 \<le> r" and "r < 1"
  shows "msg_text (last (messages (chat_run init_chat [OpenChat, TypeMessage ''asdkjasd'', Submit,
            TimerFires r]))) \<in> set (botResponses Default) \<and>
         links (last (messages (chat_run init_chat [OpenChat, TypeMessage ''asdkjasd'', Submit,
            TimerFires r]))) = None"
proof -
  have "trim ''asdkjasd'' \<noteq> []" by (simp add: trim_def is_js_space_def)
  from submit_then_reply [OF this] getRandomResponse_mem [OF assms] show ?thesis
    by (simp only: intent_chain_asdkjasd fst_conv snd_conv message.select_convs simp_thms)
qed

theorem scenario_fallback_witness:
  "msg_text (last (messages (chat_run init_chat [OpenChat, TypeMessage ''asdkjasd'', Submit,
      TimerFires 0]))) \<in> set (botResponses Default) \<and>
   links (last (messages (chat_run init_chat [OpenChat, TypeMessage ''asdkjasd'', Submit,
      TimerFires 0]))) = None"
  by (rule scenario_fallback) simp_all

subsection \<open>The pages against the Tailwind configuration\<close>

text \<open>
  C30.  In every state the chat widget renders classes that name the colour
  \<open>review-blue\<close>, which the configuration's \<open>review\<close> palette does not define (it has
  \<open>cyan\<close>, \<open>darkblue\<close>, \<open>black\<close>, \<open>gray\<close>, \<open>lightgray\<close>): the hover colour of the chat
  button or of the send button is always missing, and the links' colour and the input's
  focus ring are missing too.  No other class of the widget is undefined.
\<close>

theorem chat_view_undefined_classes:
  "set (undefined_classes config (node_classes (chat_view st))) \<subseteq>
     {''text-review-blue'', ''focus:ring-review-blue'', ''hover:bg-review-blue''} \<and>
   ''hover:bg-review-blue'' \<in> set (undefined_classes config (node_classes (chat_view st)))"
  using undefined_message
  by (auto simp: chat_view_def undefined_static set_undefined_classes_concat)


text \<open>
  C31.  The rendered games page, with the chat widget mounted where \<open>Games.tsx\<close> puts
  \<open><ChatBot />\<close>, uses exactly the undefined classes of the chat widget, in every state of
  both: the page's own custom colours (\<open>review-cyan\<close>, \<open>review-black\<close>,
  \<open>review-darkblue\<close>, with opacity modifiers) and \<open>animate-float\<close> are defined, so the
  only classes without CSS are the widget's \<open>review-blue\<close> ones, and the button's hover
  colour is always among them.
\<close>

theorem games_page_undefined_classes:
  "set (undefined_classes config (node_classes (games_page_view st cst))) =
     set (undefined_classes config (node_classes (chat_view cst))) \<and>
   ''hover:bg-review-blue'' \<in> set (undefined_classes config (node_classes (games_page_view st cst)))"
proof -
  have own: "set (undefined_classes config (node_classes (games_view st))) = {}"
    using games_view_own_classes_defined [of st] by simp
  have sub: "set (node_classes (games_page_view st cst)) \<subseteq>
      set (node_classes (games_view st)) \<union> set (node_classes (chat_view cst))"
    unfolding games_page_view_def by (rule node_classes_mount)
  have sup: "set (node_classes (chat_view cst)) \<subseteq> set (node_classes (games_page_view st cst))"
    by (auto simp: games_page_view_def games_view_def)
  have "set (undefined_classes config (node_classes (games_page_view st cst))) =
      set (undefined_classes config (node_classes (chat_view cst)))"
    using own sub sup by (auto simp: undefined_classes_def)
  with chat_view_hover_blue [of cst] show ?thesis by simp
qed

end
